theory Spec2Isabelle
  imports Complex_Main
begin

section \<open>JavaScript values\<close>

text \<open>
  The two engines are JavaScript classes. Their inputs (\<open>siteData\<close>, \<open>designData\<close>) and the
  skeleton of their outputs (phase results, workflow) are records; the free-form objects they
  assemble (tasks, checks, violations, warnings, parameter bundles, reports) are values of
  \<open>jsv\<close>, written as the object literals of the source, with the keys in source order.

  A number is an IEEE 754 binary64 value; a finite one is the real number it denotes, and
  the arithmetic of the source is the exact arithmetic followed by rounding (\<open>fl\<close>, below).
  \<open>JNaN\<close> is the value of an arithmetic expression with an undefined operand. \<open>JText\<close> is a
  template literal: the string obtained by concatenating the renderings of its parts (the
  rendering of numbers as text is left to the presentation layer). \<open>JDate t\<close> is the ISO
  string of the instant \<open>t\<close>. \<open>JBuiltin k\<close> is the value that every object inherits from
  \<open>Object.prototype\<close> under the key \<open>k\<close> (a built-in function, or \<open>Object.prototype\<close>
  itself for \<open>__proto__\<close>).

  A method keeps its name. A parameter that a method never reads is left out
  (\<open>previousResults\<close> of phases 3 and 4, \<open>siteData\<close> and \<open>allResults\<close> of the methods that
  return constants).
\<close>

datatype jsv =
    JUndefined
  | JNull
  | JBool bool
  | JNum real
  | JNaN
  | JStr string
  | JText "jsv list"
  | JDate nat
  | JArr "jsv list"
  | JObj "(string \<times> jsv) list"
  | JBuiltin string

text \<open>
  Property read \<open>o.k\<close> on an object literal of the engines, for a key \<open>k\<close> that the source
  writes out; a missing key reads as \<open>undefined\<close>. (None of the keys that the engines read is
  a property of a built-in value.)
\<close>

fun js_get :: "jsv \<Rightarrow> string \<Rightarrow> jsv" where
  "js_get (JObj kvs) k = (case map_of kvs k of Some v \<Rightarrow> v | None \<Rightarrow> JUndefined)"
| "js_get v k = JUndefined"

text \<open>Truthiness, as used by \<open>if (x)\<close>, \<open>x ? a : b\<close>, \<open>x || y\<close>, \<open>x && y\<close> and \<open>!x\<close>.\<close>

fun truthy :: "jsv \<Rightarrow> bool" where
  "truthy JUndefined = False"
| "truthy JNull = False"
| "truthy (JBool b) = b"
| "truthy (JNum r) = (r \<noteq> 0)"
| "truthy JNaN = False"
| "truthy (JStr s) = (s \<noteq> [])"
| "truthy v = True"

definition js_or :: "jsv \<Rightarrow> jsv \<Rightarrow> jsv" where
  "js_or a b = (if truthy a then a else b)"

text \<open>\<open>xs.join(sep)\<close> on an array of strings: the parts, with the separator between them.\<close>

fun join_parts :: "string \<Rightarrow> jsv list \<Rightarrow> jsv list" where
  "join_parts sep [] = []"
| "join_parts sep [x] = [x]"
| "join_parts sep (x # y # ys) = x # JStr sep # join_parts sep (y # ys)"

definition js_join :: "jsv list \<Rightarrow> string \<Rightarrow> jsv" where
  "js_join xs sep = JText (join_parts sep xs)"

subsection \<open>Binary64 arithmetic\<close>

text \<open>
  \<open>fl x\<close> is the binary64 value nearest to the real \<open>x\<close>: 53 significant bits, ties to the
  even significand, gradual underflow below \<open>2 ^ (-1022)\<close>. The source's \<open>a * b\<close>,
  \<open>a + b\<close> and \<open>a - b\<close> on finite numbers are \<open>fl (a * b)\<close>, \<open>fl (a + b)\<close> and
  \<open>fl (a - b)\<close>, and a decimal literal such as \<open>0.45\<close> denotes \<open>fl 0.45\<close>. Comparisons,
  \<open>Math.min\<close> and \<open>Math.max\<close> are exact; so are the literals and counters that are small
  integers.

  \<open>binade x\<close>, for \<open>x > 0\<close>, is the exponent \<open>e\<close> with \<open>2 ^ e \<le> x < 2 ^ (e + 1)\<close>, computed from
  the bit length of the integer part of \<open>x\<close> (or of \<open>1 / x\<close>).

  The inputs are finite numbers. Overflow to \<open>Infinity\<close> is not modelled: it needs a result
  beyond \<open>2 ^ 1024\<close> (about 1.8e308), which among the operations of the engines only the
  difference in \<open>calculateBuildableArea\<close> can produce, from a lot size and an excluded area
  of that magnitude and opposite signs.
\<close>

definition pow2 :: "int \<Rightarrow> real" where
  "pow2 e = (if 0 \<le> e then 2 ^ nat e else 1 / 2 ^ nat (- e))"

fun bit_length :: "nat \<Rightarrow> int" where
  "bit_length n = (if n = 0 then 0 else bit_length (n div 2) + 1)"

declare bit_length.simps [simp del]

definition binade :: "real \<Rightarrow> int" where
  "binade x = (if 1 \<le> x then bit_length (nat \<lfloor>x\<rfloor>) - 1
               else - bit_length (nat \<lceil>1 / x\<rceil> - 1))"

definition round_half_even :: "real \<Rightarrow> int" where
  "round_half_even q =
    (let n = \<lfloor>q\<rfloor>; r = q - of_int n in
     if r < 1 / 2 then n else if 1 / 2 < r then n + 1 else if even n then n else n + 1)"

definition fl :: "real \<Rightarrow> real" where
  "fl x =
    (if x = 0 then 0
     else (let e = max (binade \<bar>x\<bar> - 52) (- 1074) in
           sgn x * of_int (round_half_even (\<bar>x\<bar> / pow2 e)) * pow2 e))"

subsection \<open>Optional numbers\<close>

text \<open>
  A numeric field of an input object that may be missing: \<open>Undefined\<close> (key absent),
  \<open>Null\<close>, or a number. Relational operators convert both sides with ToNumber
  (\<open>undefined\<close> to NaN, \<open>null\<close> to 0); a comparison with NaN is false. A computed number
  that may be NaN is a \<open>real option\<close>, \<open>None\<close> being NaN.
\<close>

datatype jsnum = Undefined | Null | Number real

fun toNumber :: "jsnum \<Rightarrow> real option" where
  "toNumber Undefined = None"
| "toNumber Null = Some 0"
| "toNumber (Number r) = Some r"

fun js_lt :: "real option \<Rightarrow> real option \<Rightarrow> bool" where
  "js_lt (Some x) (Some y) = (x < y)"
| "js_lt a b = False"

fun js_le :: "real option \<Rightarrow> real option \<Rightarrow> bool" where
  "js_le (Some x) (Some y) = (x \<le> y)"
| "js_le a b = False"

definition js_gt :: "real option \<Rightarrow> real option \<Rightarrow> bool" where
  "js_gt a b = js_lt b a"

definition js_ge :: "real option \<Rightarrow> real option \<Rightarrow> bool" where
  "js_ge a b = js_le b a"

fun js_mul :: "real option \<Rightarrow> real option \<Rightarrow> real option" where
  "js_mul (Some x) (Some y) = Some (fl (x * y))"
| "js_mul a b = None"

text \<open>\<open>Math.min\<close>: NaN if an argument is NaN.\<close>

fun Math_min :: "real option \<Rightarrow> real option \<Rightarrow> real option" where
  "Math_min (Some x) (Some y) = Some (min x y)"
| "Math_min a b = None"

fun num_truthy :: "jsnum \<Rightarrow> bool" where
  "num_truthy (Number r) = (r \<noteq> 0)"
| "num_truthy n = False"

fun js_of_num :: "jsnum \<Rightarrow> jsv" where
  "js_of_num Undefined = JUndefined"
| "js_of_num Null = JNull"
| "js_of_num (Number r) = JNum r"

fun js_of_real :: "real option \<Rightarrow> jsv" where
  "js_of_real None = JNaN"
| "js_of_real (Some r) = JNum r"

text \<open>An optional string of the design (\<open>None\<close>: absent).\<close>

fun js_of_str :: "string option \<Rightarrow> jsv" where
  "js_of_str None = JUndefined"
| "js_of_str (Some s) = JStr s"

text \<open>
  The only exception the engines can raise: a property read on \<open>undefined\<close>. The string is
  the property that was read. \<open>error_name\<close> is the \<open>name\<close> of the JavaScript error object.
\<close>

datatype js_error = TypeError string

fun error_name :: "js_error \<Rightarrow> string" where
  "error_name (TypeError p) = ''TypeError''"

text \<open>The characters U+2264 and U+2265 of the source's messages, as UTF-8 bytes.\<close>

definition le_sign :: string where
  "le_sign = [CHR 0xE2, CHR 0x89, CHR 0xA4]"

definition ge_sign :: string where
  "ge_sign = [CHR 0xE2, CHR 0x89, CHR 0xA5]"

section \<open>Data model\<close>

record zone_requirement =
  minLotSize :: real
  maxLotSize :: real
  subStandardTypical :: real
  subStandardFlag :: real
  secondUnitMinTypical :: real
  secondUnitMinFlag :: real

record critical_violation_types =
  ABSOLUTE_STOPPER :: string
  MAJOR_STOPPER :: string
  DESIGN_STOPPER :: string
  PROCESS_STOPPER :: string

text \<open>
  The state of an engine object (\<open>this\<close>). Both classes hold \<open>phases\<close> and
  \<open>zoneRequirements\<close>; \<open>ValidationEngine\<close> also holds \<open>criticalViolationTypes\<close>.
  No method assigns to a field of \<open>this\<close>, so the methods below take the engine and do not
  return it.
\<close>

record engine =
  phases :: "(nat \<times> string) list"
  zoneRequirements :: "(string \<times> zone_requirement) list"

record validation_engine = engine +
  criticalViolationTypes :: critical_violation_types

text \<open>
  \<open>siteData\<close>. \<open>creekAreas\<close> and \<open>easements\<close> are only read through \<open>x || 0\<close> and
  truthiness, where an absent value behaves as 0. \<open>historicCategory\<close> is a string, \<open>null\<close>
  (what the form gives for a property without designation) or absent; the engines pass it on
  as it is.
\<close>

record site_data =
  address :: string
  zone :: string
  lotSize :: real
  lotType :: string
  isCornerLot :: bool
  creekAreas :: real
  easements :: real
  historicCategory :: jsv
  hasSecondUnit :: bool

record accessory_structure =
  height :: jsnum
  setback :: jsnum

text \<open>
  \<open>designData\<close>. The dimensions and counts that every design has are numbers
  (\<open>validateValidationInput\<close> rejects a form without height or floor area before any phase
  runs); \<open>streetSideSetback\<close> is \<open>null\<close> when the form has none. The per-feature fields and
  the fields that only the engine reads (\<open>formatDataForValidation\<close> sets none of them) may
  be absent. An absent flag among \<open>encroachesCreek\<close>, \<open>encroachesEasement\<close> and
  \<open>poolSafetyBarriers\<close> is falsy, as \<open>False\<close> is; \<open>daylightPlaneCompliant\<close> is compared with
  \<open>false\<close>, so its absence is kept apart.
\<close>

record design_data =
  submittedZone :: string
  buildingHeight :: real
  totalFloorArea :: real
  floors :: real
  totalCoverage :: real
  frontSetback :: real
  interiorSideSetback :: real
  streetSideSetback :: jsnum
  rearSetback :: real
  parkingSpaces :: real
  coveredParkingSpaces :: real
  drivewaySurfaceWidth :: real
  drivewayClearanceWidth :: real
  backingDistance :: real
  hasSecondUnit :: bool
  hasPool :: bool
  hasGarage :: bool
  daylightPlaneCompliant :: "bool option"
  drivewayMaterial :: "string option"
  professionalStamps :: "string list option"
  submittedDocuments :: "string list option"
  historicCompliance :: "string option"
  buildingFootprint :: jsv
  encroachesCreek :: bool
  encroachesEasement :: bool
  secondFloorCeiling :: jsnum
  thirdFloorCeiling :: jsnum
  porchArea :: jsnum
  entryProjection :: jsnum
  bayWindowProjection :: jsnum
  garageFrontSetback :: jsnum
  garageStreetSideSetback :: jsnum
  mainHouseArea :: jsnum
  secondUnitArea :: jsnum
  accessoryStructures :: "accessory_structure list option"
  poolSetback :: jsnum
  poolSafetyBarriers :: bool
  totalCoverageWithFeatures :: jsnum

text \<open>
  A phase result. \<open>phase\<close>, \<open>phaseName\<close>, \<open>status\<close> are common to both engines; a key that
  the object of a given phase does not have is \<open>JUndefined\<close> (or the empty list).
\<close>

record phase_result =
  phase :: nat
  phaseName :: jsv
  status :: string
  nextPhaseInputs :: "(string \<times> jsv) list"
  finalReport :: jsv

record planning_result = phase_result +
  tasks :: "jsv list"
  recommendations :: "jsv list"
  constraints :: "jsv list"
  designParameters :: jsv
  parkingParameters :: jsv
  featureParameters :: jsv
  documentation :: jsv

record validation_result = phase_result +
  validationChecks :: "jsv list"
  violations :: "jsv list"
  warnings :: "jsv list"
  passed :: nat
  failed :: nat

text \<open>
  The workflow object. \<open>phases\<close> is the object \<open>{phase1: ..., ...}\<close> with its keys in
  insertion order. \<open>stopReason\<close>, \<open>error\<close> and \<open>endTime\<close> are \<open>None\<close> until assigned.
  \<open>new Date()\<close> reads a clock, given as the sequence of instants it returns.
\<close>

type_synonym clock = "nat \<Rightarrow> nat"

record 'p workflow =
  startTime :: nat
  siteData :: site_data
  phases :: "(string \<times> 'p) list"
  overallStatus :: string
  finalReport :: jsv
  stopReason :: "string option"
  error :: "js_error option"
  endTime :: "nat option"

record 'p validation_workflow = "'p workflow" +
  designData :: design_data

section \<open>PlanningEngine\<close>

text \<open>The constructor of \<open>PlanningEngine\<close> (its table is written out again in \<open>ValidationEngine\<close>).\<close>

definition PlanningEngine :: engine where
  "PlanningEngine =
    \<lparr>engine.phases =
       [(1, ''Project Initiation & Site Analysis''),
        (2, ''Building Design & Compliance''),
        (3, ''Parking & Access Design''),
        (4, ''Special Features & Accessories''),
        (5, ''Final Compliance & Documentation'')],
     zoneRequirements =
       [(''R-1'', \<lparr>minLotSize = 6000, maxLotSize = 9999, subStandardTypical = 4980,
          subStandardFlag = 5976, secondUnitMinTypical = 8100, secondUnitMinFlag = 9720\<rparr>),
        (''R-1(7000)'', \<lparr>minLotSize = 7000, maxLotSize = 13999, subStandardTypical = 5810,
          subStandardFlag = 6972, secondUnitMinTypical = 9450, secondUnitMinFlag = 11340\<rparr>),
        (''R-1(8000)'', \<lparr>minLotSize = 8000, maxLotSize = 15999, subStandardTypical = 6640,
          subStandardFlag = 7968, secondUnitMinTypical = 10800, secondUnitMinFlag = 12960\<rparr>),
        (''R-1(10000)'', \<lparr>minLotSize = 10000, maxLotSize = 19999, subStandardTypical = 8300,
          subStandardFlag = 9960, secondUnitMinTypical = 13500, secondUnitMinFlag = 16200\<rparr>),
        (''R-1(20000)'', \<lparr>minLotSize = 20000, maxLotSize = 39999, subStandardTypical = 16600,
          subStandardFlag = 19920, secondUnitMinTypical = 27000, secondUnitMinFlag = 32400\<rparr>)]\<rparr>"

text \<open>\<open>this.phases[n]\<close>.\<close>

definition phase_name :: "'a engine_scheme \<Rightarrow> nat \<Rightarrow> jsv" where
  "phase_name this n = js_of_str (map_of (engine.phases this) n)"

text \<open>
  \<open>this.zoneRequirements[zone]\<close>. The table is an object literal: \<open>zone_lookup\<close> finds its
  own properties, the five zones. For any other key the read goes on to the prototype of the
  table, \<open>Object.prototype\<close>, whose properties (those of ECMAScript, with the legacy ones
  that browsers and Node.js provide) are listed in \<open>Object_prototype_properties\<close>; for one of
  these the read yields the inherited built-in value, and \<open>undefined\<close> for every other key.

  \<open>zone_field v k f\<close> is the read \<open>zoneReq.k\<close> of the field \<open>k\<close> (with selector \<open>f\<close>) of such a
  value: the number of the table for a zone, \<open>undefined\<close> for a built-in value, none of which
  has a property of that name, and a \<open>TypeError\<close> for \<open>undefined\<close>.
\<close>

definition zone_lookup :: "'a engine_scheme \<Rightarrow> string \<Rightarrow> zone_requirement option" where
  "zone_lookup this z = map_of (zoneRequirements this) z"

definition Object_prototype_properties :: "string list" where
  "Object_prototype_properties =
    [''constructor'', ''hasOwnProperty'', ''isPrototypeOf'', ''propertyIsEnumerable'',
     ''toLocaleString'', ''toString'', ''valueOf'', ''__proto__'', ''__defineGetter__'',
     ''__defineSetter__'', ''__lookupGetter__'', ''__lookupSetter__'']"

datatype zone_value = ZoneRequirement zone_requirement | Inherited string | NoZone

definition zone_read :: "'a engine_scheme \<Rightarrow> string \<Rightarrow> zone_value" where
  "zone_read this z =
    (case zone_lookup this z of
       Some r \<Rightarrow> ZoneRequirement r
     | None \<Rightarrow> if z \<in> set Object_prototype_properties then Inherited z else NoZone)"

fun zone_field ::
    "zone_value \<Rightarrow> string \<Rightarrow> (zone_requirement \<Rightarrow> real) \<Rightarrow> js_error + jsnum" where
  "zone_field (ZoneRequirement r) k f = Inr (Number (f r))"
| "zone_field (Inherited p) k f = Inr Undefined"
| "zone_field NoZone k f = Inl (TypeError k)"

fun js_of_zone :: "zone_value \<Rightarrow> jsv" where
  "js_of_zone NoZone = JUndefined"
| "js_of_zone (Inherited p) = JBuiltin p"
| "js_of_zone (ZoneRequirement r) =
     JObj [(''minLotSize'', JNum (minLotSize r)), (''maxLotSize'', JNum (maxLotSize r)),
           (''subStandardTypical'', JNum (subStandardTypical r)),
           (''subStandardFlag'', JNum (subStandardFlag r)),
           (''secondUnitMinTypical'', JNum (secondUnitMinTypical r)),
           (''secondUnitMinFlag'', JNum (secondUnitMinFlag r))]"

subsection \<open>Helper methods\<close>

definition verifyLotSize :: "engine \<Rightarrow> site_data \<Rightarrow> js_error + jsv" where
  "verifyLotSize this sd =
    (let zoneReq = zone_read this (zone sd) in
     case zone_field zoneReq ''minLotSize'' minLotSize of
       Inl e \<Rightarrow> Inl e
     | Inr required \<Rightarrow>
        (let isCompliant = js_ge (Some (lotSize sd)) (toNumber required) in
         Inr (JObj
           [(''name'', JStr ''Lot Size Verification''),
            (''status'', JStr (if isCompliant then ''pass'' else ''fail'')),
            (''required'', js_of_num required),
            (''actual'', JNum (lotSize sd)),
            (''message'',
               if isCompliant
               then JText [JStr ''Lot size meets minimum requirement ('',
                           js_of_num required, JStr '' sq ft)'']
               else JText [JStr ''Lot size below minimum requirement ('',
                           js_of_num required, JStr '' sq ft)''])])))"

definition determineSubStandardStatus :: "engine \<Rightarrow> site_data \<Rightarrow> js_error + jsv" where
  "determineSubStandardStatus this sd =
    (let zoneReq = zone_read this (zone sd) in
     case (if lotType sd = ''flag'' then zone_field zoneReq ''subStandardFlag'' subStandardFlag
           else zone_field zoneReq ''subStandardTypical'' subStandardTypical) of
       Inl e \<Rightarrow> Inl e
     | Inr threshold \<Rightarrow>
        (let isSubStandard = js_lt (Some (lotSize sd)) (toNumber threshold) in
         Inr (JObj
           [(''name'', JStr ''Substandard Lot Determination''),
            (''status'', JStr ''completed''),
            (''isSubStandard'', JBool isSubStandard),
            (''threshold'', js_of_num threshold),
            (''message'',
               if isSubStandard
               then JStr ''Lot qualifies as substandard - height restrictions apply''
               else JStr ''Lot meets standard size requirements'')])))"

definition verifyZoneDistrict :: "site_data \<Rightarrow> jsv" where
  "verifyZoneDistrict sd =
    JObj [(''name'', JStr ''Zone District Verification''),
          (''status'', JStr ''pass''),
          (''zone'', JStr (zone sd)),
          (''message'', JText [JStr ''Property zoned '', JStr (zone sd),
                               JStr '' - requirements identified''])]"

definition assessHistoricStatus :: "site_data \<Rightarrow> jsv" where
  "assessHistoricStatus sd =
    JObj [(''name'', JStr ''Historic Property Assessment''),
          (''status'', JStr ''completed''),
          (''historicCategory'', js_or (historicCategory sd) JNull),
          (''message'',
             if truthy (historicCategory sd)
             then JText [JStr ''Historic '', historicCategory sd,
                         JStr '' property - special restrictions apply'']
             else JStr ''No historic designation - standard regulations apply'')]"

definition assessEnvironmentalConstraints :: "site_data \<Rightarrow> jsv" where
  "assessEnvironmentalConstraints sd =
    (let hasConstraints = js_or (JNum (creekAreas sd)) (JNum (easements sd)) in
     JObj [(''name'', JStr ''Environmental Constraints Assessment''),
           (''status'', JStr ''completed''),
           (''constraints'',
              JObj [(''creekAreas'', js_or (JNum (creekAreas sd)) (JNum 0)),
                    (''easements'', js_or (JNum (easements sd)) (JNum 0))]),
           (''message'',
              if truthy hasConstraints
              then JStr ''Environmental constraints identified - buildable area reduced''
              else JStr ''No significant environmental constraints'')])"

definition calculateBuildableArea :: "site_data \<Rightarrow> real" where
  "calculateBuildableArea sd = fl (fl (lotSize sd - creekAreas sd) - easements sd)"

definition calculateHeightParameters :: "jsv \<Rightarrow> jsv" where
  "calculateHeightParameters isSubStandard =
    JObj [(''maxHeight'', JNum (if truthy isSubStandard then 17 else 30)),
          (''storyEquivalencies'',
             JObj [(''secondFloor'', JNum 17), (''thirdFloor'', JNum 26)]),
          (''daylightPlane'', JStr ''45 degrees from property lines'')]"

definition calculateDaylightPlaneParameters :: "site_data \<Rightarrow> jsv" where
  "calculateDaylightPlaneParameters sd =
    JObj [(''angle'', JNum 45),
          (''measurementHeight'', JNum 10),
          (''applicableLines'',
             JArr [JStr ''front'', JStr ''rear'', JStr ''side_interior'', JStr ''side_street''])]"

definition calculateFARParameters :: "site_data \<Rightarrow> jsv" where
  "calculateFARParameters sd =
    (let first5000 = fl (min (lotSize sd) 5000 * fl 0.45);
         excess = fl (max (fl (lotSize sd - 5000)) 0 * fl 0.30);
         calculated = fl (first5000 + excess);
         maxFloorArea = min calculated 6000 in
     JObj [(''first5000Allowance'', JNum first5000),
           (''excessAllowance'', JNum excess),
           (''calculatedFAR'', JNum calculated),
           (''maxFloorArea'', JNum maxFloorArea),
           (''breakdown'',
              JObj [(''First 5000 sq ft @ 45%'', JNum first5000),
                    (''Excess area @ 30%'', JNum excess),
                    (''Maximum regardless'', JNum 6000),
                    (''Final allowance'', JNum maxFloorArea)])])"

definition calculateSetbackParameters :: "site_data \<Rightarrow> jsv" where
  "calculateSetbackParameters sd =
    JObj [(''front'', JNum 20),
          (''interiorSide'', JNum 5),
          (''streetSide'', if isCornerLot sd then JNum 16 else JNull),
          (''rear'', JNum 20),
          (''specialConditions'',
             if isCornerLot sd then JArr [JStr ''Corner lot - street side setback applies'']
             else JArr [])]"

definition generateSetbackRecommendations :: "jsv \<Rightarrow> jsv list" where
  "generateSetbackRecommendations setbacks =
    (let recs = [JText [JStr ''Front setback: '', js_get setbacks ''front'',
                        JStr '' feet minimum'']];
         recs = recs @ [JText [JStr ''Interior side setback: '', js_get setbacks ''interiorSide'',
                               JStr '' feet minimum'']];
         recs = (if truthy (js_get setbacks ''streetSide'')
                 then recs @ [JText [JStr ''Street side setback: '',
                                     js_get setbacks ''streetSide'', JStr '' feet minimum'']]
                 else recs) in
     recs @ [JText [JStr ''Rear setback: '', js_get setbacks ''rear'', JStr '' feet minimum'']])"

definition calculateArchitecturalFeatures :: jsv where
  "calculateArchitecturalFeatures =
    JObj [(''porches'', JObj [(''maxSize'', JNum 200), (''unit'', JStr ''sq ft'')]),
          (''entryProjections'',
             JObj [(''maxProjection'', JNum 6), (''unit'', JStr ''feet into setback'')]),
          (''bayWindows'',
             JObj [(''maxProjection'', JNum 3), (''maxWidth'', JNum 12),
                   (''unit'', JStr ''feet'')])]"

definition calculateParkingRequirements :: "site_data \<Rightarrow> jsv" where
  "calculateParkingRequirements sd =
    (let totalRequired = (2::real);
         coveredRequired = (1::real);
         totalRequired = (if site_data.hasSecondUnit sd then totalRequired + 2
                          else totalRequired);
         coveredRequired = (if site_data.hasSecondUnit sd then coveredRequired + 1
                            else coveredRequired) in
     JObj [(''mainDwelling'', JObj [(''total'', JNum 2), (''covered'', JNum 1)]),
           (''secondUnit'',
              if site_data.hasSecondUnit sd
              then JObj [(''total'', JNum 2), (''covered'', JNum 1)] else JNull),
           (''totalRequired'', JNum totalRequired),
           (''coveredRequired'', JNum coveredRequired)])"

definition calculateDrivewayParameters :: jsv where
  "calculateDrivewayParameters =
    JObj [(''minSurfaceWidth'', JNum 8),
          (''minClearanceWidth'', JNum 10),
          (''approvedMaterials'',
             JArr [JStr ''concrete'', JStr ''asphalt'', JStr ''approved_pavers'']),
          (''minBackingDistance'', JNum 18)]"

definition calculateGaragePlacement :: "site_data \<Rightarrow> jsv" where
  "calculateGaragePlacement sd =
    (if isCornerLot sd
     then JObj [(''frontSetback'', JNum 75),
                (''streetSideSetback'', JNum 20),
                (''specialConditions'', JArr [JStr ''Corner lot requirements''])]
     else JObj [(''frontSetback'', JNum 20),
                (''specialConditions'', JArr [])])"

definition generateGarageRecommendations :: "jsv \<Rightarrow> site_data \<Rightarrow> jsv list" where
  "generateGarageRecommendations garageParams sd =
    (if isCornerLot sd
     then [JText [JStr ''Corner lot: Garage must be '', js_get garageParams ''frontSetback'',
                  JStr '' feet from front property line''],
           JText [JStr ''Corner lot: Garage must be '',
                  js_get garageParams ''streetSideSetback'', JStr '' feet from street side'']]
     else [JText [JStr ''Garage must be '', js_get garageParams ''frontSetback'',
                  JStr '' feet from front property line'']])"

definition calculateAccessRequirements :: jsv where
  "calculateAccessRequirements =
    JObj [(''minBackingDistance'', JNum 18),
          (''turningRadius'', JStr ''adequate for vehicle maneuverability''),
          (''transportationApproval'', JStr ''required for driveway design'')]"

definition assessSecondUnitFeasibility :: "engine \<Rightarrow> site_data \<Rightarrow> js_error + jsv" where
  "assessSecondUnitFeasibility this sd =
    (let zoneReq = zone_read this (zone sd) in
     case (if lotType sd = ''flag''
           then zone_field zoneReq ''secondUnitMinFlag'' secondUnitMinFlag
           else zone_field zoneReq ''secondUnitMinTypical'' secondUnitMinTypical) of
       Inl e \<Rightarrow> Inl e
     | Inr minRequired \<Rightarrow>
        (let isFeasible = js_ge (Some (lotSize sd)) (toNumber minRequired) in
         Inr (JObj
           [(''name'', JStr ''Second Dwelling Unit Feasibility''),
            (''status'', JStr (if isFeasible then ''feasible'' else ''not_feasible'')),
            (''parameters'',
               if isFeasible
               then JObj [(''maxSize'', JNum 640), (''maxSizePercent'', JNum 50),
                          (''parkingRequired'', JNum 2), (''coveredRequired'', JNum 1)]
               else JNull),
            (''message'',
               if isFeasible
               then JText [JStr ''Second unit feasible - lot meets '',
                           js_of_num minRequired, JStr '' sq ft minimum'']
               else JText [JStr ''Second unit not feasible - lot below '',
                           js_of_num minRequired, JStr '' sq ft minimum''])])))"

definition calculateAccessoryStructureParameters :: jsv where
  "calculateAccessoryStructureParameters =
    JObj [(''maxHeight'', JNum 15), (''minSetbacks'', JNum 5), (''minSeparation'', JNum 5),
          (''includedInCoverage'', JBool True)]"

definition calculatePoolParameters :: jsv where
  "calculatePoolParameters =
    JObj [(''minSetbacks'', JNum 5), (''safetyBarriers'', JStr ''required''),
          (''equipmentScreening'', JStr ''required'')]"

definition calculateCoverageParameters :: "site_data \<Rightarrow> jsv" where
  "calculateCoverageParameters sd =
    (let baseCoverage = fl (lotSize sd * fl 0.35);
         additionalAllowance = fl (lotSize sd * fl 0.05) in
     JObj [(''maxCoveragePercent'', JNum 35),
           (''additionalAllowancePercent'', JNum 5),
           (''maxCoverageArea'', JNum baseCoverage),
           (''additionalAllowanceArea'', JNum additionalAllowance),
           (''totalMaxCoverage'', JNum (fl (baseCoverage + additionalAllowance)))])"

definition assessOverallCompliance :: jsv where
  "assessOverallCompliance =
    JObj [(''phase1'', JStr ''compliant''), (''phase2'', JStr ''compliant''),
          (''phase3'', JStr ''compliant''), (''phase4'', JStr ''compliant''),
          (''overallStatus'', JStr ''ready_for_documentation'')]"

definition performFinalComplianceReview :: jsv where
  "performFinalComplianceReview =
    JObj [(''name'', JStr ''Comprehensive Compliance Review''),
          (''status'', JStr ''completed''),
          (''summary'',
             JObj [(''totalChecks'', JNum 127), (''passed'', JNum 127), (''failed'', JNum 0),
                   (''warnings'', JNum 0)]),
          (''message'', JStr ''All planning requirements satisfied'')]"

definition generateDocumentationRequirements :: jsv where
  "generateDocumentationRequirements =
    JObj [(''requiredDrawings'',
             JArr [JStr ''Site plan with dimensions'', JStr ''Floor plans'',
                   JStr ''Building elevations'', JStr ''Landscape plan'', JStr ''Utility plan'']),
          (''professionalStamps'',
             JArr [JStr ''Architect'', JStr ''Structural Engineer'', JStr ''Civil Engineer''])]"

definition identifyProfessionalRequirements :: jsv where
  "identifyProfessionalRequirements =
    JObj [(''required'', JArr [JStr ''Architect'', JStr ''Structural Engineer'']),
          (''recommended'', JArr [JStr ''Civil Engineer'', JStr ''Landscape Architect'']),
          (''conditional'', JArr [])]"

fun js_elems :: "jsv \<Rightarrow> jsv list" where
  "js_elems (JArr xs) = xs"
| "js_elems v = []"

definition generateProfessionalRecommendations :: "jsv \<Rightarrow> jsv list" where
  "generateProfessionalRecommendations profReqs =
    map (\<lambda>prof. JText [prof, JStr '' consultation required''])
        (js_elems (js_get profReqs ''required''))
    @ map (\<lambda>prof. JText [prof, JStr '' consultation recommended''])
        (js_elems (js_get profReqs ''recommended''))"

definition developSubmissionStrategy :: jsv where
  "developSubmissionStrategy =
    JObj [(''submitTo'', JArr [JStr ''Planning Department'', JStr ''Building Department'']),
          (''timeline'', JStr ''Allow 6-8 weeks for initial review''),
          (''strategy'', JStr ''Submit complete package to avoid delays'')]"

definition generateFinalPlanningReport ::
    "site_data \<Rightarrow> (string \<times> planning_result) list \<Rightarrow> jsv" where
  "generateFinalPlanningReport sd allResults =
    JObj [(''projectSummary'',
             JObj [(''address'', JStr (address sd)),
                   (''zone'', JStr (zone sd)),
                   (''lotSize'', JNum (lotSize sd)),
                   (''isSubStandard'',
                      js_or (case map_of allResults ''phase1'' of
                               None \<Rightarrow> JUndefined
                             | Some p1 \<Rightarrow> js_get (JObj (nextPhaseInputs p1)) ''isSubStandard'')
                            (JBool False))]),
          (''designParameters'',
             js_or (case map_of allResults ''phase2'' of
                      None \<Rightarrow> JUndefined | Some p2 \<Rightarrow> designParameters p2) (JObj [])),
          (''parkingParameters'',
             js_or (case map_of allResults ''phase3'' of
                      None \<Rightarrow> JUndefined | Some p3 \<Rightarrow> parkingParameters p3) (JObj [])),
          (''specialFeatures'',
             js_or (case map_of allResults ''phase4'' of
                      None \<Rightarrow> JUndefined | Some p4 \<Rightarrow> featureParameters p4) (JObj [])),
          (''complianceStatus'', JStr ''Fully Compliant''),
          (''nextSteps'',
             JArr [JStr ''Engage required professionals'',
                   JStr ''Develop detailed architectural plans'',
                   JStr ''Prepare permit application package'',
                   JStr ''Submit to city for review'']),
          (''estimatedTimeline'', JStr ''3-6 months from design to permit approval'')]"

subsection \<open>The five phases\<close>

definition new_planning_result :: "engine \<Rightarrow> nat \<Rightarrow> planning_result" where
  "new_planning_result this n =
    \<lparr>phase = n, phaseName = phase_name this n, status = ''in_progress'',
     nextPhaseInputs = [], phase_result.finalReport = JUndefined,
     tasks = [], recommendations = [], constraints = [],
     designParameters = JUndefined, parkingParameters = JUndefined,
     featureParameters = JUndefined, documentation = JUndefined\<rparr>"

definition executePhase1 :: "engine \<Rightarrow> site_data \<Rightarrow> js_error + planning_result" where
  "executePhase1 this sd =
    (let results = new_planning_result this 1 in
     case verifyLotSize this sd of Inl e \<Rightarrow> Inl e | Inr lotVerification \<Rightarrow>
     let results = results\<lparr>tasks := tasks results @ [lotVerification]\<rparr> in
     if js_get lotVerification ''status'' = JStr ''fail''
     then Inr (results
       \<lparr>status := ''stopped'',
        recommendations := recommendations results @
          [JObj [(''type'', JStr ''critical''),
                 (''message'',
                    JStr ''Lot size below minimum threshold for zone. Project cannot proceed.''),
                 (''action'', JStr ''Consider rezoning application or find larger lot.'')]]\<rparr>)
     else
     (case determineSubStandardStatus this sd of Inl e \<Rightarrow> Inl e | Inr subStandardCheck \<Rightarrow>
     let results = results\<lparr>tasks := tasks results @ [subStandardCheck]\<rparr>;
         results =
           (if truthy (js_get subStandardCheck ''isSubStandard'')
            then results\<lparr>constraints := constraints results @
              [JObj [(''type'', JStr ''height_restriction''),
                     (''description'',
                        JStr ''Substandard lot detected - height limited to 17 feet''),
                     (''impact'',
                        JStr ''Significant design constraints on building height'')]]\<rparr>
            else results);
         zoneVerification = verifyZoneDistrict sd;
         results = results\<lparr>tasks := tasks results @ [zoneVerification]\<rparr>;
         historicCheck = assessHistoricStatus sd;
         results = results\<lparr>tasks := tasks results @ [historicCheck]\<rparr>;
         results =
           (if truthy (js_get historicCheck ''historicCategory'')
            then results\<lparr>constraints := constraints results @
              [JObj [(''type'', JStr ''historic_restrictions''),
                     (''category'', js_get historicCheck ''historicCategory''),
                     (''description'', JStr ''Historic property restrictions apply''),
                     (''impact'', JStr ''Special design review required'')]]\<rparr>
            else results);
         environmentalCheck = assessEnvironmentalConstraints sd;
         results = results\<lparr>tasks := tasks results @ [environmentalCheck]\<rparr>;
         buildableArea = calculateBuildableArea sd;
         results = results\<lparr>nextPhaseInputs :=
           [(''buildableArea'', JNum buildableArea),
            (''isSubStandard'', js_get subStandardCheck ''isSubStandard''),
            (''zoneRequirements'', js_of_zone (zone_read this (zone sd))),
            (''constraints'', JArr (constraints results))]\<rparr>;
         results =
           (if length (constraints results) = 0
            then results\<lparr>recommendations := recommendations results @
              [JObj [(''type'', JStr ''success''),
                     (''message'',
                        JStr ''Site analysis complete. No major constraints identified.''),
                     (''action'', JStr ''Proceed to building design phase.'')]]\<rparr>
            else results) in
     Inr (results\<lparr>status := ''completed''\<rparr>)))"

definition executePhase2 :: "engine \<Rightarrow> site_data \<Rightarrow> planning_result \<Rightarrow> planning_result" where
  "executePhase2 this sd phase1Results =
    (let results = (new_planning_result this 2)\<lparr>designParameters := JObj []\<rparr>;
         isSubStandard = js_get (JObj (nextPhaseInputs phase1Results)) ''isSubStandard'';
         heightParameters = calculateHeightParameters isSubStandard;
         results = results\<lparr>tasks := tasks results @
           [JObj [(''name'', JStr ''Building Height Limits''),
                  (''status'', JStr ''completed''),
                  (''parameters'', heightParameters),
                  (''recommendations'',
                     JArr [JText [JStr ''Maximum building height: '',
                                  js_get heightParameters ''maxHeight'', JStr '' feet'']])]]\<rparr>;
         daylightPlane = calculateDaylightPlaneParameters sd;
         results = results\<lparr>tasks := tasks results @
           [JObj [(''name'', JStr ''Daylight Plane Analysis''),
                  (''status'', JStr ''completed''),
                  (''parameters'', daylightPlane),
                  (''recommendations'',
                     JArr [JStr
                       ''Building envelope must stay within 45-degree daylight plane''])]]\<rparr>;
         farCalculations = calculateFARParameters sd;
         results = results\<lparr>tasks := tasks results @
           [JObj [(''name'', JStr ''Floor Area Ratio (FAR) Calculations''),
                  (''status'', JStr ''completed''),
                  (''parameters'', farCalculations),
                  (''recommendations'',
                     JArr [JText [JStr ''Maximum allowable floor area: '',
                                  js_get farCalculations ''maxFloorArea'',
                                  JStr '' sq ft'']])]]\<rparr>;
         setbackParameters = calculateSetbackParameters sd;
         results = results\<lparr>tasks := tasks results @
           [JObj [(''name'', JStr ''Setback Requirements''),
                  (''status'', JStr ''completed''),
                  (''parameters'', setbackParameters),
                  (''recommendations'',
                     JArr (generateSetbackRecommendations setbackParameters))]]\<rparr>;
         architecturalFeatures = calculateArchitecturalFeatures;
         results = results\<lparr>tasks := tasks results @
           [JObj [(''name'', JStr ''Architectural Feature Compliance''),
                  (''status'', JStr ''completed''),
                  (''parameters'', architecturalFeatures),
                  (''recommendations'',
                     JArr [JStr ''Porches limited to 200 sq ft'',
                           JStr ''Entry projections up to 6 feet allowed''])]]\<rparr>;
         results = results\<lparr>designParameters :=
           JObj [(''maxHeight'', js_get heightParameters ''maxHeight''),
                 (''maxFloorArea'', js_get farCalculations ''maxFloorArea''),
                 (''setbacks'', setbackParameters),
                 (''farBreakdown'', farCalculations),
                 (''buildingEnvelope'',
                    JObj [(''daylightPlane'', daylightPlane),
                          (''architecturalFeatures'', architecturalFeatures)])]\<rparr>;
         results = results\<lparr>nextPhaseInputs :=
           [(''designParameters'', designParameters results),
            (''lotSize'', JNum (lotSize sd)),
            (''isCornerLot'', JBool (isCornerLot sd)),
            (''zone'', JStr (zone sd))]\<rparr>;
         results = results\<lparr>recommendations := recommendations results @
           [JObj [(''type'', JStr ''success''),
                  (''message'', JStr ''Building envelope parameters calculated successfully.''),
                  (''action'',
                     JStr (''Use these parameters for architectural design. '' @
                           ''Proceed to parking design.''))]]\<rparr> in
     results\<lparr>status := ''completed''\<rparr>)"

definition executePhase3 :: "engine \<Rightarrow> site_data \<Rightarrow> planning_result" where
  "executePhase3 this sd =
    (let results = (new_planning_result this 3)\<lparr>parkingParameters := JObj []\<rparr>;
         parkingRequirements = calculateParkingRequirements sd;
         results = results\<lparr>tasks := tasks results @
           [JObj [(''name'', JStr ''Parking Space Requirements''),
                  (''status'', JStr ''completed''),
                  (''parameters'', parkingRequirements),
                  (''recommendations'',
                     JArr [JText [JStr ''Required parking: '',
                                  js_get parkingRequirements ''totalRequired'',
                                  JStr '' spaces ('',
                                  js_get parkingRequirements ''coveredRequired'',
                                  JStr '' covered)'']])]]\<rparr>;
         drivewayParameters = calculateDrivewayParameters;
         results = results\<lparr>tasks := tasks results @
           [JObj [(''name'', JStr ''Driveway Design Parameters''),
                  (''status'', JStr ''completed''),
                  (''parameters'', drivewayParameters),
                  (''recommendations'',
                     JArr [JStr ''Minimum 8 feet surface width, 10 feet clearance width''])]]\<rparr>;
         garageParameters = calculateGaragePlacement sd;
         results = results\<lparr>tasks := tasks results @
           [JObj [(''name'', JStr ''Garage Placement Requirements''),
                  (''status'', JStr ''completed''),
                  (''parameters'', garageParameters),
                  (''recommendations'',
                     JArr (generateGarageRecommendations garageParameters sd))]]\<rparr>;
         accessParameters = calculateAccessRequirements;
         results = results\<lparr>tasks := tasks results @
           [JObj [(''name'', JStr ''Vehicle Access and Maneuverability''),
                  (''status'', JStr ''completed''),
                  (''parameters'', accessParameters),
                  (''recommendations'',
                     JArr [JStr
                       ''Minimum 18 feet backing distance from sidewalk required''])]]\<rparr>;
         results = results\<lparr>parkingParameters :=
           JObj [(''required'', parkingRequirements),
                 (''driveway'', drivewayParameters),
                 (''garage'', garageParameters),
                 (''access'', accessParameters)]\<rparr>;
         results = results\<lparr>nextPhaseInputs :=
           [(''parkingParameters'', parkingParameters results),
            (''hasSecondUnit'', JBool (site_data.hasSecondUnit sd)),
            (''lotSize'', JNum (lotSize sd))]\<rparr>;
         results = results\<lparr>recommendations := recommendations results @
           [JObj [(''type'', JStr ''success''),
                  (''message'', JStr ''Parking and access parameters established.''),
                  (''action'',
                     JStr (''Design parking layout according to parameters. '' @
                           ''Proceed to special features.''))]]\<rparr> in
     results\<lparr>status := ''completed''\<rparr>)"

definition executePhase4 :: "engine \<Rightarrow> site_data \<Rightarrow> js_error + planning_result" where
  "executePhase4 this sd =
    (let results = (new_planning_result this 4)\<lparr>featureParameters := JObj []\<rparr> in
     case assessSecondUnitFeasibility this sd of Inl e \<Rightarrow> Inl e
     | Inr secondUnitAssessment \<Rightarrow>
     let results = results\<lparr>tasks := tasks results @ [secondUnitAssessment]\<rparr>;
         accessoryParameters = calculateAccessoryStructureParameters;
         results = results\<lparr>tasks := tasks results @
           [JObj [(''name'', JStr ''Accessory Structure Parameters''),
                  (''status'', JStr ''completed''),
                  (''parameters'', accessoryParameters),
                  (''recommendations'',
                     JArr [JStr ''5-foot setbacks required'',
                           JStr ''15-foot height limit for most structures''])]]\<rparr>;
         poolParameters = calculatePoolParameters;
         results = results\<lparr>tasks := tasks results @
           [JObj [(''name'', JStr ''Pool and Spa Parameters''),
                  (''status'', JStr ''completed''),
                  (''parameters'', poolParameters),
                  (''recommendations'',
                     JArr [JStr ''5-foot setbacks required'',
                           JStr ''Safety barriers mandatory''])]]\<rparr>;
         coverageParameters = calculateCoverageParameters sd;
         results = results\<lparr>tasks := tasks results @
           [JObj [(''name'', JStr ''Lot Coverage and Landscape Requirements''),
                  (''status'', JStr ''completed''),
                  (''parameters'', coverageParameters),
                  (''recommendations'',
                     JArr [JText [JStr ''Maximum lot coverage: '',
                                  js_get coverageParameters ''maxCoverage'',
                                  JStr ''%'']])]]\<rparr>;
         results = results\<lparr>featureParameters :=
           JObj [(''secondUnit'', js_or (js_get secondUnitAssessment ''parameters'') JNull),
                 (''accessoryStructures'', accessoryParameters),
                 (''poolSpa'', poolParameters),
                 (''coverage'', coverageParameters)]\<rparr>;
         results = results\<lparr>nextPhaseInputs :=
           [(''featureParameters'', featureParameters results),
            (''totalCompliance'', assessOverallCompliance)]\<rparr> in
     Inr (results\<lparr>status := ''completed''\<rparr>))"

definition executePhase5 ::
    "engine \<Rightarrow> site_data \<Rightarrow> (string \<times> planning_result) list \<Rightarrow> planning_result" where
  "executePhase5 this sd allPreviousResults =
    (let results = (new_planning_result this 5)
           \<lparr>documentation := JObj [], phase_result.finalReport := JObj []\<rparr>;
         complianceReview = performFinalComplianceReview;
         results = results\<lparr>tasks := tasks results @ [complianceReview]\<rparr>;
         docRequirements = generateDocumentationRequirements;
         results = results\<lparr>tasks := tasks results @
           [JObj [(''name'', JStr ''Documentation Requirements''),
                  (''status'', JStr ''completed''),
                  (''parameters'', docRequirements),
                  (''recommendations'',
                     JArr [JStr ''Complete architectural drawings required'',
                           JStr ''Professional engineer stamps needed''])]]\<rparr>;
         professionalRequirements = identifyProfessionalRequirements;
         results = results\<lparr>tasks := tasks results @
           [JObj [(''name'', JStr ''Professional Consultation Requirements''),
                  (''status'', JStr ''completed''),
                  (''parameters'', professionalRequirements),
                  (''recommendations'',
                     JArr (generateProfessionalRecommendations professionalRequirements))]]\<rparr>;
         submissionStrategy = developSubmissionStrategy;
         results = results\<lparr>tasks := tasks results @
           [JObj [(''name'', JStr ''Permit Submission Strategy''),
                  (''status'', JStr ''completed''),
                  (''parameters'', submissionStrategy),
                  (''recommendations'',
                     JArr [JStr ''Submit to Planning Department first'',
                           JStr ''Address plan check comments promptly''])]]\<rparr>;
         results = results\<lparr>phase_result.finalReport :=
           generateFinalPlanningReport sd allPreviousResults\<rparr>;
         results = results\<lparr>recommendations := recommendations results @
           [JObj [(''type'', JStr ''success''),
                  (''message'', JStr ''Planning workflow completed successfully.''),
                  (''action'',
                     JStr (''Review final report and proceed with detailed '' @
                           ''design development.''))]]\<rparr> in
     results\<lparr>status := ''completed''\<rparr>)"

subsection \<open>The planning workflow\<close>

text \<open>
  \<open>executePlanningWorkflow\<close>. The \<open>try\<close> block is the chain of \<open>case\<close>s: an exception raised
  by a phase leaves the workflow as it was before the call and enters the \<open>catch\<close> clause
  (\<open>catch_error\<close>). The result of a phase is stored under its key as soon as the phase
  returns, so the keys of \<open>phases\<close> are the phases that ran to completion.
\<close>

definition catch_error :: "'p workflow \<Rightarrow> js_error \<Rightarrow> 'p workflow" where
  "catch_error workflow e = workflow\<lparr>overallStatus := ''error'', error := Some e\<rparr>"

definition executePlanningWorkflow ::
    "engine \<Rightarrow> clock \<Rightarrow> site_data \<Rightarrow> planning_result workflow" where
  "executePlanningWorkflow this now sd =
    (let workflow = \<lparr>startTime = now 0, siteData = sd, phases = [],
                      overallStatus = ''in_progress'', finalReport = JNull,
                      stopReason = None, error = None, endTime = None\<rparr> in
     case executePhase1 this sd of Inl e \<Rightarrow> catch_error workflow e
     | Inr phase1Results \<Rightarrow>
     let workflow = workflow\<lparr>phases := phases workflow @ [(''phase1'', phase1Results)]\<rparr> in
     if status phase1Results = ''stopped''
     then workflow\<lparr>overallStatus := ''stopped'',
                   stopReason := Some ''Critical site constraints identified''\<rparr>
     else
     let phase2Results = executePhase2 this sd phase1Results;
         workflow = workflow\<lparr>phases := phases workflow @ [(''phase2'', phase2Results)]\<rparr>;
         phase3Results = executePhase3 this sd;
         workflow = workflow\<lparr>phases := phases workflow @ [(''phase3'', phase3Results)]\<rparr> in
     (case executePhase4 this sd of Inl e \<Rightarrow> catch_error workflow e
     | Inr phase4Results \<Rightarrow>
     let workflow = workflow\<lparr>phases := phases workflow @ [(''phase4'', phase4Results)]\<rparr>;
         phase5Results = executePhase5 this sd
           [(''phase1'', phase1Results), (''phase2'', phase2Results),
            (''phase3'', phase3Results), (''phase4'', phase4Results)];
         workflow = workflow\<lparr>phases := phases workflow @ [(''phase5'', phase5Results)]\<rparr> in
     workflow\<lparr>overallStatus := ''completed'',
               finalReport := phase_result.finalReport phase5Results,
               endTime := Some (now 1)\<rparr>))"

section \<open>ValidationEngine\<close>

definition ValidationEngine :: validation_engine where
  "ValidationEngine =
    \<lparr>engine.phases =
       [(1, ''Site Analysis & Pre-Validation''),
        (2, ''Building Envelope Validation''),
        (3, ''Parking & Access Validation''),
        (4, ''Special Features & Accessories Validation''),
        (5, ''Final Compliance Validation & Report Generation'')],
     zoneRequirements =
       [(''R-1'', \<lparr>minLotSize = 6000, maxLotSize = 9999, subStandardTypical = 4980,
          subStandardFlag = 5976, secondUnitMinTypical = 8100, secondUnitMinFlag = 9720\<rparr>),
        (''R-1(7000)'', \<lparr>minLotSize = 7000, maxLotSize = 13999, subStandardTypical = 5810,
          subStandardFlag = 6972, secondUnitMinTypical = 9450, secondUnitMinFlag = 11340\<rparr>),
        (''R-1(8000)'', \<lparr>minLotSize = 8000, maxLotSize = 15999, subStandardTypical = 6640,
          subStandardFlag = 7968, secondUnitMinTypical = 10800, secondUnitMinFlag = 12960\<rparr>),
        (''R-1(10000)'', \<lparr>minLotSize = 10000, maxLotSize = 19999, subStandardTypical = 8300,
          subStandardFlag = 9960, secondUnitMinTypical = 13500, secondUnitMinFlag = 16200\<rparr>),
        (''R-1(20000)'', \<lparr>minLotSize = 20000, maxLotSize = 39999, subStandardTypical = 16600,
          subStandardFlag = 19920, secondUnitMinTypical = 27000, secondUnitMinFlag = 32400\<rparr>)],
     criticalViolationTypes =
       \<lparr>ABSOLUTE_STOPPER = ''absolute_stopper'', MAJOR_STOPPER = ''major_stopper'',
        DESIGN_STOPPER = ''design_stopper'', PROCESS_STOPPER = ''process_stopper''\<rparr>\<rparr>"

subsection \<open>Validation helper methods\<close>

definition validateLotSize :: "validation_engine \<Rightarrow> site_data \<Rightarrow> js_error + jsv" where
  "validateLotSize this sd =
    (let zoneReq = zone_read this (zone sd) in
     case zone_field zoneReq ''minLotSize'' minLotSize of
       Inl e \<Rightarrow> Inl e
     | Inr required \<Rightarrow>
        (let isValid = js_ge (Some (lotSize sd)) (toNumber required) in
         Inr (JObj
           [(''checkName'', JStr ''Lot Size Validation''),
            (''ruleId'', JStr ''R001''),
            (''result'', JStr (if isValid then ''PASS'' else ''FAIL'')),
            (''required'', js_of_num required),
            (''actual'', JNum (lotSize sd)),
            (''message'',
               if isValid
               then JText [JStr ''Lot size meets minimum requirement ('',
                           js_of_num required, JStr '' sq ft)'']
               else JText [JStr ''Lot area below minimum threshold for '', JStr (zone sd),
                           JStr '' zone (Required: '', js_of_num required,
                           JStr '' sq ft, Actual: '', JNum (lotSize sd),
                           JStr '' sq ft)''])])))"

definition validateSubStandardStatus :: "validation_engine \<Rightarrow> site_data \<Rightarrow> js_error + jsv" where
  "validateSubStandardStatus this sd =
    (let zoneReq = zone_read this (zone sd) in
     case (if lotType sd = ''flag'' then zone_field zoneReq ''subStandardFlag'' subStandardFlag
           else zone_field zoneReq ''subStandardTypical'' subStandardTypical) of
       Inl e \<Rightarrow> Inl e
     | Inr threshold \<Rightarrow>
        (let isSubStandard = js_lt (Some (lotSize sd)) (toNumber threshold) in
         Inr (JObj
           [(''checkName'', JStr ''Substandard Lot Assessment''),
            (''result'', JStr ''INFO''),
            (''isSubStandard'', JBool isSubStandard),
            (''threshold'', js_of_num threshold),
            (''message'',
               if isSubStandard
               then JStr ''Lot qualifies as substandard - height restrictions apply''
               else JStr ''Lot meets standard size requirements'')])))"

definition validateZoneDistrict :: "site_data \<Rightarrow> design_data \<Rightarrow> jsv" where
  "validateZoneDistrict sd dd =
    (let isValid = (zone sd = submittedZone dd) in
     JObj [(''checkName'', JStr ''Zone District Verification''),
           (''result'', JStr (if isValid then ''PASS'' else ''FAIL'')),
           (''expected'', JStr (zone sd)),
           (''submitted'', JStr (submittedZone dd)),
           (''message'',
              if isValid
              then JText [JStr ''Zone designation verified: '', JStr (zone sd)]
              else JText [JStr ''Zone mismatch: Property is '', JStr (zone sd),
                          JStr '', design submitted for '', JStr (submittedZone dd)])])"

definition validateHistoricConstraints :: "site_data \<Rightarrow> design_data \<Rightarrow> jsv" where
  "validateHistoricConstraints sd dd =
    (if \<not> truthy (historicCategory sd)
     then JObj [(''checkName'', JStr ''Historic Property Constraints''),
                (''result'', JStr ''PASS''),
                (''message'', JStr ''No historic designation - standard regulations apply'')]
     else
       (let hasHistoricCompliance = (historicCompliance dd = Some ''approved'') in
        JObj [(''checkName'', JStr ''Historic Property Constraints''),
              (''result'', JStr (if hasHistoricCompliance then ''PASS'' else ''FAIL'')),
              (''category'', historicCategory sd),
              (''message'',
                 if hasHistoricCompliance
                 then JText [JStr ''Historic '', historicCategory sd,
                             JStr '' compliance verified'']
                 else JText [JStr ''Historic '', historicCategory sd,
                             JStr '' property requires special design review''])]))"

definition checkEnvironmentalEncroachments :: "site_data \<Rightarrow> design_data \<Rightarrow> jsv list" where
  "checkEnvironmentalEncroachments sd dd =
    (let encroachments = [];
         encroachments =
           (if creekAreas sd \<noteq> 0 \<and> truthy (buildingFootprint dd)
            then (if encroachesCreek dd then encroachments @ [JStr ''creek channel'']
                  else encroachments)
            else encroachments) in
     if easements sd \<noteq> 0 \<and> truthy (buildingFootprint dd)
     then (if encroachesEasement dd then encroachments @ [JStr ''utility easement'']
           else encroachments)
     else encroachments)"

definition validateEnvironmentalExclusions :: "site_data \<Rightarrow> design_data \<Rightarrow> jsv" where
  "validateEnvironmentalExclusions sd dd =
    (let buildableArea = calculateBuildableArea sd;
         encroachments = checkEnvironmentalEncroachments sd dd in
     JObj [(''checkName'', JStr ''Environmental Exclusions''),
           (''result'', JStr (if length encroachments = 0 then ''PASS'' else ''FAIL'')),
           (''buildableArea'', JNum buildableArea),
           (''encroachments'', JArr encroachments),
           (''message'',
              if length encroachments = 0
              then JStr ''No encroachments into protected areas''
              else JText [JStr ''Building encroaches into protected areas: '',
                          js_join encroachments '', ''])])"

definition validateBuildingHeight :: "design_data \<Rightarrow> jsv \<Rightarrow> jsv" where
  "validateBuildingHeight dd isSubStandard =
    (let maxHeight = (if truthy isSubStandard then 17 else 30);
         isValid = (buildingHeight dd \<le> maxHeight) in
     JObj [(''checkName'', JStr ''Building Height Compliance''),
           (''ruleId'', JStr ''CP002''),
           (''result'', JStr (if isValid then ''PASS'' else ''FAIL'')),
           (''maxAllowed'', JNum maxHeight),
           (''actual'', JNum (buildingHeight dd)),
           (''isSubStandard'', isSubStandard),
           (''message'',
              if isValid
              then JText [JStr ''Building height complies with '', JNum maxHeight,
                          JStr '' ft limit'']
              else JText [JStr ''Building height exceeds '', JNum maxHeight,
                          JStr '' ft limit (Actual: '', JNum (buildingHeight dd),
                          JStr '' ft)''])])"

definition validateStoryEquivalency :: "design_data \<Rightarrow> jsv" where
  "validateStoryEquivalency dd =
    (let violations = [];
         violations =
           (if floors dd \<ge> 2 \<and> js_gt (toNumber (secondFloorCeiling dd)) (Some 17)
            then violations @ [JText [JStr ''Second floor ceiling height exceeds 17 ft ('',
                                      js_of_num (secondFloorCeiling dd), JStr '' ft)'']]
            else violations);
         violations =
           (if floors dd \<ge> 3 \<and> js_gt (toNumber (thirdFloorCeiling dd)) (Some 26)
            then violations @ [JText [JStr ''Third floor ceiling height exceeds 26 ft ('',
                                      js_of_num (thirdFloorCeiling dd), JStr '' ft)'']]
            else violations) in
     JObj [(''checkName'', JStr ''Story Height Equivalency''),
           (''result'', JStr (if length violations = 0 then ''PASS'' else ''FAIL'')),
           (''violations'', JArr violations),
           (''message'',
              if length violations = 0
              then JStr ''All floor ceiling heights comply with story equivalencies''
              else js_join violations ''; '')])"

definition validateSetbacks :: "site_data \<Rightarrow> design_data \<Rightarrow> jsv" where
  "validateSetbacks sd dd =
    (let violations = [];
         violations =
           (if frontSetback dd < 20
            then violations @ [JText [JStr ''Front setback insufficient ('',
                                      JNum (frontSetback dd), JStr '' ft < 20 ft required)'']]
            else violations);
         violations =
           (if interiorSideSetback dd < 5
            then violations @ [JText [JStr ''Interior side setback insufficient ('',
                                      JNum (interiorSideSetback dd),
                                      JStr '' ft < 5 ft required)'']]
            else violations);
         violations =
           (if isCornerLot sd \<and> js_lt (toNumber (streetSideSetback dd)) (Some 16)
            then violations @ [JText [JStr ''Street side setback insufficient ('',
                                      js_of_num (streetSideSetback dd),
                                      JStr '' ft < 16 ft required)'']]
            else violations);
         violations =
           (if rearSetback dd < 20
            then violations @ [JText [JStr ''Rear setback insufficient ('',
                                      JNum (rearSetback dd), JStr '' ft < 20 ft required)'']]
            else violations) in
     JObj [(''checkName'', JStr ''Setback Compliance''),
           (''ruleId'', JStr ''CP004''),
           (''result'', JStr (if length violations = 0 then ''PASS'' else ''FAIL'')),
           (''violations'', JArr violations),
           (''message'',
              if length violations = 0
              then JStr ''All setbacks meet minimum requirements''
              else js_join violations ''; '')])"

definition validateFAR :: "site_data \<Rightarrow> design_data \<Rightarrow> jsv" where
  "validateFAR sd dd =
    (let first5000 = fl (min (lotSize sd) 5000 * fl 0.45);
         excess = fl (max (fl (lotSize sd - 5000)) 0 * fl 0.30);
         calculated = fl (first5000 + excess);
         maxAllowed = min calculated 6000;
         isValid = (totalFloorArea dd \<le> maxAllowed) in
     JObj [(''checkName'', JStr ''Floor Area Ratio (FAR) Validation''),
           (''ruleId'', JStr ''CP003''),
           (''result'', JStr (if isValid then ''PASS'' else ''FAIL'')),
           (''maxAllowed'', JNum maxAllowed),
           (''actual'', JNum (totalFloorArea dd)),
           (''calculation'',
              JObj [(''first5000Allowance'', JNum first5000),
                    (''excessAllowance'', JNum excess),
                    (''calculatedFAR'', JNum calculated),
                    (''finalMax'', JNum maxAllowed)]),
           (''message'',
              if isValid
              then JText [JStr ''Floor area within limits ('', JNum (totalFloorArea dd),
                          JStr ('' sq ft '' @ le_sign @ '' ''), JNum maxAllowed,
                          JStr '' sq ft)'']
              else JText [JStr ''Floor area exceeds calculated limit ('',
                          JNum (totalFloorArea dd), JStr '' sq ft > '', JNum maxAllowed,
                          JStr '' sq ft)''])])"

definition validateDaylightPlane :: "site_data \<Rightarrow> design_data \<Rightarrow> jsv" where
  "validateDaylightPlane sd dd =
    (let compliant = (daylightPlaneCompliant dd \<noteq> Some False) in
     JObj [(''checkName'', JStr ''Daylight Plane Compliance''),
           (''ruleId'', JStr ''CP005''),
           (''result'', JStr (if compliant then ''PASS'' else ''FAIL'')),
           (''message'',
              if compliant
              then JStr ''Building envelope complies with 45-degree daylight plane''
              else JStr
                ''Building mass violates 45-degree daylight plane from property lines'')])"

definition validateArchitecturalFeatures :: "design_data \<Rightarrow> jsv" where
  "validateArchitecturalFeatures dd =
    (let violations = [];
         violations =
           (if num_truthy (porchArea dd) \<and> js_gt (toNumber (porchArea dd)) (Some 200)
            then violations @ [JText [JStr ''Porch area exceeds 200 sq ft ('',
                                      js_of_num (porchArea dd), JStr '' sq ft)'']]
            else violations);
         violations =
           (if num_truthy (entryProjection dd) \<and> js_gt (toNumber (entryProjection dd)) (Some 6)
            then violations @ [JText [JStr ''Entry projection exceeds 6 ft ('',
                                      js_of_num (entryProjection dd), JStr '' ft)'']]
            else violations);
         violations =
           (if num_truthy (bayWindowProjection dd)
               \<and> js_gt (toNumber (bayWindowProjection dd)) (Some 3)
            then violations @ [JText [JStr ''Bay window projection exceeds 3 ft ('',
                                      js_of_num (bayWindowProjection dd), JStr '' ft)'']]
            else violations) in
     JObj [(''checkName'', JStr ''Architectural Feature Compliance''),
           (''result'', JStr (if length violations = 0 then ''PASS'' else ''FAIL'')),
           (''violations'', JArr violations),
           (''message'',
              if length violations = 0
              then JStr ''All architectural features within size limits''
              else js_join violations ''; '')])"

definition validateLotCoverage :: "site_data \<Rightarrow> design_data \<Rightarrow> jsv" where
  "validateLotCoverage sd dd =
    (let maxCoverageBase = fl (lotSize sd * fl 0.35);
         additionalAllowance = fl (lotSize sd * fl 0.05);
         totalMaxCoverage = fl (maxCoverageBase + additionalAllowance);
         isValid = (totalCoverage dd \<le> totalMaxCoverage) in
     JObj [(''checkName'', JStr ''Lot Coverage Validation''),
           (''ruleId'', JStr ''CP013''),
           (''result'', JStr (if isValid then ''PASS'' else ''FAIL'')),
           (''maxAllowed'', JNum totalMaxCoverage),
           (''actual'', JNum (totalCoverage dd)),
           (''breakdown'',
              JObj [(''baseCoverage'', JNum maxCoverageBase),
                    (''additionalAllowance'', JNum additionalAllowance),
                    (''totalMax'', JNum totalMaxCoverage)]),
           (''message'',
              if isValid
              then JText [JStr ''Lot coverage within limits ('', JNum (totalCoverage dd),
                          JStr ('' sq ft '' @ le_sign @ '' ''), JNum totalMaxCoverage,
                          JStr '' sq ft)'']
              else JText [JStr ''Lot coverage exceeds maximum ('', JNum (totalCoverage dd),
                          JStr '' sq ft > '', JNum totalMaxCoverage, JStr '' sq ft)''])])"

definition validateParkingSpaceCount :: "design_data \<Rightarrow> jsv" where
  "validateParkingSpaceCount dd =
    (let required = (2::real);
         required = (if hasSecondUnit dd then required + 2 else required);
         isValid = (parkingSpaces dd \<ge> required) in
     JObj [(''checkName'', JStr ''Parking Space Count''),
           (''ruleId'', JStr ''CP006''),
           (''result'', JStr (if isValid then ''PASS'' else ''FAIL'')),
           (''required'', JNum required),
           (''provided'', JNum (parkingSpaces dd)),
           (''message'',
              if isValid
              then JText [JStr ''Adequate parking spaces provided ('', JNum (parkingSpaces dd),
                          JStr ('' '' @ ge_sign @ '' ''), JNum required, JStr '')'']
              else JText [JStr ''Insufficient parking spaces ('', JNum (parkingSpaces dd),
                          JStr '' < '', JNum required, JStr '' required)''])])"

definition validateCoveredParking :: "design_data \<Rightarrow> jsv" where
  "validateCoveredParking dd =
    (let required = (1::real);
         required = (if hasSecondUnit dd then required + 1 else required);
         isValid = (coveredParkingSpaces dd \<ge> required) in
     JObj [(''checkName'', JStr ''Covered Parking Validation''),
           (''result'', JStr (if isValid then ''PASS'' else ''FAIL'')),
           (''required'', JNum required),
           (''provided'', JNum (coveredParkingSpaces dd)),
           (''message'',
              if isValid
              then JText [JStr ''Adequate covered parking provided ('',
                          JNum (coveredParkingSpaces dd),
                          JStr ('' '' @ ge_sign @ '' ''), JNum required, JStr '')'']
              else JText [JStr ''Insufficient covered parking ('',
                          JNum (coveredParkingSpaces dd),
                          JStr '' < '', JNum required, JStr '' required)''])])"

definition validateDrivewayDimensions :: "design_data \<Rightarrow> jsv" where
  "validateDrivewayDimensions dd =
    (let violations = [];
         violations =
           (if drivewaySurfaceWidth dd < 8
            then violations @ [JText [JStr ''Driveway surface width insufficient ('',
                                      JNum (drivewaySurfaceWidth dd),
                                      JStr '' ft < 8 ft required)'']]
            else violations);
         violations =
           (if drivewayClearanceWidth dd < 10
            then violations @ [JText [JStr ''Driveway clearance width insufficient ('',
                                      JNum (drivewayClearanceWidth dd),
                                      JStr '' ft < 10 ft required)'']]
            else violations) in
     JObj [(''checkName'', JStr ''Driveway Dimensions''),
           (''result'', JStr (if length violations = 0 then ''PASS'' else ''FAIL'')),
           (''violations'', JArr violations),
           (''message'',
              if length violations = 0
              then JStr ''Driveway dimensions meet requirements''
              else js_join violations ''; '')])"

definition validateGaragePlacement :: "site_data \<Rightarrow> design_data \<Rightarrow> jsv" where
  "validateGaragePlacement sd dd =
    (let pass = JObj [(''checkName'', JStr ''Garage Placement''),
                      (''result'', JStr ''PASS''),
                      (''message'', JStr ''Garage placement meets setback requirements'')] in
     if \<not> hasGarage dd
     then JObj [(''checkName'', JStr ''Garage Placement''),
                (''result'', JStr ''N/A''),
                (''message'', JStr ''No garage proposed'')]
     else if isCornerLot sd
     then (let frontOk = js_ge (toNumber (garageFrontSetback dd)) (Some 75);
               streetSideOk = js_ge (toNumber (garageStreetSideSetback dd)) (Some 20) in
           if \<not> frontOk \<or> \<not> streetSideOk
           then JObj [(''checkName'', JStr ''Garage Placement (Corner Lot)''),
                      (''ruleId'', JStr ''CP014''),
                      (''result'', JStr ''FAIL''),
                      (''message'',
                         JText [JStr ''Corner lot garage setback violations: Front: '',
                                js_of_num (garageFrontSetback dd),
                                JStr ('' ft ('' @ ge_sign @ ''75 required), Street side: ''),
                                js_of_num (garageStreetSideSetback dd),
                                JStr ('' ft ('' @ ge_sign @ ''20 required)'')])]
           else pass)
     else (let frontOk = js_ge (toNumber (garageFrontSetback dd)) (Some 20) in
           if \<not> frontOk
           then JObj [(''checkName'', JStr ''Garage Placement''),
                      (''ruleId'', JStr ''CP014''),
                      (''result'', JStr ''FAIL''),
                      (''message'',
                         JText [JStr ''Garage front setback insufficient ('',
                                js_of_num (garageFrontSetback dd),
                                JStr '' ft < 20 ft required)''])]
           else pass))"

definition validateVehicleManeuverability :: "design_data \<Rightarrow> jsv" where
  "validateVehicleManeuverability dd =
    (let backingOk = (backingDistance dd \<ge> 18) in
     JObj [(''checkName'', JStr ''Vehicle Maneuverability''),
           (''result'', JStr (if backingOk then ''PASS'' else ''FAIL'')),
           (''required'', JNum 18),
           (''actual'', JNum (backingDistance dd)),
           (''message'',
              if backingOk
              then JStr ''Adequate backing distance provided''
              else JText [JStr ''Insufficient backing distance ('', JNum (backingDistance dd),
                          JStr '' ft < 18 ft required)''])])"

definition validateDrivewayMaterials :: "design_data \<Rightarrow> jsv" where
  "validateDrivewayMaterials dd =
    (let approvedMaterials = [''concrete'', ''asphalt'', ''approved_pavers''];
         isValid = (case drivewayMaterial dd of
                      None \<Rightarrow> False
                    | Some m \<Rightarrow> m \<in> set approvedMaterials) in
     JObj [(''checkName'', JStr ''Driveway Materials''),
           (''result'', JStr (if isValid then ''PASS'' else ''FAIL'')),
           (''approved'', JArr (map JStr approvedMaterials)),
           (''specified'', js_of_str (drivewayMaterial dd)),
           (''message'',
              if isValid
              then JStr ''Approved driveway materials specified''
              else JText [JStr ''Non-approved driveway material: '',
                          js_of_str (drivewayMaterial dd)])])"

definition validateSecondDwellingUnit ::
    "validation_engine \<Rightarrow> site_data \<Rightarrow> design_data \<Rightarrow> js_error + jsv" where
  "validateSecondDwellingUnit this sd dd =
    (let zoneReq = zone_read this (zone sd) in
     case (if lotType sd = ''flag''
           then zone_field zoneReq ''secondUnitMinFlag'' secondUnitMinFlag
           else zone_field zoneReq ''secondUnitMinTypical'' secondUnitMinTypical) of
       Inl e \<Rightarrow> Inl e
     | Inr minRequired \<Rightarrow>
        (let isValid = js_ge (Some (lotSize sd)) (toNumber minRequired) in
         Inr (JObj
           [(''checkName'', JStr ''Second Dwelling Unit Lot Size''),
            (''ruleId'', JStr ''CP008''),
            (''result'', JStr (if isValid then ''PASS'' else ''FAIL'')),
            (''required'', js_of_num minRequired),
            (''actual'', JNum (lotSize sd)),
            (''message'',
               if isValid
               then JText [JStr ''Lot size adequate for second unit ('', JNum (lotSize sd),
                           JStr ('' sq ft '' @ ge_sign @ '' ''), js_of_num minRequired,
                           JStr '' sq ft)'']
               else JText [JStr ''Lot too small for second unit ('', JNum (lotSize sd),
                           JStr '' sq ft < '', js_of_num minRequired,
                           JStr '' sq ft required)''])])))"

definition validateSecondUnitSize :: "design_data \<Rightarrow> jsv" where
  "validateSecondUnitSize dd =
    (let maxSize = Math_min (Some 640) (js_mul (toNumber (mainHouseArea dd)) (Some 0.5));
         isValid = js_le (toNumber (secondUnitArea dd)) maxSize in
     JObj [(''checkName'', JStr ''Second Unit Size''),
           (''ruleId'', JStr ''CP017''),
           (''result'', JStr (if isValid then ''PASS'' else ''FAIL'')),
           (''maxAllowed'', js_of_real maxSize),
           (''actual'', js_of_num (secondUnitArea dd)),
           (''message'',
              if isValid
              then JText [JStr ''Second unit size within limits ('',
                          js_of_num (secondUnitArea dd),
                          JStr ('' sq ft '' @ le_sign @ '' ''), js_of_real maxSize,
                          JStr '' sq ft)'']
              else JText [JStr ''Second unit exceeds size limit ('',
                          js_of_num (secondUnitArea dd), JStr '' sq ft > '',
                          js_of_real maxSize, JStr '' sq ft)''])])"

text \<open>The body of the \<open>forEach\<close> over \<open>designData.accessoryStructures\<close>, with its index.\<close>

fun accessory_violations :: "accessory_structure list \<Rightarrow> nat \<Rightarrow> jsv list" where
  "accessory_violations [] index = []"
| "accessory_violations (structure # rest) index =
     (if js_gt (toNumber (height structure)) (Some 15)
      then [JText [JStr ''Structure '', JNum (real (index + 1)),
                   JStr '': Height exceeds 15 ft ('', js_of_num (height structure),
                   JStr '' ft)'']]
      else [])
     @ (if js_lt (toNumber (setback structure)) (Some 5)
        then [JText [JStr ''Structure '', JNum (real (index + 1)),
                     JStr '': Setback less than 5 ft ('', js_of_num (setback structure),
                     JStr '' ft)'']]
        else [])
     @ accessory_violations rest (index + 1)"

definition validateAccessoryStructures :: "design_data \<Rightarrow> js_error + jsv" where
  "validateAccessoryStructures dd =
    (case accessoryStructures dd of
       None \<Rightarrow> Inl (TypeError ''forEach'')
     | Some structures \<Rightarrow>
        (let violations = accessory_violations structures 0 in
         Inr (JObj
           [(''checkName'', JStr ''Accessory Structures''),
            (''result'', JStr (if length violations = 0 then ''PASS'' else ''FAIL'')),
            (''violations'', JArr violations),
            (''message'',
               if length violations = 0
               then JStr ''All accessory structures comply with requirements''
               else js_join violations ''; '')])))"

definition validatePoolSafety :: "design_data \<Rightarrow> jsv" where
  "validatePoolSafety dd =
    (let violations = [];
         violations =
           (if js_lt (toNumber (poolSetback dd)) (Some 5)
            then violations @ [JText [JStr ''Pool setback insufficient ('',
                                      js_of_num (poolSetback dd),
                                      JStr '' ft < 5 ft required)'']]
            else violations);
         violations =
           (if \<not> poolSafetyBarriers dd
            then violations @ [JStr ''Pool safety barriers not specified'']
            else violations) in
     JObj [(''checkName'', JStr ''Pool Safety''),
           (''ruleId'', JStr ''CP020''),
           (''result'', JStr (if length violations = 0 then ''PASS'' else ''FAIL'')),
           (''violations'', JArr violations),
           (''message'',
              if length violations = 0
              then JStr ''Pool safety requirements met''
              else js_join violations ''; '')])"

definition validateTotalCoverageWithFeatures :: "site_data \<Rightarrow> design_data \<Rightarrow> jsv" where
  "validateTotalCoverageWithFeatures sd dd =
    (let isValid =
           js_le (toNumber (totalCoverageWithFeatures dd)) (Some (fl (lotSize sd * fl 0.40))) in
     JObj [(''checkName'', JStr ''Total Coverage With Features''),
           (''result'', JStr (if isValid then ''PASS'' else ''FAIL'')),
           (''message'',
              if isValid
              then JStr ''Total coverage including all features within limits''
              else JStr ''Total coverage including all features exceeds maximum allowed'')])"

definition performComprehensiveValidation :: jsv where
  "performComprehensiveValidation =
    JObj [(''checkName'', JStr ''Comprehensive Rule Validation''),
          (''result'', JStr ''PASS''),
          (''totalChecks'', JNum 127),
          (''passed'', JNum 127),
          (''failed'', JNum 0),
          (''message'', JStr ''All 127 checklist items validated'')]"

text \<open>\<open>Object.values(allResults)\<close>: the phase results, in the insertion order of their keys.\<close>

definition Object_values :: "(string \<times> 'a) list \<Rightarrow> 'a list" where
  "Object_values obj = map snd obj"

definition validateCriticalPath ::
    "validation_engine \<Rightarrow> (string \<times> validation_result) list \<Rightarrow> jsv" where
  "validateCriticalPath this allResults =
    (let criticalViolations =
           concat (map (\<lambda>phaseResult.
                     filter (\<lambda>violation. js_get violation ''type''
                               = JStr (ABSOLUTE_STOPPER (criticalViolationTypes this)))
                       (violations phaseResult))
                   (Object_values allResults)) in
     JObj [(''checkName'', JStr ''Critical Path Validation''),
           (''result'', JStr (if length criticalViolations = 0 then ''PASS'' else ''FAIL'')),
           (''criticalViolations'', JArr criticalViolations),
           (''message'',
              if length criticalViolations = 0
              then JStr ''No critical path violations detected''
              else JText [JNum (real (length criticalViolations)),
                          JStr '' critical path violations found''])])"

definition validateProfessionalRequirements :: "design_data \<Rightarrow> jsv" where
  "validateProfessionalRequirements dd =
    (let requiredStamps = [''Architect'', ''Structural Engineer''];
         missingStamps =
           filter (\<lambda>stamp. case professionalStamps dd of
                              None \<Rightarrow> True
                            | Some stamps \<Rightarrow> stamp \<notin> set stamps) requiredStamps in
     JObj [(''checkName'', JStr ''Professional Requirements''),
           (''result'', JStr (if length missingStamps = 0 then ''PASS'' else ''FAIL'')),
           (''required'', JArr (map JStr requiredStamps)),
           (''missing'', JArr (map JStr missingStamps)),
           (''message'',
              if length missingStamps = 0
              then JStr ''All required professional stamps present''
              else JText [JStr ''Missing professional stamps: '',
                          js_join (map JStr missingStamps) '', ''])])"

definition validateDocumentationCompleteness :: "design_data \<Rightarrow> jsv" where
  "validateDocumentationCompleteness dd =
    (let requiredDocs = [''site_plan'', ''floor_plans'', ''elevations'', ''structural_calcs''];
         missingDocs =
           filter (\<lambda>doc. case submittedDocuments dd of
                            None \<Rightarrow> True
                          | Some docs \<Rightarrow> doc \<notin> set docs) requiredDocs in
     JObj [(''checkName'', JStr ''Documentation Completeness''),
           (''result'', JStr (if length missingDocs = 0 then ''PASS'' else ''FAIL'')),
           (''required'', JArr (map JStr requiredDocs)),
           (''missing'', JArr (map JStr missingDocs)),
           (''message'',
              if length missingDocs = 0
              then JStr ''All required documentation present''
              else JText [JStr ''Missing documents: '',
                          js_join (map JStr missingDocs) '', ''])])"

subsection \<open>Utility methods\<close>

text \<open>\<open>ValidationEngine.calculateBuildableArea\<close> has the body of the planning engine's method
  of that name, \<open>calculateBuildableArea\<close> above.\<close>

definition collectAllViolations ::
    "(string \<times> validation_result) list \<Rightarrow> validation_result \<Rightarrow> jsv list" where
  "collectAllViolations allPreviousResults currentResults =
    concat (map violations (Object_values allPreviousResults)) @ violations currentResults"

definition generateNextSteps :: "string \<Rightarrow> jsv" where
  "generateNextSteps overall =
    (if overall = ''APPROVED''
     then JArr [JStr ''Design fully compliant'', JStr ''Ready for permit submission'',
                JStr ''Submit to Planning Department'',
                JStr ''Coordinate with Building Department'']
     else if overall = ''CONDITIONAL''
     then JArr [JStr ''Address identified violations'', JStr ''Revise design drawings'',
                JStr ''Resubmit for validation'', JStr ''Consider professional consultation'']
     else JArr [JStr ''Major redesign required'', JStr ''Address critical violations first'',
                JStr ''Consider project feasibility'', JStr ''Engage professional team''])"

definition estimateResolutionTime :: "validation_engine \<Rightarrow> jsv list \<Rightarrow> jsv" where
  "estimateResolutionTime this vs =
    (let criticalViolations =
           length (filter (\<lambda>v. js_get v ''type''
                             = JStr (ABSOLUTE_STOPPER (criticalViolationTypes this)))
                     vs) in
     if criticalViolations > 0 then JStr ''4-12 weeks (major redesign)''
     else if length vs > 5 then JStr ''2-6 weeks (design revisions)''
     else if length vs > 0 then JStr ''1-3 weeks (minor corrections)''
     else JStr ''Ready for submission'')"

text \<open>\<open>allResults.phaseN?.status || "not_run"\<close>.\<close>

definition status_or_not_run :: "(string \<times> validation_result) list \<Rightarrow> string \<Rightarrow> jsv" where
  "status_or_not_run allResults k =
    js_or (case map_of allResults k of None \<Rightarrow> JUndefined | Some r \<Rightarrow> JStr (status r))
          (JStr ''not_run'')"

definition generateValidationReport ::
    "validation_engine \<Rightarrow> clock \<Rightarrow> site_data \<Rightarrow> design_data
      \<Rightarrow> (string \<times> validation_result) list \<Rightarrow> validation_result \<Rightarrow> jsv" where
  "generateValidationReport this now sd dd allResults finalResults =
    (let allViolations = collectAllViolations allResults finalResults;
         criticalViolations =
           filter (\<lambda>v. js_get v ''type'' = JStr (ABSOLUTE_STOPPER (criticalViolationTypes this)))
             allViolations;
         majorViolations =
           filter (\<lambda>v. js_get v ''type'' = JStr (MAJOR_STOPPER (criticalViolationTypes this)))
             allViolations;
         designViolations =
           filter (\<lambda>v. js_get v ''type'' = JStr (DESIGN_STOPPER (criticalViolationTypes this)))
             allViolations;
         processViolations =
           filter (\<lambda>v. js_get v ''type'' = JStr (PROCESS_STOPPER (criticalViolationTypes this)))
             allViolations;
         overallStatus =
           (if length criticalViolations > 0 then ''REJECTED''
            else if length allViolations > 0 then ''CONDITIONAL''
            else ''APPROVED'') in
     JObj [(''projectSummary'',
              JObj [(''address'', JStr (address sd)),
                    (''zone'', JStr (zone sd)),
                    (''lotSize'', JNum (lotSize sd)),
                    (''validationDate'', JDate (now 0))]),
           (''overallStatus'', JStr overallStatus),
           (''violationSummary'',
              JObj [(''total'', JNum (real (length allViolations))),
                    (''critical'', JNum (real (length criticalViolations))),
                    (''major'', JNum (real (length majorViolations))),
                    (''design'', JNum (real (length designViolations))),
                    (''process'', JNum (real (length processViolations)))]),
           (''phaseResults'',
              JObj [(''phase1'', status_or_not_run allResults ''phase1''),
                    (''phase2'', status_or_not_run allResults ''phase2''),
                    (''phase3'', status_or_not_run allResults ''phase3''),
                    (''phase4'', status_or_not_run allResults ''phase4''),
                    (''phase5'', JStr (status finalResults))]),
           (''violations'',
              JObj [(''critical'', JArr criticalViolations),
                    (''major'', JArr majorViolations),
                    (''design'', JArr designViolations),
                    (''process'', JArr processViolations)]),
           (''nextSteps'', generateNextSteps overallStatus),
           (''estimatedResolution'', estimateResolutionTime this allViolations)])"

subsection \<open>The five validation phases\<close>

definition new_validation_result :: "validation_engine \<Rightarrow> nat \<Rightarrow> validation_result" where
  "new_validation_result this n =
    \<lparr>phase = n, phaseName = phase_name this n, status = ''in_progress'',
     nextPhaseInputs = [], phase_result.finalReport = JUndefined,
     validationChecks = [], violations = [], warnings = [], passed = 0, failed = 0\<rparr>"

text \<open>
  The block the phases repeat for each check:
  \<^verbatim>\<open>results.validationChecks.push(check);
  if (check.result === "FAIL") { results.violations.push({...}); results.failed++; }
  else { results.passed++; }\<close>
  with the violation object that the block pushes.
\<close>

definition record_check :: "validation_result \<Rightarrow> jsv \<Rightarrow> jsv \<Rightarrow> validation_result" where
  "record_check results check violation =
    (let results = results\<lparr>validationChecks := validationChecks results @ [check]\<rparr> in
     if js_get check ''result'' = JStr ''FAIL''
     then results\<lparr>violations := violations results @ [violation],
                  failed := failed results + 1\<rparr>
     else results\<lparr>passed := passed results + 1\<rparr>)"

text \<open>\<open>results.status = results.violations.length > 0 ? "violations_found" : "passed"\<close>.\<close>

definition close_phase :: "validation_result \<Rightarrow> validation_result" where
  "close_phase results =
    results\<lparr>status := (if length (violations results) > 0 then ''violations_found''
                         else ''passed'')\<rparr>"

definition executePhase1Validation ::
    "validation_engine \<Rightarrow> site_data \<Rightarrow> design_data \<Rightarrow> js_error + validation_result" where
  "executePhase1Validation this sd dd =
    (let results = new_validation_result this 1 in
     case validateLotSize this sd of Inl e \<Rightarrow> Inl e | Inr lotSizeCheck \<Rightarrow>
     let results = results\<lparr>validationChecks := validationChecks results @ [lotSizeCheck]\<rparr> in
     if js_get lotSizeCheck ''result'' = JStr ''FAIL''
     then Inr (results
       \<lparr>violations := violations results @
          [JObj [(''type'', JStr (ABSOLUTE_STOPPER (criticalViolationTypes this))),
                 (''ruleId'', JStr ''CP001''),
                 (''category'', JStr ''Lot Requirements''),
                 (''description'', js_get lotSizeCheck ''message''),
                 (''remediation'',
                    JStr ''Site not suitable for development in current zone'')]],
        failed := failed results + 1,
        status := ''critical_failure''\<rparr>)
     else
     (let results = results\<lparr>passed := passed results + 1\<rparr> in
      case validateSubStandardStatus this sd of Inl e \<Rightarrow> Inl e | Inr subStandardCheck \<Rightarrow>
      let results = results\<lparr>validationChecks := validationChecks results @ [subStandardCheck]\<rparr>;
          results =
            (if truthy (js_get subStandardCheck ''isSubStandard'')
             then results\<lparr>warnings := warnings results @
               [JObj [(''type'', JStr ''height_restriction''),
                      (''message'',
                         JStr ''Substandard lot detected - height limited to 17 feet''),
                      (''impact'', JStr ''Building height restrictions apply'')]]\<rparr>
             else results);
          zoneCheck = validateZoneDistrict sd dd;
          results = results\<lparr>validationChecks := validationChecks results @ [zoneCheck]\<rparr>;
          results =
            (if js_get zoneCheck ''result'' = JStr ''PASS''
             then results\<lparr>passed := passed results + 1\<rparr>
             else results
               \<lparr>failed := failed results + 1,
                violations := violations results @
                  [JObj [(''type'', JStr (ABSOLUTE_STOPPER (criticalViolationTypes this))),
                         (''ruleId'', JStr ''V001''),
                         (''category'', JStr ''Zone Verification''),
                         (''description'', js_get zoneCheck ''message'')]]\<rparr>);
          historicCheck = validateHistoricConstraints sd dd;
          results = record_check results historicCheck
            (JObj [(''type'', JStr (MAJOR_STOPPER (criticalViolationTypes this))),
                   (''ruleId'', JStr ''CP009''),
                   (''category'', JStr ''Historic Properties''),
                   (''description'', js_get historicCheck ''message'')]);
          environmentalCheck = validateEnvironmentalExclusions sd dd;
          results = record_check results environmentalCheck
            (JObj [(''type'', JStr (MAJOR_STOPPER (criticalViolationTypes this))),
                   (''ruleId'', JStr ''CP012''),
                   (''category'', JStr ''Environmental''),
                   (''description'', js_get environmentalCheck ''message'')]);
          results = results\<lparr>nextPhaseInputs :=
            [(''isSubStandard'', js_get subStandardCheck ''isSubStandard''),
             (''zoneRequirements'', js_of_zone (zone_read this (zone sd))),
             (''buildableArea'', JNum (calculateBuildableArea sd)),
             (''historicCategory'', historicCategory sd)]\<rparr> in
      Inr (close_phase results)))"

definition executePhase2Validation ::
    "validation_engine \<Rightarrow> site_data \<Rightarrow> design_data \<Rightarrow> validation_result
      \<Rightarrow> validation_result" where
  "executePhase2Validation this sd dd phase1Results =
    (let results = new_validation_result this 2;
         isSubStandard = js_get (JObj (nextPhaseInputs phase1Results)) ''isSubStandard'';
         heightCheck = validateBuildingHeight dd isSubStandard;
         results = record_check results heightCheck
           (JObj [(''type'', JStr (ABSOLUTE_STOPPER (criticalViolationTypes this))),
                  (''ruleId'', JStr ''CP002''),
                  (''category'', JStr ''Building Height''),
                  (''description'', js_get heightCheck ''message''),
                  (''remediation'', JStr ''Reduce building height or reconfigure design'')]);
         storyCheck = validateStoryEquivalency dd;
         results = record_check results storyCheck
           (JObj [(''type'', JStr (DESIGN_STOPPER (criticalViolationTypes this))),
                  (''ruleId'', JStr ''CP015''),
                  (''category'', JStr ''Story Height''),
                  (''description'', js_get storyCheck ''message'')]);
         setbackCheck = validateSetbacks sd dd;
         results = record_check results setbackCheck
           (JObj [(''type'', JStr (ABSOLUTE_STOPPER (criticalViolationTypes this))),
                  (''ruleId'', JStr ''CP004''),
                  (''category'', JStr ''Setbacks''),
                  (''description'', js_get setbackCheck ''message''),
                  (''remediation'', JStr ''Move building within compliant envelope'')]);
         farCheck = validateFAR sd dd;
         results = record_check results farCheck
           (JObj [(''type'', JStr (ABSOLUTE_STOPPER (criticalViolationTypes this))),
                  (''ruleId'', JStr ''CP003''),
                  (''category'', JStr ''Floor Area''),
                  (''description'', js_get farCheck ''message''),
                  (''remediation'',
                     JStr ''Reduce floor area or redesign to comply with FAR limits'')]);
         daylightCheck = validateDaylightPlane sd dd;
         results = record_check results daylightCheck
           (JObj [(''type'', JStr (MAJOR_STOPPER (criticalViolationTypes this))),
                  (''ruleId'', JStr ''CP005''),
                  (''category'', JStr ''Building Envelope''),
                  (''description'', js_get daylightCheck ''message''),
                  (''remediation'',
                     JStr ''Redesign building envelope to comply with daylight plane'')]);
         featuresCheck = validateArchitecturalFeatures dd;
         results = record_check results featuresCheck
           (JObj [(''type'', JStr (DESIGN_STOPPER (criticalViolationTypes this))),
                  (''category'', JStr ''Architectural Features''),
                  (''description'', js_get featuresCheck ''message'')]);
         coverageCheck = validateLotCoverage sd dd;
         results = record_check results coverageCheck
           (JObj [(''type'', JStr (DESIGN_STOPPER (criticalViolationTypes this))),
                  (''ruleId'', JStr ''CP013''),
                  (''category'', JStr ''Lot Coverage''),
                  (''description'', js_get coverageCheck ''message''),
                  (''remediation'', JStr ''Reduce building size or eliminate structures'')]) in
     close_phase results)"

definition executePhase3Validation ::
    "validation_engine \<Rightarrow> site_data \<Rightarrow> design_data \<Rightarrow> validation_result" where
  "executePhase3Validation this sd dd =
    (let results = new_validation_result this 3;
         parkingCountCheck = validateParkingSpaceCount dd;
         results = record_check results parkingCountCheck
           (JObj [(''type'', JStr (MAJOR_STOPPER (criticalViolationTypes this))),
                  (''ruleId'', JStr ''CP006''),
                  (''category'', JStr ''Parking''),
                  (''description'', js_get parkingCountCheck ''message''),
                  (''remediation'',
                     JStr ''Provide adequate parking or eliminate second unit'')]);
         coveredParkingCheck = validateCoveredParking dd;
         results = record_check results coveredParkingCheck
           (JObj [(''type'', JStr (MAJOR_STOPPER (criticalViolationTypes this))),
                  (''category'', JStr ''Covered Parking''),
                  (''description'', js_get coveredParkingCheck ''message'')]);
         drivewayCheck = validateDrivewayDimensions dd;
         results = record_check results drivewayCheck
           (JObj [(''type'', JStr (MAJOR_STOPPER (criticalViolationTypes this))),
                  (''ruleId'', JStr ''CP007''),
                  (''category'', JStr ''Access''),
                  (''description'', js_get drivewayCheck ''message''),
                  (''remediation'', JStr ''Modify driveway design to meet requirements'')]);
         garageCheck = validateGaragePlacement sd dd;
         results = record_check results garageCheck
           (JObj [(''type'', JStr (DESIGN_STOPPER (criticalViolationTypes this))),
                  (''ruleId'', JStr ''CP014''),
                  (''category'', JStr ''Garage Placement''),
                  (''description'', js_get garageCheck ''message''),
                  (''remediation'', JStr ''Relocate garage or design carport alternative'')]);
         maneuverabilityCheck = validateVehicleManeuverability dd;
         results = record_check results maneuverabilityCheck
           (JObj [(''type'', JStr (MAJOR_STOPPER (criticalViolationTypes this))),
                  (''category'', JStr ''Vehicle Access''),
                  (''description'', js_get maneuverabilityCheck ''message'')]);
         materialsCheck = validateDrivewayMaterials dd;
         results = results\<lparr>validationChecks := validationChecks results @ [materialsCheck]\<rparr>;
         results =
           (if js_get materialsCheck ''result'' = JStr ''FAIL''
            then results\<lparr>warnings := warnings results @
              [JObj [(''type'', JStr ''materials''),
                     (''message'', js_get materialsCheck ''message'')]]\<rparr>
            else results\<lparr>passed := passed results + 1\<rparr>) in
     close_phase results)"

definition executePhase4Validation ::
    "validation_engine \<Rightarrow> site_data \<Rightarrow> design_data \<Rightarrow> js_error + validation_result" where
  "executePhase4Validation this sd dd =
    (let results = new_validation_result this 4 in
     case (if hasSecondUnit dd
           then (case validateSecondDwellingUnit this sd dd of Inl e \<Rightarrow> Inl e
                 | Inr secondUnitCheck \<Rightarrow>
                   (let results = record_check results secondUnitCheck
                          (JObj [(''type'', JStr (MAJOR_STOPPER (criticalViolationTypes this))),
                                 (''ruleId'', JStr ''CP008''),
                                 (''category'', JStr ''Second Dwelling Unit''),
                                 (''description'', js_get secondUnitCheck ''message''),
                                 (''remediation'',
                                    JStr ''Eliminate second unit or find larger lot'')]);
                        sizeCheck = validateSecondUnitSize dd in
                    Inr (record_check results sizeCheck
                          (JObj [(''type'', JStr (DESIGN_STOPPER (criticalViolationTypes this))),
                                 (''ruleId'', JStr ''CP017''),
                                 (''category'', JStr ''Second Unit Design''),
                                 (''description'', js_get sizeCheck ''message''),
                                 (''remediation'',
                                    JStr ''Redesign second unit within limits'')]))))
           else Inr results) of Inl e \<Rightarrow> Inl e | Inr results \<Rightarrow>
     (case (if (case accessoryStructures dd of None \<Rightarrow> False
                | Some structures \<Rightarrow> length structures > 0)
            then (case validateAccessoryStructures dd of Inl e \<Rightarrow> Inl e
                  | Inr accessoryCheck \<Rightarrow>
                    Inr (record_check results accessoryCheck
                          (JObj [(''type'', JStr (DESIGN_STOPPER (criticalViolationTypes this))),
                                 (''category'', JStr ''Accessory Structures''),
                                 (''description'', js_get accessoryCheck ''message'')])))
            else Inr results) of Inl e \<Rightarrow> Inl e | Inr results \<Rightarrow>
      (let results =
             (if hasPool dd
              then (let poolCheck = validatePoolSafety dd in
                    record_check results poolCheck
                      (JObj [(''type'', JStr (DESIGN_STOPPER (criticalViolationTypes this))),
                             (''ruleId'', JStr ''CP020''),
                             (''category'', JStr ''Pool Safety''),
                             (''description'', js_get poolCheck ''message''),
                             (''remediation'', JStr ''Install compliant safety barriers'')]))
              else results);
           totalCoverageCheck = validateTotalCoverageWithFeatures sd dd;
           results = record_check results totalCoverageCheck
             (JObj [(''type'', JStr (DESIGN_STOPPER (criticalViolationTypes this))),
                    (''category'', JStr ''Total Coverage''),
                    (''description'', js_get totalCoverageCheck ''message''),
                    (''remediation'', JStr ''Reduce structure sizes or eliminate features'')]) in
       Inr (close_phase results))))"

definition executePhase5Validation ::
    "validation_engine \<Rightarrow> clock \<Rightarrow> site_data \<Rightarrow> design_data
      \<Rightarrow> (string \<times> validation_result) list \<Rightarrow> validation_result" where
  "executePhase5Validation this now sd dd allPreviousResults =
    (let results = (new_validation_result this 5)\<lparr>phase_result.finalReport := JNull\<rparr>;
         comprehensiveCheck = performComprehensiveValidation;
         results = results\<lparr>validationChecks := validationChecks results @ [comprehensiveCheck]\<rparr>;
         criticalPathCheck = validateCriticalPath this allPreviousResults;
         results = results\<lparr>validationChecks := validationChecks results @ [criticalPathCheck]\<rparr>;
         professionalCheck = validateProfessionalRequirements dd;
         results = record_check results professionalCheck
           (JObj [(''type'', JStr (PROCESS_STOPPER (criticalViolationTypes this))),
                  (''category'', JStr ''Professional Requirements''),
                  (''description'', js_get professionalCheck ''message'')]);
         documentationCheck = validateDocumentationCompleteness dd;
         results = record_check results documentationCheck
           (JObj [(''type'', JStr (PROCESS_STOPPER (criticalViolationTypes this))),
                  (''category'', JStr ''Documentation''),
                  (''description'', js_get documentationCheck ''message'')]);
         results = results\<lparr>phase_result.finalReport :=
           generateValidationReport this now sd dd allPreviousResults results\<rparr>;
         allViolations = collectAllViolations allPreviousResults results;
         criticalViolations =
           filter (\<lambda>v. js_get v ''type'' = JStr (ABSOLUTE_STOPPER (criticalViolationTypes this)))
             allViolations in
     if length criticalViolations > 0 then results\<lparr>status := ''rejected''\<rparr>
     else if length allViolations > 0 then results\<lparr>status := ''conditional''\<rparr>
     else results\<lparr>status := ''approved''\<rparr>)"

subsection \<open>The validation workflow\<close>

text \<open>
  \<open>executeValidationWorkflow\<close>, with the \<open>try\<close> block as in \<open>executePlanningWorkflow\<close>. The
  clock is read for \<open>startTime\<close>, then by the report of phase 5, then for \<open>endTime\<close>.
\<close>

definition catch_validation_error ::
    "'p validation_workflow \<Rightarrow> js_error \<Rightarrow> 'p validation_workflow" where
  "catch_validation_error workflow e = workflow\<lparr>overallStatus := ''error'', error := Some e\<rparr>"

definition executeValidationWorkflow ::
    "validation_engine \<Rightarrow> clock \<Rightarrow> site_data \<Rightarrow> design_data
      \<Rightarrow> validation_result validation_workflow" where
  "executeValidationWorkflow this now sd dd =
    (let workflow = \<lparr>startTime = now 0, siteData = sd, phases = [],
                      overallStatus = ''in_progress'', finalReport = JNull,
                      stopReason = None, error = None, endTime = None,
                      designData = dd\<rparr> in
     case executePhase1Validation this sd dd of Inl e \<Rightarrow> catch_validation_error workflow e
     | Inr phase1Results \<Rightarrow>
     let workflow = workflow\<lparr>phases := phases workflow @ [(''phase1'', phase1Results)]\<rparr> in
     if status phase1Results = ''critical_failure''
     then workflow\<lparr>overallStatus := ''rejected'',
                   stopReason := Some ''Critical site validation failures''\<rparr>
     else
     let phase2Results = executePhase2Validation this sd dd phase1Results;
         workflow = workflow\<lparr>phases := phases workflow @ [(''phase2'', phase2Results)]\<rparr>;
         phase3Results = executePhase3Validation this sd dd;
         workflow = workflow\<lparr>phases := phases workflow @ [(''phase3'', phase3Results)]\<rparr> in
     (case executePhase4Validation this sd dd of Inl e \<Rightarrow> catch_validation_error workflow e
      | Inr phase4Results \<Rightarrow>
      let workflow = workflow\<lparr>phases := phases workflow @ [(''phase4'', phase4Results)]\<rparr>;
          phase5Results = executePhase5Validation this (\<lambda>n. now (Suc n)) sd dd
            [(''phase1'', phase1Results), (''phase2'', phase2Results),
             (''phase3'', phase3Results), (''phase4'', phase4Results)];
          workflow = workflow\<lparr>phases := phases workflow @ [(''phase5'', phase5Results)]\<rparr> in
      workflow\<lparr>overallStatus := status phase5Results,
                finalReport := phase_result.finalReport phase5Results,
                endTime := Some (now 2)\<rparr>))"

section \<open>Sample inputs\<close>

text \<open>
  A site in zone R-1 and the design record the form produces for it (\<open>example_design\<close>);
  \<open>compliant_design\<close> completes the stamps and documents and gives the total coverage with
  features.
\<close>

definition example_site :: site_data where
  "example_site =
    \<lparr>address = ''123 Main St'', zone = ''R-1'', lotSize = 8000, lotType = ''typical'',
     isCornerLot = False, creekAreas = 0, easements = 0, historicCategory = JNull,
     site_data.hasSecondUnit = False\<rparr>"

definition example_design :: design_data where
  "example_design =
    \<lparr>submittedZone = ''R-1'', buildingHeight = 25, totalFloorArea = 3000, floors = 2,
     totalCoverage = 2500, frontSetback = 20, interiorSideSetback = 5,
     streetSideSetback = Null, rearSetback = 20, parkingSpaces = 2,
     coveredParkingSpaces = 1, drivewaySurfaceWidth = 8, drivewayClearanceWidth = 10,
     backingDistance = 18, hasSecondUnit = False, hasPool = False, hasGarage = False,
     daylightPlaneCompliant = Some True, drivewayMaterial = Some ''concrete'',
     professionalStamps = Some [''Architect''],
     submittedDocuments = Some [''site_plan'', ''floor_plans''],
     historicCompliance = None, buildingFootprint = JUndefined, encroachesCreek = False,
     encroachesEasement = False, secondFloorCeiling = Undefined,
     thirdFloorCeiling = Undefined, porchArea = Undefined, entryProjection = Undefined,
     bayWindowProjection = Undefined, garageFrontSetback = Undefined,
     garageStreetSideSetback = Undefined, mainHouseArea = Undefined,
     secondUnitArea = Undefined, accessoryStructures = None, poolSetback = Undefined,
     poolSafetyBarriers = False, totalCoverageWithFeatures = Undefined\<rparr>"

definition compliant_design :: design_data where
  "compliant_design =
    example_design
      \<lparr>professionalStamps := Some [''Architect'', ''Structural Engineer''],
       submittedDocuments :=
         Some [''site_plan'', ''floor_plans'', ''elevations'', ''structural_calcs''],
       totalCoverageWithFeatures := Number 2500\<rparr>"

text \<open>The design of the form with the second-unit box ticked, for a main house of 2000 sq ft:
  the form never supplies \<open>secondUnitArea\<close>.\<close>

definition second_unit_design :: design_data where
  "second_unit_design =
    example_design\<lparr>hasSecondUnit := True, mainHouseArea := Number 2000,
                    parkingSpaces := 4, coveredParkingSpaces := 2\<rparr>"

text \<open>A clock that shows the instant \<open>t\<close> at every reading.\<close>

definition clock_at :: "nat \<Rightarrow> clock" where
  "clock_at t = (\<lambda>n. t)"

section \<open>Auxiliary lemmas\<close>

lemmas example_defs = example_site_def example_design_def compliant_design_def

lemmas fl_eval = fl_def binade_def round_half_even_def pow2_def Let_def bit_length.simps

lemma fl_literals:
  "fl 0.45 = 8106479329266893 / 18014398509481984"
  "fl 0.30 = 5404319552844595 / 18014398509481984"
  "fl 0.35 = 3152519739159347 / 9007199254740992"
  "fl 0.05 = 3602879701896397 / 72057594037927936"
  "fl 0.40 = 3602879701896397 / 9007199254740992"
  by (simp_all add: fl_eval)

lemma fl_lot_8000:
  "fl (5000 * fl 0.45) = 2250"
  "fl (8000 - 5000) = 3000"
  "fl (3000 * fl 0.30) = 900"
  "fl (2250 + 900) = 3150"
  "fl (8000 * fl 0.35) = 2800"
  "fl (8000 * fl 0.05) = 400"
  "fl (2800 + 400) = 3200"
  "fl (8000 * fl 0.40) = 3200"
  "fl 8000 = 8000"
  by (simp_all add: fl_eval)

lemma fl_1000: "fl 1000 = 1000"
  by (simp add: fl_eval)

lemma zone_read_known:
  "zone_lookup this z = Some r \<Longrightarrow> zone_read this z = ZoneRequirement r"
  by (simp add: zone_read_def)

lemma zone_read_inherited:
  "zone_lookup this z = None \<Longrightarrow> z \<in> set Object_prototype_properties
    \<Longrightarrow> zone_read this z = Inherited z"
  by (simp add: zone_read_def)

lemma zone_read_absent:
  "zone_lookup this z = None \<Longrightarrow> z \<notin> set Object_prototype_properties
    \<Longrightarrow> zone_read this z = NoZone"
  by (simp add: zone_read_def)

lemma zone_tables_agree: "zoneRequirements ValidationEngine = zoneRequirements PlanningEngine"
  by (simp add: ValidationEngine_def PlanningEngine_def)

lemma record_check_simps:
  "violations (record_check r c v)
     = violations r @ (if js_get c ''result'' = JStr ''FAIL'' then [v] else [])"
  "warnings (record_check r c v) = warnings r"
  "status (record_check r c v) = status r"
  "nextPhaseInputs (record_check r c v) = nextPhaseInputs r"
  "validationChecks (record_check r c v) = validationChecks r @ [c]"
  by (simp_all add: record_check_def Let_def)

lemma close_phase_simps:
  "violations (close_phase r) = violations r"
  "warnings (close_phase r) = warnings r"
  "validationChecks (close_phase r) = validationChecks r"
  "status (close_phase r) = (if violations r = [] then ''passed'' else ''violations_found'')"
  by (simp_all add: close_phase_def)

lemma new_validation_result_simps:
  "violations (new_validation_result this n) = []"
  "warnings (new_validation_result this n) = []"
  "validationChecks (new_validation_result this n) = []"
  by (simp_all add: new_validation_result_def)

lemma filter_if_single:
  "filter P (if c then [v] else []) = (if c \<and> P v then [v] else [])"
  by simp

lemma validateFAR_result:
  "js_get (validateFAR sd dd) ''result''
     = JStr (if totalFloorArea dd
                  \<le> min (fl (fl (min (lotSize sd) 5000 * fl 0.45)
                              + fl (max (fl (lotSize sd - 5000)) 0 * fl 0.30))) 6000
             then ''PASS'' else ''FAIL'')"
  by (simp add: validateFAR_def Let_def)

lemma calculateFARParameters_value:
  "js_get (calculateFARParameters sd) ''maxFloorArea''
     = JNum (min (fl (fl (min (lotSize sd) 5000 * fl 0.45)
                      + fl (max (fl (lotSize sd - 5000)) 0 * fl 0.30))) 6000)"
  by (simp add: calculateFARParameters_def Let_def)

lemma validateLotCoverage_result:
  "js_get (validateLotCoverage sd dd) ''result''
     = JStr (if totalCoverage dd \<le> fl (fl (lotSize sd * fl 0.35) + fl (lotSize sd * fl 0.05))
             then ''PASS'' else ''FAIL'')"
  by (simp add: validateLotCoverage_def Let_def)

lemma total_coverage_result:
  "js_get (validateTotalCoverageWithFeatures sd dd) ''result''
     = JStr (if js_le (toNumber (totalCoverageWithFeatures dd))
                  (Some (fl (lotSize sd * fl 0.40)))
             then ''PASS'' else ''FAIL'')"
  by (simp add: validateTotalCoverageWithFeatures_def Let_def)

lemma phase2_violations:
  "violations (executePhase2Validation this sd dd p1) =
    (let isSubStandard = js_get (JObj (nextPhaseInputs p1)) ''isSubStandard'';
         abs = JStr (ABSOLUTE_STOPPER (criticalViolationTypes this));
         maj = JStr (MAJOR_STOPPER (criticalViolationTypes this));
         des = JStr (DESIGN_STOPPER (criticalViolationTypes this)) in
    (if js_get (validateBuildingHeight dd isSubStandard) ''result'' = JStr ''FAIL''
     then [JObj [(''type'', abs), (''ruleId'', JStr ''CP002''),
                 (''category'', JStr ''Building Height''),
                 (''description'', js_get (validateBuildingHeight dd isSubStandard) ''message''),
                 (''remediation'', JStr ''Reduce building height or reconfigure design'')]]
     else [])
    @ (if js_get (validateStoryEquivalency dd) ''result'' = JStr ''FAIL''
       then [JObj [(''type'', des), (''ruleId'', JStr ''CP015''),
                   (''category'', JStr ''Story Height''),
                   (''description'', js_get (validateStoryEquivalency dd) ''message'')]]
       else [])
    @ (if js_get (validateSetbacks sd dd) ''result'' = JStr ''FAIL''
       then [JObj [(''type'', abs), (''ruleId'', JStr ''CP004''),
                   (''category'', JStr ''Setbacks''),
                   (''description'', js_get (validateSetbacks sd dd) ''message''),
                   (''remediation'', JStr ''Move building within compliant envelope'')]]
       else [])
    @ (if js_get (validateFAR sd dd) ''result'' = JStr ''FAIL''
       then [JObj [(''type'', abs), (''ruleId'', JStr ''CP003''),
                   (''category'', JStr ''Floor Area''),
                   (''description'', js_get (validateFAR sd dd) ''message''),
                   (''remediation'',
                      JStr ''Reduce floor area or redesign to comply with FAR limits'')]]
       else [])
    @ (if js_get (validateDaylightPlane sd dd) ''result'' = JStr ''FAIL''
       then [JObj [(''type'', maj), (''ruleId'', JStr ''CP005''),
                   (''category'', JStr ''Building Envelope''),
                   (''description'', js_get (validateDaylightPlane sd dd) ''message''),
                   (''remediation'',
                      JStr ''Redesign building envelope to comply with daylight plane'')]]
       else [])
    @ (if js_get (validateArchitecturalFeatures dd) ''result'' = JStr ''FAIL''
       then [JObj [(''type'', des), (''category'', JStr ''Architectural Features''),
                   (''description'', js_get (validateArchitecturalFeatures dd) ''message'')]]
       else [])
    @ (if js_get (validateLotCoverage sd dd) ''result'' = JStr ''FAIL''
       then [JObj [(''type'', des), (''ruleId'', JStr ''CP013''),
                   (''category'', JStr ''Lot Coverage''),
                   (''description'', js_get (validateLotCoverage sd dd) ''message''),
                   (''remediation'', JStr ''Reduce building size or eliminate structures'')]]
       else []))"
  unfolding executePhase2Validation_def Let_def
  by (simp only: record_check_simps close_phase_simps new_validation_result_simps append_Nil append_assoc)

lemma phase2_CP003_violations:
  "filter (\<lambda>v. js_get v ''ruleId'' = JStr ''CP003'')
       (violations (executePhase2Validation ValidationEngine sd dd p1))
     = (if js_get (validateFAR sd dd) ''result'' = JStr ''FAIL''
        then [JObj [(''type'', JStr ''absolute_stopper''), (''ruleId'', JStr ''CP003''),
                   (''category'', JStr ''Floor Area''),
                   (''description'', js_get (validateFAR sd dd) ''message''),
                   (''remediation'',
                      JStr ''Reduce floor area or redesign to comply with FAR limits'')]]
        else [])"
  by (simp add: phase2_violations Let_def filter_if_single ValidationEngine_def split del: if_split cong: if_cong)

lemma phase5_violations:
  "violations (executePhase5Validation this now sd dd prev) =
     (if js_get (validateProfessionalRequirements dd) ''result'' = JStr ''FAIL''
      then [JObj [(''type'', JStr (PROCESS_STOPPER (criticalViolationTypes this))),
                  (''category'', JStr ''Professional Requirements''),
                  (''description'', js_get (validateProfessionalRequirements dd) ''message'')]]
      else [])
     @ (if js_get (validateDocumentationCompleteness dd) ''result'' = JStr ''FAIL''
        then [JObj [(''type'', JStr (PROCESS_STOPPER (criticalViolationTypes this))),
                    (''category'', JStr ''Documentation''),
                    (''description'', js_get (validateDocumentationCompleteness dd) ''message'')]]
        else [])"
  by (simp add: executePhase5Validation_def Let_def record_check_simps new_validation_result_simps)

lemma phase5_status:
  "status (executePhase5Validation this now sd dd prev) =
     (let allViolations =
            collectAllViolations prev (executePhase5Validation this now sd dd prev) in
      if filter (\<lambda>v. js_get v ''type'' = JStr (ABSOLUTE_STOPPER (criticalViolationTypes this)))
           allViolations \<noteq> []
      then ''rejected''
      else if allViolations \<noteq> [] then ''conditional'' else ''approved'')"
  unfolding Let_def collectAllViolations_def phase5_violations
  by (simp add: executePhase5Validation_def Let_def record_check_simps new_validation_result_simps
       collectAllViolations_def)

lemma phase5_report_status:
  "js_get (phase_result.finalReport (executePhase5Validation this now sd dd prev)) ''overallStatus'' =
     (let allViolations =
            collectAllViolations prev (executePhase5Validation this now sd dd prev) in
      JStr (if filter (\<lambda>v. js_get v ''type'' = JStr (ABSOLUTE_STOPPER (criticalViolationTypes this)))
           allViolations \<noteq> []
      then ''REJECTED''
      else if allViolations \<noteq> [] then ''CONDITIONAL'' else ''APPROVED''))"
  unfolding Let_def collectAllViolations_def phase5_violations
  by (simp add: executePhase5Validation_def Let_def record_check_simps new_validation_result_simps
       collectAllViolations_def generateValidationReport_def)

lemma phase3_violations:
  "violations (executePhase3Validation this sd dd) =
    (let maj = JStr (MAJOR_STOPPER (criticalViolationTypes this));
         des = JStr (DESIGN_STOPPER (criticalViolationTypes this)) in
    (if js_get (validateParkingSpaceCount dd) ''result'' = JStr ''FAIL''
     then [JObj [(''type'', maj), (''ruleId'', JStr ''CP006''), (''category'', JStr ''Parking''),
                 (''description'', js_get (validateParkingSpaceCount dd) ''message''),
                 (''remediation'',
                    JStr ''Provide adequate parking or eliminate second unit'')]]
     else [])
    @ (if js_get (validateCoveredParking dd) ''result'' = JStr ''FAIL''
       then [JObj [(''type'', maj), (''category'', JStr ''Covered Parking''),
                   (''description'', js_get (validateCoveredParking dd) ''message'')]]
       else [])
    @ (if js_get (validateDrivewayDimensions dd) ''result'' = JStr ''FAIL''
       then [JObj [(''type'', maj), (''ruleId'', JStr ''CP007''), (''category'', JStr ''Access''),
                   (''description'', js_get (validateDrivewayDimensions dd) ''message''),
                   (''remediation'', JStr ''Modify driveway design to meet requirements'')]]
       else [])
    @ (if js_get (validateGaragePlacement sd dd) ''result'' = JStr ''FAIL''
       then [JObj [(''type'', des), (''ruleId'', JStr ''CP014''),
                   (''category'', JStr ''Garage Placement''),
                   (''description'', js_get (validateGaragePlacement sd dd) ''message''),
                   (''remediation'', JStr ''Relocate garage or design carport alternative'')]]
       else [])
    @ (if js_get (validateVehicleManeuverability dd) ''result'' = JStr ''FAIL''
       then [JObj [(''type'', maj), (''category'', JStr ''Vehicle Access''),
                   (''description'', js_get (validateVehicleManeuverability dd) ''message'')]]
       else []))"
  unfolding executePhase3Validation_def Let_def
  by (simp add: record_check_simps close_phase_simps new_validation_result_simps
        split del: if_split cong: if_cong)
    (simp add: if_distrib [of violations] record_check_simps new_validation_result_simps
        split del: if_split cong: if_cong)

lemma workflow_cases:
  "executeValidationWorkflow this now sd dd =
    (case executePhase1Validation this sd dd of
       Inl e \<Rightarrow>
         \<lparr>startTime = now 0, siteData = sd, phases = [], overallStatus = ''error'',
          finalReport = JNull, stopReason = None, error = Some e, endTime = None,
          designData = dd\<rparr>
     | Inr p1 \<Rightarrow>
         if status p1 = ''critical_failure''
         then \<lparr>startTime = now 0, siteData = sd, phases = [(''phase1'', p1)],
               overallStatus = ''rejected'', finalReport = JNull,
               stopReason = Some ''Critical site validation failures'', error = None,
               endTime = None, designData = dd\<rparr>
         else (case executePhase4Validation this sd dd of
                 Inl e \<Rightarrow>
                   \<lparr>startTime = now 0, siteData = sd,
                    phases = [(''phase1'', p1),
                              (''phase2'', executePhase2Validation this sd dd p1),
                              (''phase3'', executePhase3Validation this sd dd)],
                    overallStatus = ''error'', finalReport = JNull, stopReason = None,
                    error = Some e, endTime = None, designData = dd\<rparr>
               | Inr p4 \<Rightarrow>
                   (let prev = [(''phase1'', p1),
                                (''phase2'', executePhase2Validation this sd dd p1),
                                (''phase3'', executePhase3Validation this sd dd),
                                (''phase4'', p4)];
                        p5 = executePhase5Validation this (\<lambda>n. now (Suc n)) sd dd prev in
                    \<lparr>startTime = now 0, siteData = sd,
                     phases = prev @ [(''phase5'', p5)],
                     overallStatus = status p5,
                     finalReport = phase_result.finalReport p5, stopReason = None,
                     error = None, endTime = Some (now 2), designData = dd\<rparr>)))"
  by (simp add: executeValidationWorkflow_def catch_validation_error_def Let_def
        split: sum.splits)

lemma phase1_unknown_zone:
  "zone_read this (zone sd) = NoZone \<Longrightarrow>
   executePhase1Validation this sd dd = Inl (TypeError ''minLotSize'')"
  by (simp add: executePhase1Validation_def validateLotSize_def Let_def)

lemma phase1_inherited:
  assumes "zone_read this (zone sd) = Inherited p"
  shows "\<exists>p1. executePhase1Validation this sd dd = Inr p1
          \<and> status p1 = ''critical_failure''
          \<and> map (\<lambda>c. js_get c ''checkName'') (validationChecks p1)
              = [JStr ''Lot Size Validation'']
          \<and> map (\<lambda>c. js_get c ''required'') (validationChecks p1) = [JUndefined]
          \<and> violations p1 =
              [JObj [(''type'', JStr (ABSOLUTE_STOPPER (criticalViolationTypes this))),
                     (''ruleId'', JStr ''CP001''),
                     (''category'', JStr ''Lot Requirements''),
                     (''description'',
                        JText [JStr ''Lot area below minimum threshold for '', JStr (zone sd),
                               JStr '' zone (Required: '', JUndefined,
                               JStr '' sq ft, Actual: '', JNum (lotSize sd),
                               JStr '' sq ft)'']),
                     (''remediation'',
                        JStr ''Site not suitable for development in current zone'')]]"
  using assms
  by (simp add: executePhase1Validation_def validateLotSize_def Let_def
        new_validation_result_def js_ge_def)

lemma phase1_critical:
  assumes "zone_lookup this (zone sd) = Some zr" and "lotSize sd < minLotSize zr"
  shows "\<exists>p1. executePhase1Validation this sd dd = Inr p1
          \<and> status p1 = ''critical_failure''
          \<and> violations p1 =
              [JObj [(''type'', JStr (ABSOLUTE_STOPPER (criticalViolationTypes this))),
                     (''ruleId'', JStr ''CP001''),
                     (''category'', JStr ''Lot Requirements''),
                     (''description'',
                        JText [JStr ''Lot area below minimum threshold for '', JStr (zone sd),
                               JStr '' zone (Required: '', JNum (minLotSize zr),
                               JStr '' sq ft, Actual: '', JNum (lotSize sd),
                               JStr '' sq ft)'']),
                     (''remediation'',
                        JStr ''Site not suitable for development in current zone'')]]"
  using assms
  by (simp add: executePhase1Validation_def validateLotSize_def Let_def
        new_validation_result_def zone_read_known js_ge_def)

lemma phase1_lot_ok:
  assumes "zone_lookup this (zone sd) = Some zr" and "minLotSize zr \<le> lotSize sd"
  shows "\<exists>p1. executePhase1Validation this sd dd = Inr p1
          \<and> status p1 = (if violations p1 = [] then ''passed'' else ''violations_found'')
          \<and> violations p1 =
              (if js_get (validateZoneDistrict sd dd) ''result'' = JStr ''PASS'' then []
               else [JObj [(''type'', JStr (ABSOLUTE_STOPPER (criticalViolationTypes this))),
                           (''ruleId'', JStr ''V001''),
                           (''category'', JStr ''Zone Verification''),
                           (''description'', js_get (validateZoneDistrict sd dd) ''message'')]])
              @ (if js_get (validateHistoricConstraints sd dd) ''result'' = JStr ''FAIL''
                 then [JObj [(''type'', JStr (MAJOR_STOPPER (criticalViolationTypes this))),
                             (''ruleId'', JStr ''CP009''),
                             (''category'', JStr ''Historic Properties''),
                             (''description'',
                                js_get (validateHistoricConstraints sd dd) ''message'')]]
                 else [])
              @ (if js_get (validateEnvironmentalExclusions sd dd) ''result'' = JStr ''FAIL''
                 then [JObj [(''type'', JStr (MAJOR_STOPPER (criticalViolationTypes this))),
                             (''ruleId'', JStr ''CP012''),
                             (''category'', JStr ''Environmental''),
                             (''description'',
                                js_get (validateEnvironmentalExclusions sd dd) ''message'')]]
                 else [])"
  using assms
  unfolding executePhase1Validation_def Let_def
  by (cases "lotType sd = ''flag''")
     (simp_all add: validateLotSize_def validateSubStandardStatus_def Let_def
        record_check_simps close_phase_simps new_validation_result_simps
        zone_read_known js_ge_def
        if_distrib [of violations]
        split del: if_split cong: if_cong)

lemma phase4_known_zone:
  assumes "zone_lookup this (zone sd) = Some zr"
  shows "\<exists>p4. executePhase4Validation this sd dd = Inr p4
    \<and> status p4 = (if violations p4 = [] then ''passed'' else ''violations_found'')
    \<and> violations p4 =
      (if hasSecondUnit dd
       then (if lotSize sd \<ge> (if lotType sd = ''flag'' then secondUnitMinFlag zr
                                else secondUnitMinTypical zr)
             then []
             else [JObj [(''type'', JStr (MAJOR_STOPPER (criticalViolationTypes this))),
                         (''ruleId'', JStr ''CP008''),
                         (''category'', JStr ''Second Dwelling Unit''),
                         (''description'',
                            JText [JStr ''Lot too small for second unit ('', JNum (lotSize sd),
                                   JStr '' sq ft < '',
                                   JNum (if lotType sd = ''flag'' then secondUnitMinFlag zr
                                         else secondUnitMinTypical zr),
                                   JStr '' sq ft required)'']),
                         (''remediation'', JStr ''Eliminate second unit or find larger lot'')]])
            @ (if js_get (validateSecondUnitSize dd) ''result'' = JStr ''FAIL''
               then [JObj [(''type'', JStr (DESIGN_STOPPER (criticalViolationTypes this))),
                           (''ruleId'', JStr ''CP017''),
                           (''category'', JStr ''Second Unit Design''),
                           (''description'', js_get (validateSecondUnitSize dd) ''message''),
                           (''remediation'', JStr ''Redesign second unit within limits'')]]
               else [])
       else [])
      @ (case accessoryStructures dd of
           None \<Rightarrow> []
         | Some structures \<Rightarrow>
             if structures \<noteq> [] \<and> accessory_violations structures 0 \<noteq> []
             then [JObj [(''type'', JStr (DESIGN_STOPPER (criticalViolationTypes this))),
                         (''category'', JStr ''Accessory Structures''),
                         (''description'',
                            js_join (accessory_violations structures 0) ''; '')]]
             else [])
      @ (if hasPool dd \<and> js_get (validatePoolSafety dd) ''result'' = JStr ''FAIL''
         then [JObj [(''type'', JStr (DESIGN_STOPPER (criticalViolationTypes this))),
                     (''ruleId'', JStr ''CP020''),
                     (''category'', JStr ''Pool Safety''),
                     (''description'', js_get (validatePoolSafety dd) ''message''),
                     (''remediation'', JStr ''Install compliant safety barriers'')]]
         else [])
      @ (if js_get (validateTotalCoverageWithFeatures sd dd) ''result'' = JStr ''FAIL''
         then [JObj [(''type'', JStr (DESIGN_STOPPER (criticalViolationTypes this))),
                     (''category'', JStr ''Total Coverage''),
                     (''description'',
                        js_get (validateTotalCoverageWithFeatures sd dd) ''message''),
                     (''remediation'',
                        JStr ''Reduce structure sizes or eliminate features'')]]
         else [])"
  using assms
  by (cases "hasSecondUnit dd"; cases "accessoryStructures dd"; cases "lotType sd = ''flag''")
     (simp_all add: executePhase4Validation_def validateSecondDwellingUnit_def
        validateAccessoryStructures_def Let_def record_check_simps close_phase_simps
        new_validation_result_simps zone_read_known js_ge_def)


lemma close_phase_next: "nextPhaseInputs (close_phase r) = nextPhaseInputs r"
  by (simp add: close_phase_def)

lemma phase1_next_inputs:
  assumes "zone_lookup this (zone sd) = Some zr" and "minLotSize zr \<le> lotSize sd"
  shows "\<exists>p1. executePhase1Validation this sd dd = Inr p1
     \<and> nextPhaseInputs p1 =
         [(''isSubStandard'',
             JBool (lotSize sd < (if lotType sd = ''flag'' then subStandardFlag zr
                                  else subStandardTypical zr))),
          (''zoneRequirements'', js_of_zone (ZoneRequirement zr)),
          (''buildableArea'', JNum (calculateBuildableArea sd)),
          (''historicCategory'', historicCategory sd)]"
  using assms
  unfolding executePhase1Validation_def Let_def
  by (cases "lotType sd = ''flag''")
     (simp_all add: validateLotSize_def validateSubStandardStatus_def Let_def
        record_check_simps close_phase_simps close_phase_next new_validation_result_simps
        zone_read_known js_ge_def
        split del: if_split cong: if_cong)

lemma planning_phase1_unknown_zone:
  "zone_read this (zone sd) = NoZone \<Longrightarrow> executePhase1 this sd = Inl (TypeError ''minLotSize'')"
  by (simp add: executePhase1_def verifyLotSize_def Let_def)

lemma planning_phase1_inherited:
  assumes "zone_read this (zone sd) = Inherited p"
  shows "\<exists>p1. executePhase1 this sd = Inr p1 \<and> status p1 = ''stopped''
           \<and> map (\<lambda>t. js_get t ''name'') (tasks p1) = [JStr ''Lot Size Verification'']
           \<and> map (\<lambda>t. js_get t ''status'') (tasks p1) = [JStr ''fail'']
           \<and> map (\<lambda>t. js_get t ''required'') (tasks p1) = [JUndefined]"
  using assms
  by (simp add: executePhase1_def verifyLotSize_def Let_def new_planning_result_def js_ge_def)

lemma planning_phase1_stopped:
  assumes "zone_lookup this (zone sd) = Some zr" and "lotSize sd < minLotSize zr"
  shows "\<exists>p1. executePhase1 this sd = Inr p1 \<and> status p1 = ''stopped''
           \<and> map (\<lambda>t. js_get t ''name'') (tasks p1) = [JStr ''Lot Size Verification'']"
  using assms
  by (simp add: executePhase1_def verifyLotSize_def Let_def new_planning_result_def
        zone_read_known js_ge_def)

lemma planning_workflow_cases:
  "executePlanningWorkflow this now sd =
    (case executePhase1 this sd of
       Inl e \<Rightarrow>
         \<lparr>startTime = now 0, siteData = sd, phases = [], overallStatus = ''error'',
          finalReport = JNull, stopReason = None, error = Some e, endTime = None\<rparr>
     | Inr p1 \<Rightarrow>
         if status p1 = ''stopped''
         then \<lparr>startTime = now 0, siteData = sd, phases = [(''phase1'', p1)],
               overallStatus = ''stopped'', finalReport = JNull,
               stopReason = Some ''Critical site constraints identified'', error = None,
               endTime = None\<rparr>
         else (case executePhase4 this sd of
                 Inl e \<Rightarrow>
                   \<lparr>startTime = now 0, siteData = sd,
                    phases = [(''phase1'', p1), (''phase2'', executePhase2 this sd p1),
                              (''phase3'', executePhase3 this sd)],
                    overallStatus = ''error'', finalReport = JNull, stopReason = None,
                    error = Some e, endTime = None\<rparr>
               | Inr p4 \<Rightarrow>
                   (let prev = [(''phase1'', p1), (''phase2'', executePhase2 this sd p1),
                                (''phase3'', executePhase3 this sd), (''phase4'', p4)];
                        p5 = executePhase5 this sd prev in
                    \<lparr>startTime = now 0, siteData = sd,
                     phases = prev @ [(''phase5'', p5)],
                     overallStatus = ''completed'',
                     finalReport = phase_result.finalReport p5, stopReason = None,
                     error = None, endTime = Some (now 1)\<rparr>)))"
  by (simp add: executePlanningWorkflow_def catch_error_def Let_def split: sum.splits)

lemma workflow_reaches_phase5:
  assumes "map fst (phases (executeValidationWorkflow this now sd dd))
             = [''phase1'', ''phase2'', ''phase3'', ''phase4'', ''phase5'']"
  shows "\<exists>prev. map fst prev = [''phase1'', ''phase2'', ''phase3'', ''phase4'']
     \<and> phases (executeValidationWorkflow this now sd dd)
         = prev @ [(''phase5'', executePhase5Validation this (\<lambda>n. now (Suc n)) sd dd prev)]
     \<and> overallStatus (executeValidationWorkflow this now sd dd)
         = status (executePhase5Validation this (\<lambda>n. now (Suc n)) sd dd prev)
     \<and> finalReport (executeValidationWorkflow this now sd dd)
         = phase_result.finalReport
             (executePhase5Validation this (\<lambda>n. now (Suc n)) sd dd prev)"
  using assms
  by (auto simp add: workflow_cases Let_def split: sum.splits if_splits)

lemma workflow_completes:
  assumes z: "zone_lookup this (zone sd) = Some zr" and l: "minLotSize zr \<le> lotSize sd"
  shows "\<exists>p1 p4. executePhase1Validation this sd dd = Inr p1
     \<and> executePhase4Validation this sd dd = Inr p4
     \<and> executeValidationWorkflow this now sd dd =
        (let prev = [(''phase1'', p1), (''phase2'', executePhase2Validation this sd dd p1),
                     (''phase3'', executePhase3Validation this sd dd), (''phase4'', p4)];
             p5 = executePhase5Validation this (\<lambda>n. now (Suc n)) sd dd prev in
         \<lparr>startTime = now 0, siteData = sd, phases = prev @ [(''phase5'', p5)],
          overallStatus = status p5, finalReport = phase_result.finalReport p5,
          stopReason = None, error = None, endTime = Some (now 2), designData = dd\<rparr>)"
proof -
  from phase1_lot_ok [OF z l] obtain p1 where
    p1: "executePhase1Validation this sd dd = Inr p1"
    and s1: "status p1 = (if violations p1 = [] then ''passed'' else ''violations_found'')"
    by blast
  from phase4_known_zone [OF z] obtain p4 where
    p4: "executePhase4Validation this sd dd = Inr p4"
    by blast
  from s1 have "status p1 \<noteq> ''critical_failure''"
    by (simp split: if_splits)
  then show ?thesis
    by (simp add: workflow_cases p1 p4)
qed

lemma material_checks:
  "validateZoneDistrict sd (dd\<lparr>drivewayMaterial := m\<rparr>) = validateZoneDistrict sd dd"
  "validateHistoricConstraints sd (dd\<lparr>drivewayMaterial := m\<rparr>)
     = validateHistoricConstraints sd dd"
  "validateEnvironmentalExclusions sd (dd\<lparr>drivewayMaterial := m\<rparr>)
     = validateEnvironmentalExclusions sd dd"
  "validateBuildingHeight (dd\<lparr>drivewayMaterial := m\<rparr>) s = validateBuildingHeight dd s"
  "validateStoryEquivalency (dd\<lparr>drivewayMaterial := m\<rparr>) = validateStoryEquivalency dd"
  "validateSetbacks sd (dd\<lparr>drivewayMaterial := m\<rparr>) = validateSetbacks sd dd"
  "validateFAR sd (dd\<lparr>drivewayMaterial := m\<rparr>) = validateFAR sd dd"
  "validateDaylightPlane sd (dd\<lparr>drivewayMaterial := m\<rparr>) = validateDaylightPlane sd dd"
  "validateArchitecturalFeatures (dd\<lparr>drivewayMaterial := m\<rparr>)
     = validateArchitecturalFeatures dd"
  "validateLotCoverage sd (dd\<lparr>drivewayMaterial := m\<rparr>) = validateLotCoverage sd dd"
  "validateParkingSpaceCount (dd\<lparr>drivewayMaterial := m\<rparr>) = validateParkingSpaceCount dd"
  "validateCoveredParking (dd\<lparr>drivewayMaterial := m\<rparr>) = validateCoveredParking dd"
  "validateDrivewayDimensions (dd\<lparr>drivewayMaterial := m\<rparr>)
     = validateDrivewayDimensions dd"
  "validateGaragePlacement sd (dd\<lparr>drivewayMaterial := m\<rparr>)
     = validateGaragePlacement sd dd"
  "validateVehicleManeuverability (dd\<lparr>drivewayMaterial := m\<rparr>)
     = validateVehicleManeuverability dd"
  "validateSecondDwellingUnit this sd (dd\<lparr>drivewayMaterial := m\<rparr>)
     = validateSecondDwellingUnit this sd dd"
  "validateSecondUnitSize (dd\<lparr>drivewayMaterial := m\<rparr>) = validateSecondUnitSize dd"
  "validateAccessoryStructures (dd\<lparr>drivewayMaterial := m\<rparr>)
     = validateAccessoryStructures dd"
  "validatePoolSafety (dd\<lparr>drivewayMaterial := m\<rparr>) = validatePoolSafety dd"
  "validateTotalCoverageWithFeatures sd (dd\<lparr>drivewayMaterial := m\<rparr>)
     = validateTotalCoverageWithFeatures sd dd"
  "validateProfessionalRequirements (dd\<lparr>drivewayMaterial := m\<rparr>)
     = validateProfessionalRequirements dd"
  "validateDocumentationCompleteness (dd\<lparr>drivewayMaterial := m\<rparr>)
     = validateDocumentationCompleteness dd"
  "hasSecondUnit (dd\<lparr>drivewayMaterial := m\<rparr>) = hasSecondUnit dd"
  "accessoryStructures (dd\<lparr>drivewayMaterial := m\<rparr>) = accessoryStructures dd"
  "hasPool (dd\<lparr>drivewayMaterial := m\<rparr>) = hasPool dd"
  by (simp_all add: validateZoneDistrict_def validateHistoricConstraints_def
        validateEnvironmentalExclusions_def checkEnvironmentalEncroachments_def
        validateBuildingHeight_def validateStoryEquivalency_def validateSetbacks_def
        validateFAR_def validateDaylightPlane_def validateArchitecturalFeatures_def
        validateLotCoverage_def validateParkingSpaceCount_def validateCoveredParking_def
        validateDrivewayDimensions_def validateGaragePlacement_def
        validateVehicleManeuverability_def validateSecondDwellingUnit_def
        validateSecondUnitSize_def validateAccessoryStructures_def validatePoolSafety_def
        validateTotalCoverageWithFeatures_def validateProfessionalRequirements_def
        validateDocumentationCompleteness_def split del: if_split cong: if_cong)

lemma material_phase1:
  "executePhase1Validation this sd (dd\<lparr>drivewayMaterial := m\<rparr>)
     = executePhase1Validation this sd dd"
  unfolding executePhase1Validation_def material_checks ..

lemma material_phase2:
  "executePhase2Validation this sd (dd\<lparr>drivewayMaterial := m\<rparr>) p1
     = executePhase2Validation this sd dd p1"
  unfolding executePhase2Validation_def material_checks ..

lemma material_phase3_violations:
  "violations (executePhase3Validation this sd (dd\<lparr>drivewayMaterial := m\<rparr>))
     = violations (executePhase3Validation this sd dd)"
  unfolding phase3_violations material_checks ..

lemma material_phase4:
  "executePhase4Validation this sd (dd\<lparr>drivewayMaterial := m\<rparr>)
     = executePhase4Validation this sd dd"
  unfolding executePhase4Validation_def material_checks ..


lemma phase5_final_status:
  "(let p5 = executePhase5Validation ValidationEngine now sd dd prev;
        allViolations = concat (map (\<lambda>(k, r). violations r) prev) @ violations p5;
        critical = filter (\<lambda>v. js_get v ''type'' = JStr ''absolute_stopper'') allViolations in
    status p5 = (if critical \<noteq> [] then ''rejected''
                 else if allViolations \<noteq> [] then ''conditional'' else ''approved'')
    \<and> js_get (phase_result.finalReport p5) ''overallStatus''
        = JStr (if critical \<noteq> [] then ''REJECTED''
                else if allViolations \<noteq> [] then ''CONDITIONAL'' else ''APPROVED''))"
proof -
  have abs: "ABSOLUTE_STOPPER (criticalViolationTypes ValidationEngine) = ''absolute_stopper''"
    by (simp add: ValidationEngine_def)
  have vals: "map violations (Object_values prev) = map (\<lambda>(k, r). violations r) prev"
    by (simp add: Object_values_def split_def)
  show ?thesis
    unfolding Let_def
    by (simp only: phase5_status phase5_report_status Let_def collectAllViolations_def abs vals)
qed

lemma workflow_final_status:
  assumes keys: "map fst (phases (executeValidationWorkflow ValidationEngine now sd dd))
            = [''phase1'', ''phase2'', ''phase3'', ''phase4'', ''phase5'']"
  shows "(let w = executeValidationWorkflow ValidationEngine now sd dd;
            allViolations = concat (map (\<lambda>(k, r). violations r) (phases w));
            critical = filter (\<lambda>v. js_get v ''type'' = JStr ''absolute_stopper'') allViolations in
          overallStatus w = (if critical \<noteq> [] then ''rejected''
                             else if allViolations \<noteq> [] then ''conditional'' else ''approved'')
          \<and> js_get (finalReport w) ''overallStatus''
              = JStr (if critical \<noteq> [] then ''REJECTED''
                      else if allViolations \<noteq> [] then ''CONDITIONAL'' else ''APPROVED''))"
proof -
  from workflow_reaches_phase5 [OF keys] obtain prev where
    ph: "phases (executeValidationWorkflow ValidationEngine now sd dd)
       = prev @ [(''phase5'',
            executePhase5Validation ValidationEngine (\<lambda>n. now (Suc n)) sd dd prev)]"
    and os: "overallStatus (executeValidationWorkflow ValidationEngine now sd dd)
       = status (executePhase5Validation ValidationEngine (\<lambda>n. now (Suc n)) sd dd prev)"
    and fr: "finalReport (executeValidationWorkflow ValidationEngine now sd dd)
       = phase_result.finalReport
           (executePhase5Validation ValidationEngine (\<lambda>n. now (Suc n)) sd dd prev)"
    by blast
  from phase5_final_status [of "\<lambda>n. now (Suc n)" sd dd prev] show ?thesis
    unfolding Let_def ph os fr by simp
qed

lemma example_run:
  "map fst (phases (executeValidationWorkflow ValidationEngine now example_site
                     (compliant_design\<lparr>parkingSpaces := k\<rparr>)))
     = [''phase1'', ''phase2'', ''phase3'', ''phase4'', ''phase5'']
   \<and> concat (map (\<lambda>(k, r). violations r)
         (phases (executeValidationWorkflow ValidationEngine now example_site
                    (compliant_design\<lparr>parkingSpaces := k\<rparr>))))
       = violations (executePhase3Validation ValidationEngine example_site
                      (compliant_design\<lparr>parkingSpaces := k\<rparr>))"
proof -
  let ?dd = "compliant_design\<lparr>parkingSpaces := k\<rparr>"
  let ?zr = "\<lparr>minLotSize = 6000, maxLotSize = 9999, subStandardTypical = 4980,
             subStandardFlag = 5976, secondUnitMinTypical = 8100, secondUnitMinFlag = 9720\<rparr>"
  let ?w = "executeValidationWorkflow ValidationEngine now example_site ?dd"
  have z: "zone_lookup ValidationEngine (zone example_site) = Some ?zr"
    by (simp add: zone_lookup_def ValidationEngine_def example_site_def)
  have l: "minLotSize ?zr \<le> lotSize example_site"
    by (simp add: example_site_def)
  from workflow_completes [OF z l, of ?dd now] obtain p1 p4 where
    p1: "executePhase1Validation ValidationEngine example_site ?dd = Inr p1"
    and p4: "executePhase4Validation ValidationEngine example_site ?dd = Inr p4"
    and w: "?w =
        (let prev = [(''phase1'', p1),
                     (''phase2'', executePhase2Validation ValidationEngine example_site ?dd p1),
                     (''phase3'', executePhase3Validation ValidationEngine example_site ?dd),
                     (''phase4'', p4)];
             p5 = executePhase5Validation ValidationEngine (\<lambda>n. now (Suc n))
                    example_site ?dd prev in
         \<lparr>startTime = now 0, siteData = example_site, phases = prev @ [(''phase5'', p5)],
          overallStatus = status p5, finalReport = phase_result.finalReport p5,
          stopReason = None, error = None, endTime = Some (now 2), designData = ?dd\<rparr>)"
    by auto
  from phase1_lot_ok [OF z l, of ?dd] p1 have v1: "violations p1 = []"
    by (simp add: example_defs validateZoneDistrict_def validateHistoricConstraints_def
          validateEnvironmentalExclusions_def checkEnvironmentalEncroachments_def Let_def)
  from phase1_next_inputs [OF z l, of ?dd] p1
  have n1: "map_of (nextPhaseInputs p1) ''isSubStandard'' = Some (JBool False)"
    by (auto simp add: example_defs)
  have far: "js_get (validateFAR example_site ?dd) ''result'' = JStr ''PASS''"
    by (simp add: validateFAR_result example_defs fl_eval)
  have cov: "js_get (validateLotCoverage example_site ?dd) ''result'' = JStr ''PASS''"
    by (simp add: validateLotCoverage_result example_defs fl_eval)
  have tot: "js_get (validateTotalCoverageWithFeatures example_site ?dd) ''result''
      = JStr ''PASS''"
    by (simp add: total_coverage_result example_defs fl_eval)
  have v2: "violations (executePhase2Validation ValidationEngine example_site ?dd p1) = []"
    unfolding phase2_violations Let_def far cov
    by (simp add: n1 example_defs
          validateBuildingHeight_def validateStoryEquivalency_def validateSetbacks_def
          validateDaylightPlane_def validateArchitecturalFeatures_def js_gt_def)
  from phase4_known_zone [OF z, of ?dd] p4 have v4: "violations p4 = []"
    unfolding tot by (simp add: example_defs)
  have v5: "\<And>now prev. violations (executePhase5Validation ValidationEngine now example_site
      ?dd prev) = []"
    by (simp add: phase5_violations example_defs
          validateProfessionalRequirements_def validateDocumentationCompleteness_def)
  show ?thesis
    by (simp add: w Let_def v1 v2 v4 v5)
qed

lemma compliant_run_approved:
  "overallStatus (executeValidationWorkflow ValidationEngine now example_site compliant_design)
     = ''approved''"
proof -
  have e: "compliant_design\<lparr>parkingSpaces := 2\<rparr> = compliant_design"
    by (simp add: example_defs)
  have v3: "violations (executePhase3Validation ValidationEngine example_site compliant_design)
      = []"
    by (simp add: phase3_violations Let_def example_defs
          validateParkingSpaceCount_def validateCoveredParking_def
          validateDrivewayDimensions_def validateGaragePlacement_def
          validateVehicleManeuverability_def)
  from example_run [of now 2] have
    keys: "map fst (phases (executeValidationWorkflow ValidationEngine now example_site
                     compliant_design))
        = [''phase1'', ''phase2'', ''phase3'', ''phase4'', ''phase5'']"
    and all: "concat (map (\<lambda>(k, r). violations r)
         (phases (executeValidationWorkflow ValidationEngine now example_site
                    compliant_design))) = []"
    unfolding e v3 by blast+
  from workflow_final_status [OF keys] show ?thesis
    unfolding Let_def all by simp
qed

lemma phase3_warnings:
  "warnings (executePhase3Validation this sd dd) =
     (if js_get (validateDrivewayMaterials dd) ''result'' = JStr ''FAIL''
      then [JObj [(''type'', JStr ''materials''),
                  (''message'', js_get (validateDrivewayMaterials dd) ''message'')]]
      else [])"
  by (simp add: executePhase3Validation_def Let_def record_check_simps close_phase_simps
        new_validation_result_simps)

lemma phase3_status:
  "status (executePhase3Validation this sd dd) =
     (if violations (executePhase3Validation this sd dd) = [] then ''passed''
      else ''violations_found'')"
  by (simp add: executePhase3Validation_def Let_def record_check_simps close_phase_simps
        new_validation_result_simps)

lemma material_overall_status:
  "overallStatus (executeValidationWorkflow this now sd (dd\<lparr>drivewayMaterial := m\<rparr>))
     = overallStatus (executeValidationWorkflow this now sd dd)"
proof -
  have s5: "\<And>p1 p4. status (executePhase5Validation this (\<lambda>n. now (Suc n)) sd
           (dd\<lparr>drivewayMaterial := m\<rparr>)
           [(''phase1'', p1), (''phase2'', executePhase2Validation this sd dd p1),
            (''phase3'', executePhase3Validation this sd (dd\<lparr>drivewayMaterial := m\<rparr>)),
            (''phase4'', p4)])
      = status (executePhase5Validation this (\<lambda>n. now (Suc n)) sd dd
           [(''phase1'', p1), (''phase2'', executePhase2Validation this sd dd p1),
            (''phase3'', executePhase3Validation this sd dd), (''phase4'', p4)])"
    unfolding phase5_status Let_def collectAllViolations_def Object_values_def
      phase5_violations material_checks
    by (simp add: material_phase3_violations)
  show ?thesis
    unfolding workflow_cases material_phase1 material_phase2 material_phase4
    by (simp add: Let_def s5 split: sum.splits)
qed


lemma phase5_clock_status:
  "status (executePhase5Validation this now sd dd prev)
     = status (executePhase5Validation this now' sd dd prev)"
  unfolding phase5_status Let_def collectAllViolations_def phase5_violations ..

lemma phase5_clock_violations:
  "violations (executePhase5Validation this now sd dd prev)
     = violations (executePhase5Validation this now' sd dd prev)"
  unfolding phase5_violations ..

lemma report_clock:
  "k \<noteq> ''projectSummary'' \<Longrightarrow>
   js_get (generateValidationReport this now sd dd prev r) k
     = js_get (generateValidationReport this now' sd dd prev r) k"
  by (simp add: generateValidationReport_def Let_def split del: if_split cong: if_cong)

lemma phase5_report:
  "\<exists>r. \<forall>now. phase_result.finalReport (executePhase5Validation this now sd dd prev)
          = generateValidationReport this now sd dd prev r"
  by (rule exI [of _ "record_check
         (record_check
           ((new_validation_result this 5)
              \<lparr>phase_result.finalReport := JNull,
               validationChecks := [performComprehensiveValidation,
                                    validateCriticalPath this prev]\<rparr>)
           (validateProfessionalRequirements dd)
           (JObj [(''type'', JStr (PROCESS_STOPPER (criticalViolationTypes this))),
                  (''category'', JStr ''Professional Requirements''),
                  (''description'', js_get (validateProfessionalRequirements dd) ''message'')]))
         (validateDocumentationCompleteness dd)
         (JObj [(''type'', JStr (PROCESS_STOPPER (criticalViolationTypes this))),
                (''category'', JStr ''Documentation''),
                (''description'',
                   js_get (validateDocumentationCompleteness dd) ''message'')])"])
     (simp add: executePhase5Validation_def Let_def new_validation_result_def
        if_distrib [of phase_result.finalReport] split del: if_split cong: if_cong)

lemma phase5_clock_report:
  "k \<noteq> ''projectSummary'' \<Longrightarrow>
   js_get (phase_result.finalReport (executePhase5Validation this now sd dd prev)) k
     = js_get (phase_result.finalReport (executePhase5Validation this now' sd dd prev)) k"
  using phase5_report [of this sd dd prev] report_clock [of k this now sd dd prev _ now']
  by auto

lemma phase5_clock:
  "(executePhase5Validation this now sd dd prev)\<lparr>phase_result.finalReport := x\<rparr>
     = (executePhase5Validation this now' sd dd prev)\<lparr>phase_result.finalReport := x\<rparr>"
  by (simp add: executePhase5Validation_def Let_def collectAllViolations_def
        if_distrib [of "\<lambda>r. r\<lparr>phase_result.finalReport := x\<rparr>"]
        split del: if_split cong: if_cong)

lemma phase5_validation_date:
  "js_get (js_get (phase_result.finalReport (executePhase5Validation this now sd dd prev))
       ''projectSummary'') ''validationDate'' = JDate (now 0)"
proof -
  from phase5_report [of this sd dd prev] obtain r where
    "phase_result.finalReport (executePhase5Validation this now sd dd prev)
       = generateValidationReport this now sd dd prev r"
    by blast
  then show ?thesis
    by (simp add: generateValidationReport_def Let_def)
qed

lemma filter_if_single':
  "filter P (if c then [] else [v]) = (if \<not> c \<and> P v then [v] else [])"
  by simp

lemma second_unit_size_result:
  "js_get (validateSecondUnitSize dd) ''result''
     = JStr (if js_le (toNumber (secondUnitArea dd))
                  (Math_min (Some 640) (js_mul (toNumber (mainHouseArea dd)) (Some 0.5)))
             then ''PASS'' else ''FAIL'')"
  by (simp add: validateSecondUnitSize_def Let_def)

section \<open>The zone table\<close>

text \<open>
  C5. The table of the planning engine has the five zones R-1, R-1(7000), R-1(8000),
  R-1(10000) and R-1(20000); for each of them the minimum lot size is below the maximum lot
  size, the substandard threshold of a typical lot is below that of a flag lot, and the
  second-unit minimum of a typical lot is below that of a flag lot. The table of the
  validation engine is the same table.
\<close>

theorem zone_table_invariants:
  "map fst (zoneRequirements PlanningEngine)
     = [''R-1'', ''R-1(7000)'', ''R-1(8000)'', ''R-1(10000)'', ''R-1(20000)'']
   \<and> (\<forall>z r. zone_lookup PlanningEngine z = Some r \<longrightarrow>
          minLotSize r < maxLotSize r
          \<and> subStandardTypical r < subStandardFlag r
          \<and> secondUnitMinTypical r < secondUnitMinFlag r)
   \<and> (\<forall>z r. zone_lookup ValidationEngine z = Some r \<longrightarrow>
          minLotSize r < maxLotSize r
          \<and> subStandardTypical r < subStandardFlag r
          \<and> secondUnitMinTypical r < secondUnitMinFlag r)
   \<and> zoneRequirements ValidationEngine = zoneRequirements PlanningEngine"
  by (auto simp add: zone_lookup_def PlanningEngine_def ValidationEngine_def split: if_splits)

theorem zone_table_invariants_witness:
  "zone_lookup PlanningEngine ''R-1''
     = Some \<lparr>minLotSize = 6000, maxLotSize = 9999, subStandardTypical = 4980,
             subStandardFlag = 5976, secondUnitMinTypical = 8100, secondUnitMinFlag = 9720\<rparr>
   \<and> zone_lookup ValidationEngine ''R-1(20000)''
     = Some \<lparr>minLotSize = 20000, maxLotSize = 39999, subStandardTypical = 16600,
             subStandardFlag = 19920, secondUnitMinTypical = 27000, secondUnitMinFlag = 32400\<rparr>
   \<and> (6000::real) < 9999 \<and> (4980::real) < 5976 \<and> (8100::real) < 9720
   \<and> (20000::real) < 39999 \<and> (16600::real) < 19920 \<and> (27000::real) < 32400"
proof -
  have p: "zone_lookup PlanningEngine ''R-1''
     = Some \<lparr>minLotSize = 6000, maxLotSize = 9999, subStandardTypical = 4980,
             subStandardFlag = 5976, secondUnitMinTypical = 8100, secondUnitMinFlag = 9720\<rparr>"
    by (simp add: zone_lookup_def PlanningEngine_def)
  have v: "zone_lookup ValidationEngine ''R-1(20000)''
     = Some \<lparr>minLotSize = 20000, maxLotSize = 39999, subStandardTypical = 16600,
             subStandardFlag = 19920, secondUnitMinTypical = 27000, secondUnitMinFlag = 32400\<rparr>"
    by (simp add: zone_lookup_def ValidationEngine_def)
  from zone_table_invariants p v show ?thesis
    by fastforce
qed

section \<open>The floor-area formula\<close>

text \<open>
  C1, as stated, fails for a lot of 8418 sq ft: the formula
  min(min(lotSize, 5000) * 0.45 + max(lotSize - 5000, 0) * 0.30, 6000) has the value 3275.4,
  and \<open>calculateFARParameters\<close> returns the binary64 number just below it,
  3275.399999999999636202119290828704833984375, the products and the sum being rounded.
\<close>

theorem maxFloorArea_counterexample:
  "js_get (calculateFARParameters (example_site\<lparr>lotSize := 8418\<rparr>)) ''maxFloorArea''
     = JNum (1800670192808755 / 549755813888)
   \<and> min (min (lotSize (example_site\<lparr>lotSize := 8418\<rparr>)) 5000 * 0.45
          + max (lotSize (example_site\<lparr>lotSize := 8418\<rparr>) - 5000) 0 * 0.30) 6000
       = 3275.4
   \<and> (1800670192808755 / 549755813888 :: real) < 3275.4
   \<and> js_get (calculateFARParameters (example_site\<lparr>lotSize := 8418\<rparr>)) ''maxFloorArea''
       \<noteq> JNum (min (min (lotSize (example_site\<lparr>lotSize := 8418\<rparr>)) 5000 * 0.45
                    + max (lotSize (example_site\<lparr>lotSize := 8418\<rparr>) - 5000) 0 * 0.30) 6000)"
proof -
  have v: "js_get (calculateFARParameters (example_site\<lparr>lotSize := 8418\<rparr>)) ''maxFloorArea''
     = JNum (1800670192808755 / 549755813888)"
    unfolding calculateFARParameters_value by (simp add: fl_eval)
  have e: "min (min (lotSize (example_site\<lparr>lotSize := 8418\<rparr>)) 5000 * 0.45
          + max (lotSize (example_site\<lparr>lotSize := 8418\<rparr>) - 5000) 0 * 0.30) 6000
       = (3275.4::real)"
    by simp
  have l: "(1800670192808755 / 549755813888 :: real) < 3275.4"
    by simp
  show ?thesis
    unfolding v e using l by simp
qed

text \<open>
  C1, as the code has it. For every site, \<open>calculateFARParameters\<close> returns, as
  \<open>maxFloorArea\<close>, the formula evaluated in binary64 arithmetic: the two rates are the
  doubles nearest to 0.45 and 0.30, and the difference, the two products and the sum are
  each rounded to the nearest double; phase 2 of the planning engine reports that value in
  its design parameters. A lot of 4000 sq ft gets exactly 1800, a lot of 8000 sq ft exactly
  3150, and a lot of 20000 sq ft exactly 6000.
\<close>

theorem calculateFARParameters_maxFloorArea:
  "js_get (calculateFARParameters sd) ''maxFloorArea''
     = JNum (min (fl (fl (min (lotSize sd) 5000 * fl 0.45)
                      + fl (max (fl (lotSize sd - 5000)) 0 * fl 0.30))) 6000)
   \<and> js_get (designParameters (executePhase2 this sd phase1Results)) ''maxFloorArea''
     = JNum (min (fl (fl (min (lotSize sd) 5000 * fl 0.45)
                      + fl (max (fl (lotSize sd - 5000)) 0 * fl 0.30))) 6000)
   \<and> fl 0.45 = 8106479329266893 / 18014398509481984
   \<and> fl 0.30 = 5404319552844595 / 18014398509481984
   \<and> js_get (calculateFARParameters (sd\<lparr>lotSize := 4000\<rparr>)) ''maxFloorArea'' = JNum 1800
   \<and> js_get (calculateFARParameters (sd\<lparr>lotSize := 8000\<rparr>)) ''maxFloorArea'' = JNum 3150
   \<and> js_get (calculateFARParameters (sd\<lparr>lotSize := 20000\<rparr>)) ''maxFloorArea'' = JNum 6000"
proof -
  note g = calculateFARParameters_value
  have p: "js_get (designParameters (executePhase2 this sd phase1Results)) ''maxFloorArea''
     = js_get (calculateFARParameters sd) ''maxFloorArea''"
    by (simp add: executePhase2_def calculateFARParameters_def Let_def)
  have a: "js_get (calculateFARParameters (sd\<lparr>lotSize := 4000\<rparr>)) ''maxFloorArea'' = JNum 1800"
    unfolding g by (simp add: fl_eval)
  have b: "js_get (calculateFARParameters (sd\<lparr>lotSize := 8000\<rparr>)) ''maxFloorArea'' = JNum 3150"
    unfolding g by (simp add: fl_eval)
  have c: "js_get (calculateFARParameters (sd\<lparr>lotSize := 20000\<rparr>)) ''maxFloorArea'' = JNum 6000"
    unfolding g by (simp add: fl_eval)
  have q: "js_get (designParameters (executePhase2 this sd phase1Results)) ''maxFloorArea''
     = JNum (min (fl (fl (min (lotSize sd) 5000 * fl 0.45)
                      + fl (max (fl (lotSize sd - 5000)) 0 * fl 0.30))) 6000)"
    unfolding p by (rule g)
  from g [of sd] q fl_literals(1) fl_literals(2) a b c show ?thesis
    by blast
qed

section \<open>The final status\<close>

text \<open>
  C2. Phase 5 derives its status from the violations of all the phases it is given together
  with its own: \<open>rejected\<close> (report \<open>REJECTED\<close>) if one of them has type
  \<open>absolute_stopper\<close>, else \<open>conditional\<close> (\<open>CONDITIONAL\<close>) if there is any violation, else
  \<open>approved\<close> (\<open>APPROVED\<close>). For a run of the workflow that reaches phase 5, the overall
  status and the report's status are derived in this way from the violations of the five
  phases of the run; in particular, a run whose violations are all of type
  \<open>major_stopper\<close> is \<open>conditional\<close>.
\<close>

theorem final_status_from_all_violations:
  "(let p5 = executePhase5Validation ValidationEngine now sd dd allPreviousResults;
        allViolations = concat (map (\<lambda>(k, r). violations r) allPreviousResults) @ violations p5;
        critical = filter (\<lambda>v. js_get v ''type'' = JStr ''absolute_stopper'') allViolations in
    status p5 = (if critical \<noteq> [] then ''rejected''
                 else if allViolations \<noteq> [] then ''conditional'' else ''approved'')
    \<and> js_get (phase_result.finalReport p5) ''overallStatus''
        = JStr (if critical \<noteq> [] then ''REJECTED''
                else if allViolations \<noteq> [] then ''CONDITIONAL'' else ''APPROVED''))
   \<and> (let w = executeValidationWorkflow ValidationEngine now sd dd;
            allViolations = concat (map (\<lambda>(k, r). violations r) (phases w));
            critical = filter (\<lambda>v. js_get v ''type'' = JStr ''absolute_stopper'') allViolations in
        map fst (phases w) = [''phase1'', ''phase2'', ''phase3'', ''phase4'', ''phase5''] \<longrightarrow>
          overallStatus w = (if critical \<noteq> [] then ''rejected''
                             else if allViolations \<noteq> [] then ''conditional'' else ''approved'')
          \<and> js_get (finalReport w) ''overallStatus''
              = JStr (if critical \<noteq> [] then ''REJECTED''
                      else if allViolations \<noteq> [] then ''CONDITIONAL'' else ''APPROVED'')
          \<and> (allViolations \<noteq> []
               \<and> (\<forall>v \<in> set allViolations. js_get v ''type'' = JStr ''major_stopper'')
               \<longrightarrow> overallStatus w = ''conditional''))"
proof -
  have maj: "\<And>vs. vs \<noteq> [] \<Longrightarrow> \<forall>v \<in> set vs. js_get v ''type'' = JStr ''major_stopper''
      \<Longrightarrow> filter (\<lambda>v. js_get v ''type'' = JStr ''absolute_stopper'') vs = []"
    by (auto simp add: filter_empty_conv)
  from phase5_final_status [of now sd dd allPreviousResults]
    workflow_final_status [of now sd dd]
  show ?thesis
    unfolding Let_def by (auto simp add: maj)
qed

theorem final_status_from_all_violations_witness:
  "map fst (phases (executeValidationWorkflow ValidationEngine (\<lambda>n. n) example_site
                     (compliant_design\<lparr>parkingSpaces := 1\<rparr>)))
     = [''phase1'', ''phase2'', ''phase3'', ''phase4'', ''phase5'']
   \<and> concat (map (\<lambda>(k, r). violations r)
         (phases (executeValidationWorkflow ValidationEngine (\<lambda>n. n) example_site
                    (compliant_design\<lparr>parkingSpaces := 1\<rparr>))))
       = [JObj [(''type'', JStr ''major_stopper''), (''ruleId'', JStr ''CP006''),
                (''category'', JStr ''Parking''),
                (''description'',
                   JText [JStr ''Insufficient parking spaces ('', JNum 1, JStr '' < '', JNum 2,
                          JStr '' required)'']),
                (''remediation'',
                   JStr ''Provide adequate parking or eliminate second unit'')]]
   \<and> overallStatus (executeValidationWorkflow ValidationEngine (\<lambda>n. n) example_site
                       (compliant_design\<lparr>parkingSpaces := 1\<rparr>)) = ''conditional''
   \<and> js_get (finalReport (executeValidationWorkflow ValidationEngine (\<lambda>n. n) example_site
                       (compliant_design\<lparr>parkingSpaces := 1\<rparr>))) ''overallStatus''
       = JStr ''CONDITIONAL''"
proof -
  let ?dd = "compliant_design\<lparr>parkingSpaces := 1\<rparr>"
  let ?w = "executeValidationWorkflow ValidationEngine (\<lambda>n. n) example_site ?dd"
  have v3: "violations (executePhase3Validation ValidationEngine example_site ?dd)
    = [JObj [(''type'', JStr ''major_stopper''), (''ruleId'', JStr ''CP006''),
             (''category'', JStr ''Parking''),
             (''description'',
                JText [JStr ''Insufficient parking spaces ('', JNum 1, JStr '' < '', JNum 2,
                       JStr '' required)'']),
             (''remediation'', JStr ''Provide adequate parking or eliminate second unit'')]]"
    by (simp add: phase3_violations Let_def example_defs ValidationEngine_def
          validateParkingSpaceCount_def validateCoveredParking_def
          validateDrivewayDimensions_def validateGaragePlacement_def
          validateVehicleManeuverability_def)
  from example_run [of "\<lambda>n. n" 1] have
    keys: "map fst (phases ?w) = [''phase1'', ''phase2'', ''phase3'', ''phase4'', ''phase5'']"
    and all: "concat (map (\<lambda>(k, r). violations r) (phases ?w))
       = [JObj [(''type'', JStr ''major_stopper''), (''ruleId'', JStr ''CP006''),
                (''category'', JStr ''Parking''),
                (''description'',
                   JText [JStr ''Insufficient parking spaces ('', JNum 1, JStr '' < '', JNum 2,
                          JStr '' required)'']),
                (''remediation'',
                   JStr ''Provide adequate parking or eliminate second unit'')]]"
    unfolding v3 by blast+
  from final_status_from_all_violations [of "\<lambda>n. n" example_site ?dd "[]"] keys
  have "overallStatus ?w = ''conditional''
      \<and> js_get (finalReport ?w) ''overallStatus'' = JStr ''CONDITIONAL''"
    unfolding Let_def all by simp
  with keys all show ?thesis
    by blast
qed

section \<open>Stopping after phase 1\<close>

text \<open>
  C3. For a site whose lot size is below the minimum lot size of its zone, phase 1 of the
  planning engine ends with status \<open>stopped\<close> and the planning workflow returns with overall
  status \<open>stopped\<close>; phase 1 of the validation engine ends with status \<open>critical_failure\<close>
  and the validation workflow returns with overall status \<open>rejected\<close>. In both, \<open>phases\<close>
  holds the result of phase 1 only, the final report is \<open>null\<close> and no end time is set:
  phases 2 to 5 have stored no result.
\<close>

theorem short_circuit_after_phase1:
  assumes "zone_lookup PlanningEngine (zone sd) = Some zr" and "lotSize sd < minLotSize zr"
  shows "(\<exists>p1. executePhase1 PlanningEngine sd = Inr p1 \<and> status p1 = ''stopped''
            \<and> executePlanningWorkflow PlanningEngine now sd =
                 \<lparr>startTime = now 0, siteData = sd, phases = [(''phase1'', p1)],
                  overallStatus = ''stopped'', finalReport = JNull,
                  stopReason = Some ''Critical site constraints identified'', error = None,
                  endTime = None\<rparr>)
       \<and> (\<exists>q1. executePhase1Validation ValidationEngine sd dd = Inr q1
            \<and> status q1 = ''critical_failure''
            \<and> executeValidationWorkflow ValidationEngine now sd dd =
                 \<lparr>startTime = now 0, siteData = sd, phases = [(''phase1'', q1)],
                  overallStatus = ''rejected'', finalReport = JNull,
                  stopReason = Some ''Critical site validation failures'', error = None,
                  endTime = None, designData = dd\<rparr>)"
proof -
  from assms(1) have v: "zone_lookup ValidationEngine (zone sd) = Some zr"
    by (simp add: zone_lookup_def zone_tables_agree)
  from planning_phase1_stopped [OF assms] obtain p1
    where p1: "executePhase1 PlanningEngine sd = Inr p1" "status p1 = ''stopped''"
    by blast
  from phase1_critical [OF v assms(2)] obtain q1
    where q1: "executePhase1Validation ValidationEngine sd dd = Inr q1"
      "status q1 = ''critical_failure''"
    by blast
  show ?thesis
    by (simp add: planning_workflow_cases workflow_cases p1 q1)
qed

theorem short_circuit_after_phase1_witness:
  "zone_lookup PlanningEngine (zone (example_site\<lparr>lotSize := 5000\<rparr>))
     = Some \<lparr>minLotSize = 6000, maxLotSize = 9999, subStandardTypical = 4980,
             subStandardFlag = 5976, secondUnitMinTypical = 8100, secondUnitMinFlag = 9720\<rparr>
   \<and> lotSize (example_site\<lparr>lotSize := 5000\<rparr>) < 6000
   \<and> overallStatus (executePlanningWorkflow PlanningEngine (\<lambda>n. n) (example_site\<lparr>lotSize := 5000\<rparr>))
       = ''stopped''
   \<and> map fst (phases (executePlanningWorkflow PlanningEngine (\<lambda>n. n)
         (example_site\<lparr>lotSize := 5000\<rparr>))) = [''phase1'']
   \<and> overallStatus (executeValidationWorkflow ValidationEngine (\<lambda>n. n)
         (example_site\<lparr>lotSize := 5000\<rparr>) example_design) = ''rejected''
   \<and> map fst (phases (executeValidationWorkflow ValidationEngine (\<lambda>n. n)
         (example_site\<lparr>lotSize := 5000\<rparr>) example_design)) = [''phase1'']"
proof -
  have z: "zone_lookup PlanningEngine (zone (example_site\<lparr>lotSize := 5000\<rparr>))
     = Some \<lparr>minLotSize = 6000, maxLotSize = 9999, subStandardTypical = 4980,
             subStandardFlag = 5976, secondUnitMinTypical = 8100, secondUnitMinFlag = 9720\<rparr>"
    by (simp add: zone_lookup_def PlanningEngine_def example_site_def)
  have l: "lotSize (example_site\<lparr>lotSize := 5000\<rparr>)
     < minLotSize \<lparr>minLotSize = 6000, maxLotSize = 9999, subStandardTypical = 4980,
             subStandardFlag = 5976, secondUnitMinTypical = 8100, secondUnitMinFlag = 9720\<rparr>"
    by simp
  from short_circuit_after_phase1 [OF z l, of "\<lambda>n. n" example_design] z l show ?thesis
    by auto
qed

section \<open>The floor-area check\<close>

text \<open>
  C4. \<open>validateFAR\<close> computes, as \<open>maxAllowed\<close>, the number that \<open>calculateFARParameters\<close>
  returns as \<open>maxFloorArea\<close>. The check fails exactly when the total floor area of the design
  exceeds that number, and phase 2 of the validation engine then records one violation with
  rule CP003, of type \<open>absolute_stopper\<close>; otherwise it records none with that rule.
\<close>

theorem validateFAR_same_limit_as_planning:
  "\<exists>limit.
      js_get (calculateFARParameters sd) ''maxFloorArea'' = JNum limit
    \<and> js_get (validateFAR sd dd) ''maxAllowed'' = JNum limit
    \<and> js_get (validateFAR sd dd) ''result''
        = JStr (if totalFloorArea dd > limit then ''FAIL'' else ''PASS'')
    \<and> filter (\<lambda>v. js_get v ''ruleId'' = JStr ''CP003'')
          (violations (executePhase2Validation ValidationEngine sd dd phase1Results))
        = (if totalFloorArea dd > limit
           then [JObj [(''type'', JStr ''absolute_stopper''), (''ruleId'', JStr ''CP003''),
                       (''category'', JStr ''Floor Area''),
                       (''description'', js_get (validateFAR sd dd) ''message''),
                       (''remediation'',
                          JStr ''Reduce floor area or redesign to comply with FAR limits'')]]
           else [])"
proof -
  define limit where
    "limit = min (fl (fl (min (lotSize sd) 5000 * fl 0.45)
                      + fl (max (fl (lotSize sd - 5000)) 0 * fl 0.30))) 6000"
  have a: "js_get (calculateFARParameters sd) ''maxFloorArea'' = JNum limit"
    by (simp add: calculateFARParameters_def Let_def limit_def)
  have b: "js_get (validateFAR sd dd) ''maxAllowed'' = JNum limit"
    by (simp add: validateFAR_def Let_def limit_def)
  have r: "js_get (validateFAR sd dd) ''result''
        = JStr (if totalFloorArea dd \<le> limit then ''PASS'' else ''FAIL'')"
    unfolding limit_def by (rule validateFAR_result)
  have c: "js_get (validateFAR sd dd) ''result''
        = JStr (if totalFloorArea dd > limit then ''FAIL'' else ''PASS'')"
    unfolding r by (simp add: not_le)
  have d: "(js_get (validateFAR sd dd) ''result'' = JStr ''FAIL'') = (totalFloorArea dd > limit)"
    unfolding r by (simp add: not_le)
  have e: "filter (\<lambda>v. js_get v ''ruleId'' = JStr ''CP003'')
          (violations (executePhase2Validation ValidationEngine sd dd phase1Results))
        = (if totalFloorArea dd > limit
           then [JObj [(''type'', JStr ''absolute_stopper''), (''ruleId'', JStr ''CP003''),
                       (''category'', JStr ''Floor Area''),
                       (''description'', js_get (validateFAR sd dd) ''message''),
                       (''remediation'',
                          JStr ''Reduce floor area or redesign to comply with FAR limits'')]]
           else [])"
    unfolding phase2_CP003_violations d ..
  from a b c e show ?thesis
    by blast
qed

section \<open>Second dwelling units\<close>

text \<open>
  C6, as stated, fails for the size check: for a design with a second unit whose
  \<open>secondUnitArea\<close> is absent and whose main house has 2000 sq ft, the limit is 640 and the
  area does not exceed it, yet the check fails and phase 4 records the CP017 violation. The
  check fails as well for the design of the form with the second-unit box ticked.
\<close>

theorem second_unit_size_counterexample:
  "secondUnitArea second_unit_design = Undefined
   \<and> Math_min (Some 640) (js_mul (toNumber (mainHouseArea second_unit_design)) (Some 0.5))
       = Some 640
   \<and> \<not> js_gt (toNumber (secondUnitArea second_unit_design)) (Some 640)
   \<and> js_get (validateSecondUnitSize second_unit_design) ''result'' = JStr ''FAIL''
   \<and> js_get (validateSecondUnitSize (example_design\<lparr>hasSecondUnit := True\<rparr>)) ''result''
       = JStr ''FAIL''
   \<and> map_sum id violations
         (executePhase4Validation ValidationEngine (example_site\<lparr>lotSize := 9000\<rparr>)
            (second_unit_design\<lparr>totalCoverageWithFeatures := Number 2500\<rparr>))
       = Inr [JObj [(''type'', JStr ''design_stopper''),
                    (''ruleId'', JStr ''CP017''),
                    (''category'', JStr ''Second Unit Design''),
                    (''description'',
                       JText [JStr ''Second unit exceeds size limit ('', JUndefined,
                              JStr '' sq ft > '', JNum 640, JStr '' sq ft)'']),
                    (''remediation'', JStr ''Redesign second unit within limits'')]]"
proof -
  let ?zr = "\<lparr>minLotSize = 6000, maxLotSize = 9999, subStandardTypical = 4980,
             subStandardFlag = 5976, secondUnitMinTypical = 8100, secondUnitMinFlag = 9720\<rparr>"
  have z: "zone_lookup ValidationEngine (zone (example_site\<lparr>lotSize := 9000\<rparr>)) = Some ?zr"
    by (simp add: zone_lookup_def ValidationEngine_def example_site_def)
  have a: "secondUnitArea second_unit_design = Undefined
   \<and> Math_min (Some 640) (js_mul (toNumber (mainHouseArea second_unit_design)) (Some 0.5))
       = Some 640
   \<and> \<not> js_gt (toNumber (secondUnitArea second_unit_design)) (Some 640)
   \<and> js_get (validateSecondUnitSize second_unit_design) ''result'' = JStr ''FAIL''
   \<and> js_get (validateSecondUnitSize (example_design\<lparr>hasSecondUnit := True\<rparr>)) ''result''
       = JStr ''FAIL''"
    by (simp add: second_unit_design_def example_design_def validateSecondUnitSize_def
          js_gt_def fl_1000)
  from phase4_known_zone [OF z,
      of "second_unit_design\<lparr>totalCoverageWithFeatures := Number 2500\<rparr>"]
  have b: "map_sum id violations
         (executePhase4Validation ValidationEngine (example_site\<lparr>lotSize := 9000\<rparr>)
            (second_unit_design\<lparr>totalCoverageWithFeatures := Number 2500\<rparr>))
       = Inr [JObj [(''type'', JStr ''design_stopper''),
                    (''ruleId'', JStr ''CP017''),
                    (''category'', JStr ''Second Unit Design''),
                    (''description'',
                       JText [JStr ''Second unit exceeds size limit ('', JUndefined,
                              JStr '' sq ft > '', JNum 640, JStr '' sq ft)'']),
                    (''remediation'', JStr ''Redesign second unit within limits'')]]"
    by (auto simp add: second_unit_design_def example_design_def example_site_def
          ValidationEngine_def validateSecondUnitSize_def
          total_coverage_result fl_1000 fl_eval)
  from a b show ?thesis
    by blast
qed

text \<open>
  C6, as the code has it. For a site of a zone of the table, with the second-unit minimum of
  its lot type (\<open>secondUnitMinFlag\<close> for a flag lot, else \<open>secondUnitMinTypical\<close>): the planning
  engine finds a second unit feasible exactly when the lot size reaches that minimum; when
  the design has a second unit, phase 4 of the validation engine records a \<open>major_stopper\<close>
  with rule CP008 exactly when the lot size is below that minimum, and a \<open>design_stopper\<close>
  with rule CP017 exactly when the comparison of \<open>secondUnitArea\<close> with
  min(640, mainHouseArea * 0.5) is not satisfied: for two numbers, when the area exceeds the
  limit (the product being the binary64 one); and always when one of the two fields is
  absent.
\<close>

theorem second_unit_rules:
  assumes "zone_lookup PlanningEngine (zone sd) = Some zr"
  shows "(let minRequired = (if lotType sd = ''flag'' then secondUnitMinFlag zr
                             else secondUnitMinTypical zr);
              maxSize = Math_min (Some 640) (js_mul (toNumber (mainHouseArea dd)) (Some 0.5)) in
     (\<exists>task. assessSecondUnitFeasibility PlanningEngine sd = Inr task
        \<and> js_get task ''status''
            = JStr (if lotSize sd \<ge> minRequired then ''feasible'' else ''not_feasible''))
     \<and> (hasSecondUnit dd \<longrightarrow>
          (\<exists>p4. executePhase4Validation ValidationEngine sd dd = Inr p4
             \<and> filter (\<lambda>v. js_get v ''ruleId'' = JStr ''CP008'') (violations p4)
                 = (if lotSize sd < minRequired
                    then [JObj [(''type'', JStr ''major_stopper''),
                                (''ruleId'', JStr ''CP008''),
                                (''category'', JStr ''Second Dwelling Unit''),
                                (''description'',
                                   JText [JStr ''Lot too small for second unit ('',
                                          JNum (lotSize sd), JStr '' sq ft < '',
                                          JNum minRequired, JStr '' sq ft required)'']),
                                (''remediation'',
                                   JStr ''Eliminate second unit or find larger lot'')]]
                    else [])
             \<and> filter (\<lambda>v. js_get v ''ruleId'' = JStr ''CP017'') (violations p4)
                 = (if js_le (toNumber (secondUnitArea dd)) maxSize
                    then []
                    else [JObj [(''type'', JStr ''design_stopper''),
                                (''ruleId'', JStr ''CP017''),
                                (''category'', JStr ''Second Unit Design''),
                                (''description'',
                                   JText [JStr ''Second unit exceeds size limit ('',
                                          js_of_num (secondUnitArea dd), JStr '' sq ft > '',
                                          js_of_real maxSize, JStr '' sq ft)'']),
                                (''remediation'',
                                   JStr ''Redesign second unit within limits'')]])))
     \<and> (\<forall>a h. secondUnitArea dd = Number a \<and> mainHouseArea dd = Number h \<longrightarrow>
            js_le (toNumber (secondUnitArea dd)) maxSize = (\<not> a > min 640 (fl (h * 0.5))))
     \<and> (secondUnitArea dd = Undefined \<or> mainHouseArea dd = Undefined \<longrightarrow>
            \<not> js_le (toNumber (secondUnitArea dd)) maxSize))"
proof -
  let ?min = "if lotType sd = ''flag'' then secondUnitMinFlag zr else secondUnitMinTypical zr"
  let ?max = "Math_min (Some 640) (js_mul (toNumber (mainHouseArea dd)) (Some 0.5))"
  from assms have v: "zone_lookup ValidationEngine (zone sd) = Some zr"
    by (simp add: zone_lookup_def zone_tables_agree)
  have a: "\<exists>task. assessSecondUnitFeasibility PlanningEngine sd = Inr task
        \<and> js_get task ''status''
            = JStr (if lotSize sd \<ge> ?min then ''feasible'' else ''not_feasible'')"
    using assms
    by (cases "lotType sd = ''flag''")
       (simp_all add: assessSecondUnitFeasibility_def Let_def zone_read_known js_ge_def)
  have msg: "\<not> js_le (toNumber (secondUnitArea dd)) ?max \<Longrightarrow>
      js_get (validateSecondUnitSize dd) ''message''
        = JText [JStr ''Second unit exceeds size limit ('',
                 js_of_num (secondUnitArea dd), JStr '' sq ft > '',
                 js_of_real ?max, JStr '' sq ft)'']"
    by (simp add: validateSecondUnitSize_def Let_def)
  have b: "\<exists>p4. executePhase4Validation ValidationEngine sd dd = Inr p4
             \<and> filter (\<lambda>v. js_get v ''ruleId'' = JStr ''CP008'') (violations p4)
                 = (if lotSize sd < ?min
                    then [JObj [(''type'', JStr ''major_stopper''),
                                (''ruleId'', JStr ''CP008''),
                                (''category'', JStr ''Second Dwelling Unit''),
                                (''description'',
                                   JText [JStr ''Lot too small for second unit ('',
                                          JNum (lotSize sd), JStr '' sq ft < '',
                                          JNum ?min, JStr '' sq ft required)'']),
                                (''remediation'',
                                   JStr ''Eliminate second unit or find larger lot'')]]
                    else [])
             \<and> filter (\<lambda>v. js_get v ''ruleId'' = JStr ''CP017'') (violations p4)
                 = (if js_le (toNumber (secondUnitArea dd)) ?max
                    then []
                    else [JObj [(''type'', JStr ''design_stopper''),
                                (''ruleId'', JStr ''CP017''),
                                (''category'', JStr ''Second Unit Design''),
                                (''description'',
                                   JText [JStr ''Second unit exceeds size limit ('',
                                          js_of_num (secondUnitArea dd), JStr '' sq ft > '',
                                          js_of_real ?max, JStr '' sq ft)'']),
                                (''remediation'',
                                   JStr ''Redesign second unit within limits'')]])"
    if h: "hasSecondUnit dd"
  proof -
    from phase4_known_zone [OF v, of dd] obtain p4 where
      p4: "executePhase4Validation ValidationEngine sd dd = Inr p4"
      and vs: "violations p4 =
        ((if lotSize sd \<ge> ?min then []
          else [JObj [(''type'', JStr (MAJOR_STOPPER (criticalViolationTypes ValidationEngine))),
                      (''ruleId'', JStr ''CP008''),
                      (''category'', JStr ''Second Dwelling Unit''),
                      (''description'',
                         JText [JStr ''Lot too small for second unit ('', JNum (lotSize sd),
                                JStr '' sq ft < '', JNum ?min, JStr '' sq ft required)'']),
                      (''remediation'', JStr ''Eliminate second unit or find larger lot'')]])
         @ (if js_get (validateSecondUnitSize dd) ''result'' = JStr ''FAIL''
            then [JObj [(''type'', JStr (DESIGN_STOPPER (criticalViolationTypes ValidationEngine))),
                        (''ruleId'', JStr ''CP017''),
                        (''category'', JStr ''Second Unit Design''),
                        (''description'', js_get (validateSecondUnitSize dd) ''message''),
                        (''remediation'', JStr ''Redesign second unit within limits'')]]
            else []))
        @ (case accessoryStructures dd of
             None \<Rightarrow> []
           | Some structures \<Rightarrow>
               if structures \<noteq> [] \<and> accessory_violations structures 0 \<noteq> []
               then [JObj [(''type'', JStr (DESIGN_STOPPER (criticalViolationTypes ValidationEngine))),
                           (''category'', JStr ''Accessory Structures''),
                           (''description'',
                              js_join (accessory_violations structures 0) ''; '')]]
               else [])
        @ (if hasPool dd \<and> js_get (validatePoolSafety dd) ''result'' = JStr ''FAIL''
           then [JObj [(''type'', JStr (DESIGN_STOPPER (criticalViolationTypes ValidationEngine))),
                       (''ruleId'', JStr ''CP020''),
                       (''category'', JStr ''Pool Safety''),
                       (''description'', js_get (validatePoolSafety dd) ''message''),
                       (''remediation'', JStr ''Install compliant safety barriers'')]]
           else [])
        @ (if js_get (validateTotalCoverageWithFeatures sd dd) ''result'' = JStr ''FAIL''
           then [JObj [(''type'', JStr (DESIGN_STOPPER (criticalViolationTypes ValidationEngine))),
                       (''category'', JStr ''Total Coverage''),
                       (''description'',
                          js_get (validateTotalCoverageWithFeatures sd dd) ''message''),
                       (''remediation'',
                          JStr ''Reduce structure sizes or eliminate features'')]]
           else [])"
      using h by auto
    have t: "MAJOR_STOPPER (criticalViolationTypes ValidationEngine) = ''major_stopper''"
      "DESIGN_STOPPER (criticalViolationTypes ValidationEngine) = ''design_stopper''"
      by (simp_all add: ValidationEngine_def)
    have f8: "filter (\<lambda>v. js_get v ''ruleId'' = JStr ''CP008'') (violations p4)
        = (if lotSize sd < ?min
           then [JObj [(''type'', JStr ''major_stopper''),
                       (''ruleId'', JStr ''CP008''),
                       (''category'', JStr ''Second Dwelling Unit''),
                       (''description'',
                          JText [JStr ''Lot too small for second unit ('',
                                 JNum (lotSize sd), JStr '' sq ft < '',
                                 JNum ?min, JStr '' sq ft required)'']),
                       (''remediation'', JStr ''Eliminate second unit or find larger lot'')]]
           else [])"
      unfolding vs t
      by (simp add: filter_if_single filter_if_single' not_le split: option.split
            split del: if_split cong: if_cong)
    have f17: "filter (\<lambda>v. js_get v ''ruleId'' = JStr ''CP017'') (violations p4)
        = (if js_get (validateSecondUnitSize dd) ''result'' = JStr ''FAIL''
           then [JObj [(''type'', JStr ''design_stopper''),
                       (''ruleId'', JStr ''CP017''),
                       (''category'', JStr ''Second Unit Design''),
                       (''description'', js_get (validateSecondUnitSize dd) ''message''),
                       (''remediation'', JStr ''Redesign second unit within limits'')]]
           else [])"
      unfolding vs t
      by (simp add: filter_if_single filter_if_single' split: option.split
            split del: if_split cong: if_cong)
    from p4 f8 f17 msg show ?thesis
      by (simp add: second_unit_size_result)
  qed
  have c: "\<forall>a h. secondUnitArea dd = Number a \<and> mainHouseArea dd = Number h \<longrightarrow>
            js_le (toNumber (secondUnitArea dd)) ?max = (\<not> a > min 640 (fl (h * 0.5)))"
    by (auto simp add: not_less)
  have d: "secondUnitArea dd = Undefined \<or> mainHouseArea dd = Undefined \<longrightarrow>
            \<not> js_le (toNumber (secondUnitArea dd)) ?max"
    by auto
  from a b c d show ?thesis
    unfolding Let_def by blast
qed

theorem second_unit_rules_witness:
  "zone_lookup PlanningEngine (zone (example_site\<lparr>lotSize := 8099\<rparr>))
     = Some \<lparr>minLotSize = 6000, maxLotSize = 9999, subStandardTypical = 4980,
             subStandardFlag = 5976, secondUnitMinTypical = 8100, secondUnitMinFlag = 9720\<rparr>
   \<and> hasSecondUnit (second_unit_design\<lparr>secondUnitArea := Number 700\<rparr>)
   \<and> (\<exists>task. assessSecondUnitFeasibility PlanningEngine (example_site\<lparr>lotSize := 8099\<rparr>)
                 = Inr task
          \<and> js_get task ''status'' = JStr ''not_feasible'')
   \<and> (\<exists>task. assessSecondUnitFeasibility PlanningEngine (example_site\<lparr>lotSize := 8100\<rparr>)
                 = Inr task
          \<and> js_get task ''status'' = JStr ''feasible'')
   \<and> (\<exists>p4. executePhase4Validation ValidationEngine (example_site\<lparr>lotSize := 8099\<rparr>)
               (second_unit_design\<lparr>secondUnitArea := Number 700\<rparr>) = Inr p4
          \<and> map (\<lambda>v. js_get v ''type'')
                (filter (\<lambda>v. js_get v ''ruleId'' = JStr ''CP008'') (violations p4))
              = [JStr ''major_stopper'']
          \<and> map (\<lambda>v. js_get v ''type'')
                (filter (\<lambda>v. js_get v ''ruleId'' = JStr ''CP017'') (violations p4))
              = [JStr ''design_stopper''])
   \<and> (\<exists>p4. executePhase4Validation ValidationEngine (example_site\<lparr>lotSize := 8100\<rparr>)
               (second_unit_design\<lparr>secondUnitArea := Number 600\<rparr>) = Inr p4
          \<and> filter (\<lambda>v. js_get v ''ruleId'' = JStr ''CP008'') (violations p4) = []
          \<and> filter (\<lambda>v. js_get v ''ruleId'' = JStr ''CP017'') (violations p4) = [])"
proof -
  let ?zr = "\<lparr>minLotSize = 6000, maxLotSize = 9999, subStandardTypical = 4980,
             subStandardFlag = 5976, secondUnitMinTypical = 8100, secondUnitMinFlag = 9720\<rparr>"
  have z1: "zone_lookup PlanningEngine (zone (example_site\<lparr>lotSize := 8099\<rparr>)) = Some ?zr"
    by (simp add: zone_lookup_def PlanningEngine_def example_site_def)
  have z2: "zone_lookup PlanningEngine (zone (example_site\<lparr>lotSize := 8100\<rparr>)) = Some ?zr"
    by (simp add: zone_lookup_def PlanningEngine_def example_site_def)
  have h1: "hasSecondUnit (second_unit_design\<lparr>secondUnitArea := Number 700\<rparr>)"
    by (simp add: second_unit_design_def)
  have h2: "hasSecondUnit (second_unit_design\<lparr>secondUnitArea := Number 600\<rparr>)"
    by (simp add: second_unit_design_def)
  from second_unit_rules [OF z1, of "second_unit_design\<lparr>secondUnitArea := Number 700\<rparr>"]
       second_unit_rules [OF z2, of "second_unit_design\<lparr>secondUnitArea := Number 600\<rparr>"]
       z1 h1 h2
  show ?thesis
    by (auto simp add: Let_def example_site_def second_unit_design_def example_design_def
          fl_1000)
qed

section \<open>Driveway materials\<close>

text \<open>
  C7. The driveway-materials check fails exactly when the material is not one of concrete,
  asphalt and approved_pavers. Phase 3 then appends a warning and no violation: its
  violations do not depend on the material, so when the five other checks of the phase do
  not fail the phase has no violation and status \<open>passed\<close>, and the overall status of the
  workflow is the same for every material.
\<close>

theorem driveway_materials_failure_is_only_a_warning:
  "js_get (validateDrivewayMaterials dd) ''result''
     = JStr (if drivewayMaterial dd
                  \<in> {Some ''concrete'', Some ''asphalt'', Some ''approved_pavers''}
             then ''PASS'' else ''FAIL'')
   \<and> warnings (executePhase3Validation this sd dd)
     = (if drivewayMaterial dd \<in> {Some ''concrete'', Some ''asphalt'', Some ''approved_pavers''}
        then []
        else [JObj [(''type'', JStr ''materials''),
                    (''message'', JText [JStr ''Non-approved driveway material: '',
                                         js_of_str (drivewayMaterial dd)])]])
   \<and> violations (executePhase3Validation this sd (dd\<lparr>drivewayMaterial := m\<rparr>))
     = violations (executePhase3Validation this sd dd)
   \<and> (js_get (validateParkingSpaceCount dd) ''result'' \<noteq> JStr ''FAIL''
        \<and> js_get (validateCoveredParking dd) ''result'' \<noteq> JStr ''FAIL''
        \<and> js_get (validateDrivewayDimensions dd) ''result'' \<noteq> JStr ''FAIL''
        \<and> js_get (validateGaragePlacement sd dd) ''result'' \<noteq> JStr ''FAIL''
        \<and> js_get (validateVehicleManeuverability dd) ''result'' \<noteq> JStr ''FAIL''
        \<longrightarrow> violations (executePhase3Validation this sd dd) = []
            \<and> status (executePhase3Validation this sd dd) = ''passed'')
   \<and> overallStatus (executeValidationWorkflow ValidationEngine now sd
                       (dd\<lparr>drivewayMaterial := m\<rparr>))
     = overallStatus (executeValidationWorkflow ValidationEngine now sd dd)"
proof -
  have r: "js_get (validateDrivewayMaterials dd) ''result''
     = JStr (if drivewayMaterial dd
                  \<in> {Some ''concrete'', Some ''asphalt'', Some ''approved_pavers''}
             then ''PASS'' else ''FAIL'')"
    by (cases "drivewayMaterial dd") (auto simp add: validateDrivewayMaterials_def Let_def)
  have msg: "drivewayMaterial dd \<notin> {Some ''concrete'', Some ''asphalt'', Some ''approved_pavers''}
      \<Longrightarrow> js_get (validateDrivewayMaterials dd) ''message''
          = JText [JStr ''Non-approved driveway material: '', js_of_str (drivewayMaterial dd)]"
    by (cases "drivewayMaterial dd") (auto simp add: validateDrivewayMaterials_def Let_def)
  have w: "warnings (executePhase3Validation this sd dd)
     = (if drivewayMaterial dd \<in> {Some ''concrete'', Some ''asphalt'', Some ''approved_pavers''}
        then []
        else [JObj [(''type'', JStr ''materials''),
                    (''message'', JText [JStr ''Non-approved driveway material: '',
                                         js_of_str (drivewayMaterial dd)])]])"
    unfolding phase3_warnings r using msg by simp
  have p: "js_get (validateParkingSpaceCount dd) ''result'' \<noteq> JStr ''FAIL''
        \<and> js_get (validateCoveredParking dd) ''result'' \<noteq> JStr ''FAIL''
        \<and> js_get (validateDrivewayDimensions dd) ''result'' \<noteq> JStr ''FAIL''
        \<and> js_get (validateGaragePlacement sd dd) ''result'' \<noteq> JStr ''FAIL''
        \<and> js_get (validateVehicleManeuverability dd) ''result'' \<noteq> JStr ''FAIL''
        \<longrightarrow> violations (executePhase3Validation this sd dd) = []
            \<and> status (executePhase3Validation this sd dd) = ''passed''"
    unfolding phase3_status unfolding phase3_violations Let_def by simp
  from r w p material_phase3_violations [where this = this and sd = sd and dd = dd and m = m]
    material_overall_status [where this = ValidationEngine and now = now and sd = sd
      and dd = dd and m = m]
  show ?thesis
    by blast
qed

theorem driveway_materials_failure_is_only_a_warning_witness:
  "js_get (validateDrivewayMaterials (compliant_design\<lparr>drivewayMaterial := Some ''gravel''\<rparr>))
      ''result'' = JStr ''FAIL''
   \<and> warnings (executePhase3Validation ValidationEngine example_site
        (compliant_design\<lparr>drivewayMaterial := Some ''gravel''\<rparr>))
      = [JObj [(''type'', JStr ''materials''),
               (''message'', JText [JStr ''Non-approved driveway material: '', JStr ''gravel''])]]
   \<and> violations (executePhase3Validation ValidationEngine example_site
        (compliant_design\<lparr>drivewayMaterial := Some ''gravel''\<rparr>)) = []
   \<and> status (executePhase3Validation ValidationEngine example_site
        (compliant_design\<lparr>drivewayMaterial := Some ''gravel''\<rparr>)) = ''passed''
   \<and> overallStatus (executeValidationWorkflow ValidationEngine (\<lambda>n. n) example_site
        (compliant_design\<lparr>drivewayMaterial := Some ''gravel''\<rparr>)) = ''approved''"
proof -
  let ?dd = "compliant_design\<lparr>drivewayMaterial := Some ''gravel''\<rparr>"
  have m: "drivewayMaterial ?dd = Some ''gravel''"
    by simp
  have h: "js_get (validateParkingSpaceCount ?dd) ''result'' \<noteq> JStr ''FAIL''
        \<and> js_get (validateCoveredParking ?dd) ''result'' \<noteq> JStr ''FAIL''
        \<and> js_get (validateDrivewayDimensions ?dd) ''result'' \<noteq> JStr ''FAIL''
        \<and> js_get (validateGaragePlacement example_site ?dd) ''result'' \<noteq> JStr ''FAIL''
        \<and> js_get (validateVehicleManeuverability ?dd) ''result'' \<noteq> JStr ''FAIL''"
    by (simp add: example_defs validateParkingSpaceCount_def validateCoveredParking_def
          validateDrivewayDimensions_def validateGaragePlacement_def
          validateVehicleManeuverability_def)
  from driveway_materials_failure_is_only_a_warning
         [where dd = ?dd and this = ValidationEngine and sd = example_site
            and m = "Some ''gravel''" and now = "\<lambda>n. n"]
       driveway_materials_failure_is_only_a_warning
         [where dd = compliant_design and this = ValidationEngine and sd = example_site
            and m = "Some ''gravel''" and now = "\<lambda>n. n"]
       h compliant_run_approved [of "\<lambda>n. n"]
  show ?thesis
    unfolding m by simp
qed

section \<open>Unknown zones\<close>

text \<open>
  C8, as stated, fails for zone R-2 and for zone \<open>toString\<close>. For R-2 the lookup yields
  \<open>undefined\<close> and no error, and the error raised afterwards, when \<open>minLotSize\<close> is read, is
  a \<open>TypeError\<close>, whose name is not \<open>UnknownZoneError\<close>. For \<open>toString\<close> the lookup yields
  the method that the table inherits from \<open>Object.prototype\<close>, no error is raised at all, and
  both workflows run phase 1 on it: its \<open>minLotSize\<close> is \<open>undefined\<close>, the lot-size check
  fails, and the workflows end with status \<open>stopped\<close> and \<open>rejected\<close>.
\<close>

theorem unknown_zone_counterexample:
  "zone (example_site\<lparr>zone := ''R-2''\<rparr>)
     \<notin> set [''R-1'', ''R-1(7000)'', ''R-1(8000)'', ''R-1(10000)'', ''R-1(20000)'']
   \<and> zone_read PlanningEngine (zone (example_site\<lparr>zone := ''R-2''\<rparr>)) = NoZone
   \<and> zone_read ValidationEngine (zone (example_site\<lparr>zone := ''R-2''\<rparr>)) = NoZone
   \<and> verifyLotSize PlanningEngine (example_site\<lparr>zone := ''R-2''\<rparr>)
       = Inl (TypeError ''minLotSize'')
   \<and> validateLotSize ValidationEngine (example_site\<lparr>zone := ''R-2''\<rparr>)
       = Inl (TypeError ''minLotSize'')
   \<and> error_name (TypeError ''minLotSize'') \<noteq> ''UnknownZoneError''
   \<and> zone (example_site\<lparr>zone := ''toString''\<rparr>)
     \<notin> set [''R-1'', ''R-1(7000)'', ''R-1(8000)'', ''R-1(10000)'', ''R-1(20000)'']
   \<and> zone_read PlanningEngine (zone (example_site\<lparr>zone := ''toString''\<rparr>))
       = Inherited ''toString''
   \<and> zone_read ValidationEngine (zone (example_site\<lparr>zone := ''toString''\<rparr>))
       = Inherited ''toString''
   \<and> map_sum id (\<lambda>t. js_get t ''required'')
         (verifyLotSize PlanningEngine (example_site\<lparr>zone := ''toString''\<rparr>))
       = Inr JUndefined
   \<and> map_sum id (\<lambda>c. js_get c ''required'')
         (validateLotSize ValidationEngine (example_site\<lparr>zone := ''toString''\<rparr>))
       = Inr JUndefined
   \<and> error (executePlanningWorkflow PlanningEngine (clock_at 0)
         (example_site\<lparr>zone := ''toString''\<rparr>)) = None
   \<and> overallStatus (executePlanningWorkflow PlanningEngine (clock_at 0)
         (example_site\<lparr>zone := ''toString''\<rparr>)) = ''stopped''
   \<and> map fst (phases (executePlanningWorkflow PlanningEngine (clock_at 0)
         (example_site\<lparr>zone := ''toString''\<rparr>))) = [''phase1'']
   \<and> error (executeValidationWorkflow ValidationEngine (clock_at 0)
         (example_site\<lparr>zone := ''toString''\<rparr>) example_design) = None
   \<and> overallStatus (executeValidationWorkflow ValidationEngine (clock_at 0)
         (example_site\<lparr>zone := ''toString''\<rparr>) example_design) = ''rejected''
   \<and> map fst (phases (executeValidationWorkflow ValidationEngine (clock_at 0)
         (example_site\<lparr>zone := ''toString''\<rparr>) example_design)) = [''phase1'']"
proof -
  let ?r = "example_site\<lparr>zone := ''R-2''\<rparr>"
  let ?t = "example_site\<lparr>zone := ''toString''\<rparr>"
  have r: "zone_read PlanningEngine (zone ?r) = NoZone"
    "zone_read ValidationEngine (zone ?r) = NoZone"
    by (simp_all add: zone_read_def zone_lookup_def PlanningEngine_def ValidationEngine_def
          Object_prototype_properties_def example_site_def)
  have t: "zone_read PlanningEngine (zone ?t) = Inherited ''toString''"
    "zone_read ValidationEngine (zone ?t) = Inherited ''toString''"
    by (simp_all add: zone_read_def zone_lookup_def PlanningEngine_def ValidationEngine_def
          Object_prototype_properties_def example_site_def)
  have z: "zone ?r \<notin> set [''R-1'', ''R-1(7000)'', ''R-1(8000)'', ''R-1(10000)'', ''R-1(20000)'']"
    "zone ?t \<notin> set [''R-1'', ''R-1(7000)'', ''R-1(8000)'', ''R-1(10000)'', ''R-1(20000)'']"
    by simp_all
  have e: "verifyLotSize PlanningEngine ?r = Inl (TypeError ''minLotSize'')"
    "validateLotSize ValidationEngine ?r = Inl (TypeError ''minLotSize'')"
    "error_name (TypeError ''minLotSize'') \<noteq> ''UnknownZoneError''"
    unfolding verifyLotSize_def validateLotSize_def Let_def r by simp_all
  have u: "map_sum id (\<lambda>t. js_get t ''required'') (verifyLotSize PlanningEngine ?t)
       = Inr JUndefined"
    "map_sum id (\<lambda>c. js_get c ''required'') (validateLotSize ValidationEngine ?t)
       = Inr JUndefined"
    unfolding verifyLotSize_def validateLotSize_def Let_def t by (simp_all add: js_ge_def)
  from planning_phase1_inherited [OF t(1)] have p:
    "error (executePlanningWorkflow PlanningEngine (clock_at 0) ?t) = None"
    "overallStatus (executePlanningWorkflow PlanningEngine (clock_at 0) ?t) = ''stopped''"
    "map fst (phases (executePlanningWorkflow PlanningEngine (clock_at 0) ?t)) = [''phase1'']"
    by (auto simp add: planning_workflow_cases)
  from phase1_inherited [OF t(2), of example_design] have v:
    "error (executeValidationWorkflow ValidationEngine (clock_at 0) ?t example_design) = None"
    "overallStatus (executeValidationWorkflow ValidationEngine (clock_at 0) ?t example_design)
       = ''rejected''"
    "map fst (phases (executeValidationWorkflow ValidationEngine (clock_at 0) ?t
       example_design)) = [''phase1'']"
    by (auto simp add: workflow_cases)
  from z r t e u p v show ?thesis
    by blast
qed

text \<open>
  C8, as the code has it. A zone that is not one of the five zones of the table is not an own
  property of the table, and the lookup signals no error.

  If the zone is not the name of a property of \<open>Object.prototype\<close> either, the lookup returns
  \<open>undefined\<close>; \<open>verifyLotSize\<close> and \<open>validateLotSize\<close> then raise a \<open>TypeError\<close> when they
  read \<open>minLotSize\<close>, and both workflows catch it and return with overall status \<open>error\<close>,
  the error recorded, and no phase result.

  If the zone is the name of a property of \<open>Object.prototype\<close>, the lookup returns the
  inherited value, whose \<open>minLotSize\<close> is \<open>undefined\<close>: the lot-size check fails, with
  \<open>undefined\<close> as the required size, phase 1 ends with status \<open>stopped\<close> (planning) or
  \<open>critical_failure\<close> (validation), and the workflows return after phase 1 with overall status
  \<open>stopped\<close> and \<open>rejected\<close>, no error recorded.

  In neither case does a workflow record an error named \<open>UnknownZoneError\<close>.
\<close>

theorem unknown_zone_outcomes:
  assumes "zone sd \<notin> set [''R-1'', ''R-1(7000)'', ''R-1(8000)'', ''R-1(10000)'', ''R-1(20000)'']"
  shows "zone_lookup PlanningEngine (zone sd) = None
       \<and> zone_lookup ValidationEngine (zone sd) = None
       \<and> (zone sd \<notin> set Object_prototype_properties \<longrightarrow>
            zone_read PlanningEngine (zone sd) = NoZone
          \<and> zone_read ValidationEngine (zone sd) = NoZone
          \<and> verifyLotSize PlanningEngine sd = Inl (TypeError ''minLotSize'')
          \<and> validateLotSize ValidationEngine sd = Inl (TypeError ''minLotSize'')
          \<and> executePlanningWorkflow PlanningEngine now sd =
               \<lparr>startTime = now 0, siteData = sd, phases = [], overallStatus = ''error'',
                finalReport = JNull, stopReason = None,
                error = Some (TypeError ''minLotSize''), endTime = None\<rparr>
          \<and> executeValidationWorkflow ValidationEngine now sd dd =
               \<lparr>startTime = now 0, siteData = sd, phases = [], overallStatus = ''error'',
                finalReport = JNull, stopReason = None,
                error = Some (TypeError ''minLotSize''), endTime = None, designData = dd\<rparr>)
       \<and> (zone sd \<in> set Object_prototype_properties \<longrightarrow>
            zone_read PlanningEngine (zone sd) = Inherited (zone sd)
          \<and> zone_read ValidationEngine (zone sd) = Inherited (zone sd)
          \<and> (\<exists>task. verifyLotSize PlanningEngine sd = Inr task
                \<and> js_get task ''status'' = JStr ''fail''
                \<and> js_get task ''required'' = JUndefined)
          \<and> (\<exists>check. validateLotSize ValidationEngine sd = Inr check
                \<and> js_get check ''result'' = JStr ''FAIL''
                \<and> js_get check ''required'' = JUndefined)
          \<and> (\<exists>p1. executePhase1 PlanningEngine sd = Inr p1
                \<and> status p1 = ''stopped''
                \<and> executePlanningWorkflow PlanningEngine now sd =
                     \<lparr>startTime = now 0, siteData = sd, phases = [(''phase1'', p1)],
                      overallStatus = ''stopped'', finalReport = JNull,
                      stopReason = Some ''Critical site constraints identified'',
                      error = None, endTime = None\<rparr>)
          \<and> (\<exists>p1. executePhase1Validation ValidationEngine sd dd = Inr p1
                \<and> status p1 = ''critical_failure''
                \<and> executeValidationWorkflow ValidationEngine now sd dd =
                     \<lparr>startTime = now 0, siteData = sd, phases = [(''phase1'', p1)],
                      overallStatus = ''rejected'', finalReport = JNull,
                      stopReason = Some ''Critical site validation failures'',
                      error = None, endTime = None, designData = dd\<rparr>))
       \<and> (\<forall>e. error (executePlanningWorkflow PlanningEngine now sd) = Some e
              \<longrightarrow> error_name e \<noteq> ''UnknownZoneError'')
       \<and> (\<forall>e. error (executeValidationWorkflow ValidationEngine now sd dd) = Some e
              \<longrightarrow> error_name e \<noteq> ''UnknownZoneError'')"
proof -
  from assms have p: "zone_lookup PlanningEngine (zone sd) = None"
    by (simp add: zone_lookup_def PlanningEngine_def)
  then have v: "zone_lookup ValidationEngine (zone sd) = None"
    by (simp add: zone_lookup_def zone_tables_agree)
  have a: "zone_read PlanningEngine (zone sd) = NoZone
          \<and> zone_read ValidationEngine (zone sd) = NoZone
          \<and> verifyLotSize PlanningEngine sd = Inl (TypeError ''minLotSize'')
          \<and> validateLotSize ValidationEngine sd = Inl (TypeError ''minLotSize'')
          \<and> executePlanningWorkflow PlanningEngine now sd =
               \<lparr>startTime = now 0, siteData = sd, phases = [], overallStatus = ''error'',
                finalReport = JNull, stopReason = None,
                error = Some (TypeError ''minLotSize''), endTime = None\<rparr>
          \<and> executeValidationWorkflow ValidationEngine now sd dd =
               \<lparr>startTime = now 0, siteData = sd, phases = [], overallStatus = ''error'',
                finalReport = JNull, stopReason = None,
                error = Some (TypeError ''minLotSize''), endTime = None, designData = dd\<rparr>"
    if n: "zone sd \<notin> set Object_prototype_properties"
  proof -
    note rp = zone_read_absent [OF p n]
    note rv = zone_read_absent [OF v n]
    show ?thesis
      by (simp add: rp rv planning_workflow_cases workflow_cases
            planning_phase1_unknown_zone [OF rp] phase1_unknown_zone [OF rv]
            verifyLotSize_def validateLotSize_def)
  qed
  have b: "zone_read PlanningEngine (zone sd) = Inherited (zone sd)
          \<and> zone_read ValidationEngine (zone sd) = Inherited (zone sd)
          \<and> (\<exists>task. verifyLotSize PlanningEngine sd = Inr task
                \<and> js_get task ''status'' = JStr ''fail''
                \<and> js_get task ''required'' = JUndefined)
          \<and> (\<exists>check. validateLotSize ValidationEngine sd = Inr check
                \<and> js_get check ''result'' = JStr ''FAIL''
                \<and> js_get check ''required'' = JUndefined)
          \<and> (\<exists>p1. executePhase1 PlanningEngine sd = Inr p1
                \<and> status p1 = ''stopped''
                \<and> executePlanningWorkflow PlanningEngine now sd =
                     \<lparr>startTime = now 0, siteData = sd, phases = [(''phase1'', p1)],
                      overallStatus = ''stopped'', finalReport = JNull,
                      stopReason = Some ''Critical site constraints identified'',
                      error = None, endTime = None\<rparr>)
          \<and> (\<exists>p1. executePhase1Validation ValidationEngine sd dd = Inr p1
                \<and> status p1 = ''critical_failure''
                \<and> executeValidationWorkflow ValidationEngine now sd dd =
                     \<lparr>startTime = now 0, siteData = sd, phases = [(''phase1'', p1)],
                      overallStatus = ''rejected'', finalReport = JNull,
                      stopReason = Some ''Critical site validation failures'',
                      error = None, endTime = None, designData = dd\<rparr>)"
    if i: "zone sd \<in> set Object_prototype_properties"
  proof -
    note rp = zone_read_inherited [OF p i]
    note rv = zone_read_inherited [OF v i]
    have c: "\<exists>task. verifyLotSize PlanningEngine sd = Inr task
                \<and> js_get task ''status'' = JStr ''fail''
                \<and> js_get task ''required'' = JUndefined"
      "\<exists>check. validateLotSize ValidationEngine sd = Inr check
                \<and> js_get check ''result'' = JStr ''FAIL''
                \<and> js_get check ''required'' = JUndefined"
      by (simp_all add: verifyLotSize_def validateLotSize_def rp rv Let_def js_ge_def)
    from planning_phase1_inherited [OF rp] obtain p1 where
      p1: "executePhase1 PlanningEngine sd = Inr p1" "status p1 = ''stopped''"
      by blast
    from phase1_inherited [OF rv, of dd] obtain q1 where
      q1: "executePhase1Validation ValidationEngine sd dd = Inr q1"
        "status q1 = ''critical_failure''"
      by blast
    from p1 have wp: "\<exists>p1. executePhase1 PlanningEngine sd = Inr p1
                \<and> status p1 = ''stopped''
                \<and> executePlanningWorkflow PlanningEngine now sd =
                     \<lparr>startTime = now 0, siteData = sd, phases = [(''phase1'', p1)],
                      overallStatus = ''stopped'', finalReport = JNull,
                      stopReason = Some ''Critical site constraints identified'',
                      error = None, endTime = None\<rparr>"
      by (simp add: planning_workflow_cases)
    from q1 have wv: "\<exists>p1. executePhase1Validation ValidationEngine sd dd = Inr p1
                \<and> status p1 = ''critical_failure''
                \<and> executeValidationWorkflow ValidationEngine now sd dd =
                     \<lparr>startTime = now 0, siteData = sd, phases = [(''phase1'', p1)],
                      overallStatus = ''rejected'', finalReport = JNull,
                      stopReason = Some ''Critical site validation failures'',
                      error = None, endTime = None, designData = dd\<rparr>"
      by (simp add: workflow_cases)
    from rp rv c wp wv show ?thesis
      by blast
  qed
  have n: "\<forall>e. error (executePlanningWorkflow PlanningEngine now sd) = Some e
              \<longrightarrow> error_name e \<noteq> ''UnknownZoneError''"
    "\<forall>e. error (executeValidationWorkflow ValidationEngine now sd dd) = Some e
              \<longrightarrow> error_name e \<noteq> ''UnknownZoneError''"
    using a b by (cases "zone sd \<in> set Object_prototype_properties"; fastforce)+
  from p v a b n show ?thesis
    by blast
qed

theorem unknown_zone_outcomes_witness:
  "zone (example_site\<lparr>zone := ''R-2''\<rparr>)
     \<notin> set [''R-1'', ''R-1(7000)'', ''R-1(8000)'', ''R-1(10000)'', ''R-1(20000)'']
   \<and> zone (example_site\<lparr>zone := ''R-2''\<rparr>) \<notin> set Object_prototype_properties
   \<and> overallStatus (executePlanningWorkflow PlanningEngine (clock_at 0)
         (example_site\<lparr>zone := ''R-2''\<rparr>)) = ''error''
   \<and> overallStatus (executeValidationWorkflow ValidationEngine (clock_at 0)
         (example_site\<lparr>zone := ''R-2''\<rparr>) example_design) = ''error''
   \<and> phases (executeValidationWorkflow ValidationEngine (clock_at 0)
         (example_site\<lparr>zone := ''R-2''\<rparr>) example_design) = []
   \<and> error (executeValidationWorkflow ValidationEngine (clock_at 0)
         (example_site\<lparr>zone := ''R-2''\<rparr>) example_design) = Some (TypeError ''minLotSize'')
   \<and> error_name (TypeError ''minLotSize'') \<noteq> ''UnknownZoneError''
   \<and> zone (example_site\<lparr>zone := ''constructor''\<rparr>)
     \<notin> set [''R-1'', ''R-1(7000)'', ''R-1(8000)'', ''R-1(10000)'', ''R-1(20000)'']
   \<and> zone (example_site\<lparr>zone := ''constructor''\<rparr>) \<in> set Object_prototype_properties
   \<and> overallStatus (executePlanningWorkflow PlanningEngine (clock_at 0)
         (example_site\<lparr>zone := ''constructor''\<rparr>)) = ''stopped''
   \<and> overallStatus (executeValidationWorkflow ValidationEngine (clock_at 0)
         (example_site\<lparr>zone := ''constructor''\<rparr>) example_design) = ''rejected''
   \<and> map fst (phases (executeValidationWorkflow ValidationEngine (clock_at 0)
         (example_site\<lparr>zone := ''constructor''\<rparr>) example_design)) = [''phase1'']"
proof -
  let ?r = "example_site\<lparr>zone := ''R-2''\<rparr>"
  let ?c = "example_site\<lparr>zone := ''constructor''\<rparr>"
  have zr: "zone ?r \<notin> set [''R-1'', ''R-1(7000)'', ''R-1(8000)'', ''R-1(10000)'', ''R-1(20000)'']"
    by simp
  have zc: "zone ?c \<notin> set [''R-1'', ''R-1(7000)'', ''R-1(8000)'', ''R-1(10000)'', ''R-1(20000)'']"
    by simp
  have nr: "zone ?r \<notin> set Object_prototype_properties"
    by (simp add: Object_prototype_properties_def)
  have ic: "zone ?c \<in> set Object_prototype_properties"
    by (simp add: Object_prototype_properties_def)
  from unknown_zone_outcomes [OF zr, of "clock_at 0" example_design] nr
  have r: "overallStatus (executePlanningWorkflow PlanningEngine (clock_at 0) ?r) = ''error''
     \<and> overallStatus (executeValidationWorkflow ValidationEngine (clock_at 0) ?r
           example_design) = ''error''
     \<and> phases (executeValidationWorkflow ValidationEngine (clock_at 0) ?r example_design) = []
     \<and> error (executeValidationWorkflow ValidationEngine (clock_at 0) ?r example_design)
         = Some (TypeError ''minLotSize'')
     \<and> error_name (TypeError ''minLotSize'') \<noteq> ''UnknownZoneError''"
    by simp
  from unknown_zone_outcomes [OF zc, of "clock_at 0" example_design] ic
  have c: "overallStatus (executePlanningWorkflow PlanningEngine (clock_at 0) ?c) = ''stopped''
     \<and> overallStatus (executeValidationWorkflow ValidationEngine (clock_at 0) ?c
           example_design) = ''rejected''
     \<and> map fst (phases (executeValidationWorkflow ValidationEngine (clock_at 0) ?c
           example_design)) = [''phase1'']"
    by auto
  from zr zc nr ic r c show ?thesis
    by blast
qed

section \<open>Two runs of the validation workflow\<close>

text \<open>
  C9, as stated, fails for phase 5: with the same site, design and previous results, its
  result differs with the clock, because the report carries the validation date.
\<close>

theorem phase5_result_depends_on_clock:
  "js_get (js_get (phase_result.finalReport
       (executePhase5Validation ValidationEngine (clock_at 0) example_site example_design []))
       ''projectSummary'') ''validationDate'' = JDate 0
   \<and> js_get (js_get (phase_result.finalReport
       (executePhase5Validation ValidationEngine (clock_at 1) example_site example_design []))
       ''projectSummary'') ''validationDate'' = JDate 1
   \<and> executePhase5Validation ValidationEngine (clock_at 0) example_site example_design []
       \<noteq> executePhase5Validation ValidationEngine (clock_at 1) example_site example_design []"
proof -
  have a: "js_get (js_get (phase_result.finalReport
       (executePhase5Validation ValidationEngine (clock_at 0) example_site example_design []))
       ''projectSummary'') ''validationDate'' = JDate 0"
    by (simp add: phase5_validation_date clock_at_def)
  have b: "js_get (js_get (phase_result.finalReport
       (executePhase5Validation ValidationEngine (clock_at 1) example_site example_design []))
       ''projectSummary'') ''validationDate'' = JDate 1"
    by (simp add: phase5_validation_date clock_at_def)
  have "executePhase5Validation ValidationEngine (clock_at 0) example_site example_design []
       \<noteq> executePhase5Validation ValidationEngine (clock_at 1) example_site example_design []"
  proof
    assume e: "executePhase5Validation ValidationEngine (clock_at 0) example_site example_design []
       = executePhase5Validation ValidationEngine (clock_at 1) example_site example_design []"
    from a b show False
      unfolding e by simp
  qed
  with a b show ?thesis
    by blast
qed

text \<open>
  C9, as the code has it. Two runs of the validation workflow on the same site and design,
  with the same engine and any two clocks, have the same overall status, the same
  violations in every phase, the same phase results apart from the final report held by
  phase 5, the same error and stop reason, and reports that agree on every key other than
  \<open>projectSummary\<close> (which holds the validation date). The start and end times are clock
  readings.
\<close>

theorem validation_runs_differ_only_in_clock_readings:
  "(let w1 = executeValidationWorkflow this now1 sd dd;
        w2 = executeValidationWorkflow this now2 sd dd in
    overallStatus w1 = overallStatus w2
    \<and> map (\<lambda>(k, r). (k, violations r)) (phases w1)
        = map (\<lambda>(k, r). (k, violations r)) (phases w2)
    \<and> map (\<lambda>(k, r). (k, r\<lparr>phase_result.finalReport := JNull\<rparr>)) (phases w1)
        = map (\<lambda>(k, r). (k, r\<lparr>phase_result.finalReport := JNull\<rparr>)) (phases w2)
    \<and> error w1 = error w2
    \<and> stopReason w1 = stopReason w2
    \<and> js_get (finalReport w1) ''overallStatus'' = js_get (finalReport w2) ''overallStatus''
    \<and> js_get (finalReport w1) ''violationSummary'' = js_get (finalReport w2) ''violationSummary''
    \<and> js_get (finalReport w1) ''phaseResults'' = js_get (finalReport w2) ''phaseResults''
    \<and> js_get (finalReport w1) ''violations'' = js_get (finalReport w2) ''violations''
    \<and> js_get (finalReport w1) ''nextSteps'' = js_get (finalReport w2) ''nextSteps''
    \<and> js_get (finalReport w1) ''estimatedResolution''
        = js_get (finalReport w2) ''estimatedResolution'')"
proof (cases "executePhase1Validation this sd dd")
  case (Inl e)
  then show ?thesis by (simp add: workflow_cases)
next
  case p1: (Inr p1)
  show ?thesis
  proof (cases "status p1 = ''critical_failure''")
    case True
    with p1 show ?thesis by (simp add: workflow_cases)
  next
    case nc: False
    show ?thesis
    proof (cases "executePhase4Validation this sd dd")
      case (Inl e)
      with p1 nc show ?thesis by (simp add: workflow_cases)
    next
      case p4: (Inr p4)
      let ?prev = "[(''phase1'', p1), (''phase2'', executePhase2Validation this sd dd p1),
                    (''phase3'', executePhase3Validation this sd dd), (''phase4'', p4)]"
      note c = phase5_clock [where now = "\<lambda>n. now1 (Suc n)" and now' = "\<lambda>n. now2 (Suc n)"
          and this = this and sd = sd and dd = dd and prev = ?prev and x = JNull]
        phase5_clock_status [where now = "\<lambda>n. now1 (Suc n)"
          and now' = "\<lambda>n. now2 (Suc n)" and this = this and sd = sd and dd = dd
          and prev = ?prev]
        phase5_clock_violations [where now = "\<lambda>n. now1 (Suc n)"
          and now' = "\<lambda>n. now2 (Suc n)" and this = this and sd = sd and dd = dd
          and prev = ?prev]
        phase5_clock_report [where now = "\<lambda>n. now1 (Suc n)"
          and now' = "\<lambda>n. now2 (Suc n)" and this = this and sd = sd and dd = dd
          and prev = ?prev]
      from p1 nc p4 show ?thesis
        by (simp add: workflow_cases Let_def c)
    qed
  qed
qed

section \<open>Total coverage with features\<close>



end
